theory Spec2Isabelle
  imports Complex_Main
begin

section \<open>JavaScript values used by the validators\<close>

subsection \<open>Strings\<close>

text \<open>
  A string is the UTF-8 encoding of the JavaScript string, a list of bytes; a surrogate
  without its pair is written as the three bytes of its code point. Equality, concatenation
  with ASCII text, splitting at a hyphen and testing for an ASCII prefix are the same on the
  encoding. The length of a JavaScript string counts UTF-16 code units: one for each
  character of one to three bytes, two for a character of four bytes.
\<close>

definition utf16Units :: "char \<Rightarrow> nat" where
  "utf16Units c =
     (let n = (of_char c :: nat)
      in if n < 0x80 then 1 else if n < 0xC0 then 0 else if n < 0xF0 then 1 else 2)"

definition utf16Length :: "string \<Rightarrow> nat" where
  "utf16Length s = sum_list (map utf16Units s)"

text \<open>The mapping of the ASCII letters; every other byte is left as it is.\<close>

definition toLowerCaseChar :: "char \<Rightarrow> char" where
  "toLowerCaseChar c =
     (case map_of (zip ''ABCDEFGHIJKLMNOPQRSTUVWXYZ'' ''abcdefghijklmnopqrstuvwxyz'') c of
        None \<Rightarrow> c | Some d \<Rightarrow> d)"

definition toUpperCaseChar :: "char \<Rightarrow> char" where
  "toUpperCaseChar c =
     (case map_of (zip ''abcdefghijklmnopqrstuvwxyz'' ''ABCDEFGHIJKLMNOPQRSTUVWXYZ'') c of
        None \<Rightarrow> c | Some d \<Rightarrow> d)"

text \<open>
  The characters outside ASCII whose image under \<open>toUpperCase\<close> has an ASCII character,
  each with its image: U+017F (long s), U+0131 (dotless i), U+00DF (sharp s), the ligatures
  U+FB00 to U+FB06, and U+0149, U+01F0, U+1E96 to U+1E9A, whose image is a letter with a
  combining or modifier character.
\<close>

definition upperSpecials :: "(string \<times> string) list" where
  "upperSpecials =
    [([CHR 0xC5, CHR 0xBF], ''S''),
     ([CHR 0xC4, CHR 0xB1], ''I''),
     ([CHR 0xC3, CHR 0x9F], ''SS''),
     ([CHR 0xEF, CHR 0xAC, CHR 0x80], ''FF''),
     ([CHR 0xEF, CHR 0xAC, CHR 0x81], ''FI''),
     ([CHR 0xEF, CHR 0xAC, CHR 0x82], ''FL''),
     ([CHR 0xEF, CHR 0xAC, CHR 0x83], ''FFI''),
     ([CHR 0xEF, CHR 0xAC, CHR 0x84], ''FFL''),
     ([CHR 0xEF, CHR 0xAC, CHR 0x85], ''ST''),
     ([CHR 0xEF, CHR 0xAC, CHR 0x86], ''ST''),
     ([CHR 0xC5, CHR 0x89], [CHR 0xCA, CHR 0xBC, CHR ''N'']),
     ([CHR 0xC7, CHR 0xB0], [CHR ''J'', CHR 0xCC, CHR 0x8C]),
     ([CHR 0xE1, CHR 0xBA, CHR 0x96], [CHR ''H'', CHR 0xCC, CHR 0xB1]),
     ([CHR 0xE1, CHR 0xBA, CHR 0x97], [CHR ''T'', CHR 0xCC, CHR 0x88]),
     ([CHR 0xE1, CHR 0xBA, CHR 0x98], [CHR ''W'', CHR 0xCC, CHR 0x8A]),
     ([CHR 0xE1, CHR 0xBA, CHR 0x99], [CHR ''Y'', CHR 0xCC, CHR 0x8A]),
     ([CHR 0xE1, CHR 0xBA, CHR 0x9A], [CHR ''A'', CHR 0xCA, CHR 0xBE])]"

text \<open>
  The same for \<open>toLowerCase\<close>: U+212A (Kelvin sign) and U+0130 (capital I with dot above).
\<close>

definition lowerSpecials :: "(string \<times> string) list" where
  "lowerSpecials =
    [([CHR 0xE2, CHR 0x84, CHR 0xAA], ''k''),
     ([CHR 0xC4, CHR 0xB0], [CHR ''i'', CHR 0xCC, CHR 0x87])]"

definition isPrefix :: "string \<Rightarrow> string \<Rightarrow> bool" where
  "isPrefix p s = (take (length p) s = p)"

text \<open>The image and the number of bytes of the first special character \<open>s\<close> starts with.\<close>

fun matchSpecial :: "(string \<times> string) list \<Rightarrow> string \<Rightarrow> (string \<times> nat) option" where
  "matchSpecial [] s = None"
| "matchSpecial ((p, img) # t) s =
     (if isPrefix p s then Some (img, length p) else matchSpecial t s)"

text \<open>
  A case conversion runs over the bytes; \<open>k\<close> counts the bytes still to skip of a special
  character whose image is already written.

  \<open>toUpperCase\<close> and \<open>toLowerCase\<close> are exact on every character whose image has an
  ASCII character. Every other character keeps its bytes, where JavaScript may give it
  another image, without any ASCII character either. The validators use a converted string
  only to compare it with ASCII strings and to look it up in tables with ASCII keys, which
  comes out the same.
\<close>

fun mapCase :: "(char \<Rightarrow> char) \<Rightarrow> (string \<times> string) list \<Rightarrow> nat \<Rightarrow> string \<Rightarrow> string" where
  "mapCase f specials k [] = []"
| "mapCase f specials (Suc k) (c # cs) = mapCase f specials k cs"
| "mapCase f specials 0 (c # cs) =
     (case matchSpecial specials (c # cs) of
        Some (img, n) \<Rightarrow> img @ mapCase f specials (n - 1) cs
      | None \<Rightarrow> f c # mapCase f specials 0 cs)"

definition toLowerCase :: "string \<Rightarrow> string" where
  "toLowerCase s = mapCase toLowerCaseChar lowerSpecials 0 s"

definition toUpperCase :: "string \<Rightarrow> string" where
  "toUpperCase s = mapCase toUpperCaseChar upperSpecials 0 s"

text \<open>
  The white space and line terminators that \<open>trim\<close> strips: U+0009 to U+000D, U+0020,
  U+00A0, U+1680, U+2000 to U+200A, U+2028, U+2029, U+202F, U+205F, U+3000 and U+FEFF.
\<close>

definition whiteSpace :: "string list" where
  "whiteSpace =
    [[CHR 0x09], [CHR 0x0A], [CHR 0x0B], [CHR 0x0C], [CHR 0x0D], [CHR 0x20],
     [CHR 0xC2, CHR 0xA0],
     [CHR 0xE1, CHR 0x9A, CHR 0x80],
     [CHR 0xE2, CHR 0x80, CHR 0x80], [CHR 0xE2, CHR 0x80, CHR 0x81],
     [CHR 0xE2, CHR 0x80, CHR 0x82], [CHR 0xE2, CHR 0x80, CHR 0x83],
     [CHR 0xE2, CHR 0x80, CHR 0x84], [CHR 0xE2, CHR 0x80, CHR 0x85],
     [CHR 0xE2, CHR 0x80, CHR 0x86], [CHR 0xE2, CHR 0x80, CHR 0x87],
     [CHR 0xE2, CHR 0x80, CHR 0x88], [CHR 0xE2, CHR 0x80, CHR 0x89],
     [CHR 0xE2, CHR 0x80, CHR 0x8A],
     [CHR 0xE2, CHR 0x80, CHR 0xA8], [CHR 0xE2, CHR 0x80, CHR 0xA9],
     [CHR 0xE2, CHR 0x80, CHR 0xAF],
     [CHR 0xE2, CHR 0x81, CHR 0x9F],
     [CHR 0xE3, CHR 0x80, CHR 0x80],
     [CHR 0xEF, CHR 0xBB, CHR 0xBF]]"

text \<open>The number of bytes of the white space character \<open>s\<close> starts with.\<close>

fun matchWhiteSpace :: "string list \<Rightarrow> string \<Rightarrow> nat option" where
  "matchWhiteSpace [] s = None"
| "matchWhiteSpace (w # ws) s = (if isPrefix w s then Some (length w) else matchWhiteSpace ws s)"

text \<open>
  Dropping the leading characters that are in the list \<open>ws\<close>; \<open>k\<close> counts the bytes still
  to drop of the character found.
\<close>

fun dropLeading :: "string list \<Rightarrow> nat \<Rightarrow> string \<Rightarrow> string" where
  "dropLeading ws k [] = []"
| "dropLeading ws (Suc k) (c # cs) = dropLeading ws k cs"
| "dropLeading ws 0 (c # cs) =
     (case matchWhiteSpace ws (c # cs) of
        Some n \<Rightarrow> dropLeading ws (n - 1) cs
      | None \<Rightarrow> c # cs)"

text \<open>At the end of the string the characters are met in reverse, byte by byte.\<close>

definition trim :: "string \<Rightarrow> string" where
  "trim s = rev (dropLeading (map rev whiteSpace) 0 (rev (dropLeading whiteSpace 0 s)))"

fun startsWith :: "string \<Rightarrow> string \<Rightarrow> bool" where
  "startsWith s [] = True"
| "startsWith [] (p # ps) = False"
| "startsWith (c # cs) (p # ps) = (c = p \<and> startsWith cs ps)"

fun join :: "string \<Rightarrow> string list \<Rightarrow> string" where
  "join sep [] = []"
| "join sep [x] = x"
| "join sep (x # y # ys) = x @ sep @ join sep (y # ys)"

subsection \<open>Numbers, cells and dates\<close>

text \<open>
  A JavaScript number is a finite value, an infinity or NaN. The validators only compare
  the numbers of cells with zero, so the finite values are reals.
\<close>

datatype number = NaN | NegInfinity | Finite real | PosInfinity

text \<open>\<open>val === 0\<close> and \<open>val > 0\<close> on numbers.\<close>

fun isZero :: "number \<Rightarrow> bool" where
  "isZero (Finite x) = (x = 0)"
| "isZero _ = False"

fun greaterThanZero :: "number \<Rightarrow> bool" where
  "greaterThanZero (Finite x) = (0 < x)"
| "greaterThanZero PosInfinity = True"
| "greaterThanZero _ = False"

text \<open>A spreadsheet cell value: \<open>number | string | null | undefined\<close>.\<close>

datatype cell = Null | Undefined | Number number | String string

text \<open>
  A \<open>Date\<close> is read through \<open>getUTCFullYear()\<close> and \<open>getUTCMonth()\<close> only. It is a
  valid date, with its UTC year and its UTC month counted from 0, or the Invalid Date that
  \<open>new Date(ms)\<close> gives for a time value out of range. The two getters return a whole
  number, or NaN for the Invalid Date: \<open>None\<close> stands for NaN.
\<close>

datatype Date = InvalidDate | ValidDate int nat

fun getUTCFullYear :: "Date \<Rightarrow> int option" where
  "getUTCFullYear InvalidDate = None"
| "getUTCFullYear (ValidDate y m) = Some y"

fun getUTCMonth :: "Date \<Rightarrow> nat option" where
  "getUTCMonth InvalidDate = None"
| "getUTCMonth (ValidDate y m) = Some m"

text \<open>
  Arithmetic and comparison on whole numbers that may be NaN: a sum with NaN is NaN, and
  every comparison with NaN is false.
\<close>

fun numAdd :: "nat option \<Rightarrow> nat option \<Rightarrow> nat option" where
  "numAdd (Some a) (Some b) = Some (a + b)"
| "numAdd _ _ = None"

fun Math_max :: "nat option \<Rightarrow> nat option \<Rightarrow> nat option" where
  "Math_max (Some a) (Some b) = Some (max a b)"
| "Math_max _ _ = None"

fun strictEquals :: "'a option \<Rightarrow> 'a option \<Rightarrow> bool" where
  "strictEquals (Some a) (Some b) = (a = b)"
| "strictEquals _ _ = False"

fun lessThan :: "'a::linorder option \<Rightarrow> 'a option \<Rightarrow> bool" where
  "lessThan (Some a) (Some b) = (a < b)"
| "lessThan _ _ = False"

fun lessOrEqual :: "'a::linorder option \<Rightarrow> 'a option \<Rightarrow> bool" where
  "lessOrEqual (Some a) (Some b) = (a \<le> b)"
| "lessOrEqual _ _ = False"

text \<open>
  A property read \<open>TABLE[key]\<close> on an object literal finds the own property of that name,
  or else the member of \<open>Object.prototype\<close> of that name, or else \<open>undefined\<close>. An
  inherited member is a function or an object: it is truthy and it is no value of the table.
\<close>

datatype 'a property = Absent | Own 'a | Inherited string

definition objectPrototype :: "string list" where
  "objectPrototype =
    [''constructor'', ''__defineGetter__'', ''__defineSetter__'', ''hasOwnProperty'',
     ''__lookupGetter__'', ''__lookupSetter__'', ''isPrototypeOf'', ''propertyIsEnumerable'',
     ''toString'', ''valueOf'', ''__proto__'', ''toLocaleString'']"

definition getProperty :: "(string \<times> 'a) list \<Rightarrow> string \<Rightarrow> 'a property" where
  "getProperty table key =
     (case map_of table key of
        Some v \<Rightarrow> Own v
      | None \<Rightarrow> if key \<in> set objectPrototype then Inherited key else Absent)"

text \<open>
  An inherited member inside a template literal is written as its text. The member
  \<open>__proto__\<close> is \<open>Object.prototype\<close> itself, with the text \<open>[object Object]\<close>; the
  member \<open>constructor\<close> is the built-in function \<open>Object\<close>, and every other member is
  the built-in function of its own name. The text of a built-in function is chosen by the
  engine, so it is a parameter \<open>fnText\<close> of the model, from the name of the function to
  its text.
\<close>

definition memberText :: "(string \<Rightarrow> string) \<Rightarrow> string \<Rightarrow> string" where
  "memberText fnText n =
     (if n = ''__proto__'' then ''[object Object]''
      else if n = ''constructor'' then fnText ''Object''
      else fnText n)"

section \<open>A JavaScript \<open>Map\<close> with string keys\<close>

text \<open>
  A \<open>Map\<close> keeps its entries in the order of the first insertion of each key;
  \<open>set\<close> on a key that is present replaces the value in place.
\<close>

type_synonym 'v Map = "(string \<times> 'v) list"

definition Map_get :: "'v Map \<Rightarrow> string \<Rightarrow> 'v option" where
  "Map_get m k = map_of m k"

fun Map_set :: "'v Map \<Rightarrow> string \<Rightarrow> 'v \<Rightarrow> 'v Map" where
  "Map_set [] k v = [(k, v)]"
| "Map_set ((k', v') # m) k v =
     (if k' = k then (k, v) # m else (k', v') # Map_set m k v)"

text \<open>
  \<open>const existing = m.get(k) || []; existing.push(x); m.set(k, existing)\<close>
\<close>

definition pushTo :: "'a list Map \<Rightarrow> string \<Rightarrow> 'a \<Rightarrow> 'a list Map" where
  "pushTo m k x =
     (let existing = (case Map_get m k of None \<Rightarrow> [] | Some e \<Rightarrow> e)
      in Map_set m k (existing @ [x]))"

section \<open>types.ts\<close>

record MonthlyQuotas =
  JUL :: cell
  AUG :: cell
  SEP :: cell
  OCT :: cell
  NOV :: cell
  DEC :: cell
  JAN :: cell
  FEB :: cell
  MAR :: cell
  APR :: cell
  MAY :: cell
  JUN :: cell

text \<open>\<open>quotas[key]\<close>: a key that is not a field reads as \<open>undefined\<close>.\<close>

definition monthValue :: "MonthlyQuotas \<Rightarrow> string \<Rightarrow> cell" where
  "monthValue q key =
     (if key = ''JUL'' then JUL q else if key = ''AUG'' then AUG q
      else if key = ''SEP'' then SEP q else if key = ''OCT'' then OCT q
      else if key = ''NOV'' then NOV q else if key = ''DEC'' then DEC q
      else if key = ''JAN'' then JAN q else if key = ''FEB'' then FEB q
      else if key = ''MAR'' then MAR q else if key = ''APR'' then APR q
      else if key = ''MAY'' then MAY q else if key = ''JUN'' then JUN q
      else Undefined)"

record QuotaRecord =
  sheet :: string
  row :: nat
  eid :: string
  name :: string
  level :: string
  repRegion :: string
  dualMetric :: string
  quotaStartDate :: "Date option"
  submissionMonth :: "Date option"
  monthlyQuotas :: MonthlyQuotas
  monthlyQuotasY2Y3 :: "MonthlyQuotas option"
  monthlyQuotasComp2 :: "MonthlyQuotas option"
  monthlyQuotasComp2Y2Y3 :: "MonthlyQuotas option"

record ReferenceRecord =
  refEid :: string
  fullName :: string
  activeStatus :: "string option"
  onLeave :: "string option"
  country :: "string option"
  jobTitle :: "string option"

datatype ValidationStatus = Pass | Fail | Skip

record RefInfo =
  infoActiveStatus :: "string option"
  infoOnLeave :: "string option"
  infoCountry :: "string option"

record 'r V1Result =
  v1Record :: 'r
  status :: ValidationStatus
  reason :: string
  refInfo :: "RefInfo option"

record V2Result =
  v2Eid :: string
  occurrences :: "QuotaRecord list"

datatype FiscalHalf = H1 | H2

definition H1_MONTHS :: "string list" where
  "H1_MONTHS = [''JUL'', ''AUG'', ''SEP'', ''OCT'', ''NOV'', ''DEC'']"

definition H2_MONTHS :: "string list" where
  "H2_MONTHS = [''JAN'', ''FEB'', ''MAR'', ''APR'', ''MAY'', ''JUN'']"

record V3Result =
  v3Record :: QuotaRecord
  half :: FiscalHalf
  missingMonths :: "string list"
  quotaValues :: "cell Map"
  missingMonthsY2Y3 :: "string list"
  quotaValuesY2Y3 :: "cell Map"
  hasY2Y3 :: bool
  missingMonthsComp2 :: "string list"
  quotaValuesComp2 :: "cell Map"
  missingMonthsComp2Y2Y3 :: "string list"
  quotaValuesComp2Y2Y3 :: "cell Map"
  hasComp2 :: bool
  hasComp2Y2Y3 :: bool

record Summary =
  v1Pass :: nat
  v1Fail :: nat
  v1Skip :: nat
  v2DuplicateEids :: nat
  v3MissingQuota :: nat
  totalRecords :: nat

record ValidationResults =
  v1 :: "QuotaRecord V1Result list"
  v2 :: "V2Result list"
  v3 :: "V3Result list"
  summary :: Summary

datatype Region = APAC | EMEAL | NAMER

text \<open>A \<open>Region\<close> is its own name as a string.\<close>

fun regionName :: "Region \<Rightarrow> string" where
  "regionName APAC = ''APAC''"
| "regionName EMEAL = ''EMEAL''"
| "regionName NAMER = ''NAMER''"

text \<open>The value of a property read of a table of regions, inside a template literal.\<close>

fun propertyText :: "(string \<Rightarrow> string) \<Rightarrow> Region property \<Rightarrow> string" where
  "propertyText fnText (Own r) = regionName r"
| "propertyText fnText (Inherited n) = memberText fnText n"
| "propertyText fnText Absent = ''undefined''"

text \<open>
  The constant tables are object literals, read with \<open>TABLE[key]\<close>: the lists below are
  their own properties, and \<open>getProperty\<close> reads them.
\<close>

definition COUNTRY_REGION_MAP :: "(string \<times> Region) list" where
  "COUNTRY_REGION_MAP =
    [(''Australia'', APAC), (''Austria'', EMEAL), (''Belgium'', EMEAL), (''Brazil'', EMEAL),
     (''Canada'', NAMER), (''China'', APAC), (''France'', EMEAL), (''Germany'', EMEAL),
     (''Hong Kong'', APAC), (''India'', APAC), (''Ireland'', EMEAL), (''Israel'', EMEAL),
     (''Italy'', EMEAL), (''Japan'', APAC), (''Malaysia'', APAC), (''Mexico'', EMEAL),
     (''Netherlands'', EMEAL), (''Singapore'', APAC), (''Spain'', EMEAL), (''Sweden'', EMEAL),
     (''United Arab Emirates'', EMEAL), (''United Kingdom'', EMEAL),
     (''United States of America'', NAMER)]"

definition getCountriesForRegion :: "Region \<Rightarrow> string list" where
  "getCountriesForRegion region =
     map fst (filter (\<lambda>(c, r). r = region) COUNTRY_REGION_MAP)"

section \<open>excelParser.ts: the submission month label\<close>

record YearMonth =
  year :: int
  month :: nat

definition isDigit :: "char \<Rightarrow> bool" where
  "isDigit c = (c \<in> set ''0123456789'')"

definition digitValue :: "char \<Rightarrow> int" where
  "digitValue c =
     (case map_of (zip ''0123456789'' [0, 1, 2, 3, 4, 5, 6, 7, 8, 9]) c of
        None \<Rightarrow> 0 | Some d \<Rightarrow> d)"

text \<open>\<open>parseInt(s, 10)\<close> on a string of decimal digits.\<close>

definition parseInt10 :: "string \<Rightarrow> int" where
  "parseInt10 s = foldl (\<lambda>acc c. 10 * acc + digitValue c) 0 s"

definition monthAlternatives :: "string list" where
  "monthAlternatives =
    [''Jan'', ''Feb'', ''Mar'', ''Apr'', ''May'', ''Jun'',
     ''Jul'', ''Aug'', ''Sep'', ''Oct'', ''Nov'', ''Dec'']"

text \<open>
  The regular expression has the flag \<open>i\<close> and not the flag \<open>u\<close>: a character of the
  label matches a letter of the pattern when the two have the same canonical form, which
  is the upper case letter for an ASCII letter and the character itself for every character
  outside ASCII.
\<close>

definition canonicalize :: "char \<Rightarrow> char" where
  "canonicalize c = toUpperCaseChar c"

text \<open>
  \<open>label.match(/^(Jan|Feb|Mar|Apr|May|Jun|Jul|Aug|Sep|Oct|Nov|Dec)-(\d{2})$/i)\<close>:
  the two groups of the match, or \<open>None\<close> for \<open>null\<close>. A match has six characters,
  all of them ASCII.
\<close>

fun matchLabel :: "string \<Rightarrow> (string \<times> string) option" where
  "matchLabel [a, b, c, h, d1, d2] =
     (if map canonicalize [a, b, c] \<in> set (map (map canonicalize) monthAlternatives)
         \<and> h = CHR ''-'' \<and> isDigit d1 \<and> isDigit d2
      then Some ([a, b, c], [d1, d2]) else None)"
| "matchLabel _ = None"

definition monthNames :: "(string \<times> nat) list" where
  "monthNames =
    [(''jan'', 1), (''feb'', 2), (''mar'', 3), (''apr'', 4), (''may'', 5), (''jun'', 6),
     (''jul'', 7), (''aug'', 8), (''sep'', 9), (''oct'', 10), (''nov'', 11), (''dec'', 12)]"

text \<open>
  The lookup \<open>monthNames[match[1].toLowerCase()]\<close> always finds its key after a match
  (lemma \<open>month_found\<close>), so the branch for a missing key is never taken.
\<close>

definition parseSubmissionMonthLabel :: "string \<Rightarrow> YearMonth option" where
  "parseSubmissionMonthLabel label =
     (case matchLabel label of
        None \<Rightarrow> None
      | Some (g1, g2) \<Rightarrow>
          (case map_of monthNames (toLowerCase g1) of
             None \<Rightarrow> None
           | Some m \<Rightarrow> Some \<lparr>year = 2000 + parseInt10 g2, month = m\<rparr>))"

section \<open>validators.ts\<close>

datatype error = InvalidSubmissionMonth string

definition isTbhOrBlank :: "string \<Rightarrow> bool" where
  "isTbhOrBlank e = (e = [] \<or> e = ''-'' \<or> startsWith (toLowerCase e) ''tbh'')"

fun isQuotaValueMissing :: "cell \<Rightarrow> bool" where
  "isQuotaValueMissing Null = True"
| "isQuotaValueMissing Undefined = True"
| "isQuotaValueMissing (String s) = (trim s = [] \<or> trim s = ''-'')"
| "isQuotaValueMissing (Number n) = isZero n"

text \<open>The records of the selected submission month.\<close>

definition inSubmissionMonth :: "YearMonth \<Rightarrow> QuotaRecord \<Rightarrow> bool" where
  "inSubmissionMonth parsed rec =
     (case submissionMonth rec of
        None \<Rightarrow> False
      | Some d \<Rightarrow>
          strictEquals (getUTCFullYear d) (Some (year parsed))
          \<and> strictEquals (numAdd (getUTCMonth d) (Some 1)) (Some (month parsed)))"

definition targetRecordsOf :: "YearMonth \<Rightarrow> QuotaRecord list \<Rightarrow> QuotaRecord list" where
  "targetRecordsOf parsed allRecords = filter (inSubmissionMonth parsed) allRecords"

text \<open>The reference lookup: EID to the reference records with that EID, in file order.\<close>

fun buildRefMap :: "ReferenceRecord list \<Rightarrow> ReferenceRecord list Map \<Rightarrow> ReferenceRecord list Map" where
  "buildRefMap [] refMap = refMap"
| "buildRefMap (ref # refs) refMap = buildRefMap refs (pushTo refMap (refEid ref) ref)"

subsection \<open>Validation 1: EID reference check\<close>

definition orBlank :: "string option \<Rightarrow> string" where
  "orBlank v = (case v of None \<Rightarrow> ''(blank)'' | Some s \<Rightarrow> s)"

text \<open>
  \<open>templ\<close> is a \<open>string | null\<close> inside a template literal. Such a value is falsy when
  it is \<open>null\<close> or empty.
\<close>

definition templ :: "string option \<Rightarrow> string" where
  "templ v = (case v of None \<Rightarrow> ''null'' | Some s \<Rightarrow> s)"

definition truthy :: "string option \<Rightarrow> bool" where
  "truthy v = (case v of None \<Rightarrow> False | Some s \<Rightarrow> s \<noteq> [])"

definition activeStatusIssue :: "ReferenceRecord \<Rightarrow> string" where
  \<open>activeStatusIssue ref = ''Active Status="'' @ orBlank (activeStatus ref) @ ''" (expected Yes)''\<close>

definition onLeaveIssue :: "ReferenceRecord \<Rightarrow> string" where
  \<open>onLeaveIssue ref = ''On Leave="'' @ templ (onLeave ref) @ ''" (expected blank)''\<close>

definition countryIssue :: "(string \<Rightarrow> string) \<Rightarrow> Region \<Rightarrow> ReferenceRecord \<Rightarrow> string" where
  \<open>countryIssue fnText selectedRegion ref =
     (let regionOfCountry =
            (if truthy (country ref) then getProperty COUNTRY_REGION_MAP (the (country ref))
             else Absent)
      in ''Country="'' @ orBlank (country ref) @ ''"''
         @ (if regionOfCountry \<noteq> Absent
            then '' (Region: '' @ propertyText fnText regionOfCountry @ '')'' else [])
         @ '' - not in '' @ regionName selectedRegion)\<close>

definition countryInvalid :: "string set \<Rightarrow> ReferenceRecord \<Rightarrow> bool" where
  "countryInvalid validCountries ref =
     (\<not> truthy (country ref) \<or> the (country ref) \<notin> validCountries)"

text \<open>The issues of one reference record, in the order the source pushes them.\<close>

definition refIssues :: "(string \<Rightarrow> string) \<Rightarrow> string set \<Rightarrow> Region \<Rightarrow> ReferenceRecord \<Rightarrow> string list" where
  "refIssues fnText validCountries selectedRegion ref =
     (if activeStatus ref \<noteq> Some ''Yes'' then [activeStatusIssue ref] else [])
     @ (if truthy (onLeave ref) then [onLeaveIssue ref] else [])
     @ (if countryInvalid validCountries ref then [countryIssue fnText selectedRegion ref] else [])"

text \<open>
  The loop over the reference records of one EID. Its state is
  \<open>(foundValid, lastIssues, lastRef)\<close>; the loop breaks at the first record without issues.
\<close>

fun refLoop :: "(string \<Rightarrow> string) \<Rightarrow> string set \<Rightarrow> Region \<Rightarrow> ReferenceRecord list
    \<Rightarrow> bool \<times> string list \<times> ReferenceRecord option
    \<Rightarrow> bool \<times> string list \<times> ReferenceRecord option" where
  "refLoop fnText validCountries selectedRegion [] st = st"
| "refLoop fnText validCountries selectedRegion (ref # refs) (foundValid, lastIssues, lastRef) =
     (let issues = refIssues fnText validCountries selectedRegion ref
      in if length issues = 0 then (True, lastIssues, Some ref)
         else refLoop fnText validCountries selectedRegion refs (foundValid, issues, Some ref))"

definition refInfoOf :: "ReferenceRecord \<Rightarrow> RefInfo" where
  "refInfoOf ref =
     \<lparr>infoActiveStatus = activeStatus ref, infoOnLeave = onLeave ref, infoCountry = country ref\<rparr>"

text \<open>
  The body of the loop of validation 1 for one record with EID \<open>e\<close>: the result it pushes.
  The LMS validation runs the same body on its own record type.
\<close>

definition eidReferenceCheck ::
  "(string \<Rightarrow> string) \<Rightarrow> ReferenceRecord list Map \<Rightarrow> string set \<Rightarrow> Region \<Rightarrow> 'r \<Rightarrow> string
    \<Rightarrow> 'r V1Result" where
  "eidReferenceCheck fnText refMap validCountries selectedRegion rec e =
     (if isTbhOrBlank e
      then \<lparr>v1Record = rec, status = Skip, reason = ''TBH / Blank EID'', refInfo = None\<rparr>
      else
        (case Map_get refMap e of
           None \<Rightarrow>
             \<lparr>v1Record = rec, status = Fail, reason = ''EID not found in reference file'',
              refInfo = None\<rparr>
         | Some refs \<Rightarrow>
             if length refs = 0
             then \<lparr>v1Record = rec, status = Fail, reason = ''EID not found in reference file'',
                   refInfo = None\<rparr>
             else
               (case refLoop fnText validCountries selectedRegion refs (False, [], None) of
                  (foundValid, lastIssues, lastRef) \<Rightarrow>
                    if foundValid
                    then \<lparr>v1Record = rec, status = Pass, reason = [],
                          refInfo = map_option refInfoOf lastRef\<rparr>
                    else \<lparr>v1Record = rec, status = Fail, reason = join ''; '' lastIssues,
                          refInfo = map_option refInfoOf lastRef\<rparr>)))"

fun v1Loop :: "(string \<Rightarrow> string) \<Rightarrow> ReferenceRecord list Map \<Rightarrow> string set \<Rightarrow> Region
    \<Rightarrow> QuotaRecord list
    \<Rightarrow> QuotaRecord V1Result list \<Rightarrow> QuotaRecord V1Result list" where
  "v1Loop fnText refMap validCountries selectedRegion [] v1Results = v1Results"
| "v1Loop fnText refMap validCountries selectedRegion (rec # recs) v1Results =
     v1Loop fnText refMap validCountries selectedRegion recs
       (v1Results @ [eidReferenceCheck fnText refMap validCountries selectedRegion rec (eid rec)])"

subsection \<open>Validation 2: duplicate EID check\<close>

fun buildEidMap :: "QuotaRecord list \<Rightarrow> QuotaRecord list Map \<Rightarrow> QuotaRecord list Map" where
  "buildEidMap [] eidMap = eidMap"
| "buildEidMap (rec # recs) eidMap =
     (if isTbhOrBlank (eid rec) then buildEidMap recs eidMap
      else buildEidMap recs (pushTo eidMap (eid rec) rec))"

fun v2Loop :: "QuotaRecord list Map \<Rightarrow> V2Result list \<Rightarrow> V2Result list" where
  "v2Loop [] v2Results = v2Results"
| "v2Loop ((e, recs) # entries) v2Results =
     (if length recs > 1
      then v2Loop entries (v2Results @ [\<lparr>v2Eid = e, occurrences = recs\<rparr>])
      else v2Loop entries v2Results)"

subsection \<open>Validation 3: missing quota amounts\<close>

text \<open>The arrays and snapshots the loop over the months of the half fills.\<close>

record MonthAcc =
  accMissing :: "string list"
  accValues :: "cell Map"
  accMissingY2Y3 :: "string list"
  accValuesY2Y3 :: "cell Map"
  accMissingComp2 :: "string list"
  accValuesComp2 :: "cell Map"
  accMissingComp2Y2Y3 :: "string list"
  accValuesComp2Y2Y3 :: "cell Map"

definition emptyAcc :: MonthAcc where
  "emptyAcc =
     \<lparr>accMissing = [], accValues = [], accMissingY2Y3 = [], accValuesY2Y3 = [],
      accMissingComp2 = [], accValuesComp2 = [], accMissingComp2Y2Y3 = [],
      accValuesComp2Y2Y3 = []\<rparr>"

text \<open>\<open>has ? quotas![key] : null\<close>\<close>

definition bucketValue :: "bool \<Rightarrow> MonthlyQuotas option \<Rightarrow> string \<Rightarrow> cell" where
  "bucketValue has q key = (if has then monthValue (the q) key else Null)"

definition isDMC :: "QuotaRecord \<Rightarrow> bool" where
  "isDMC rec = (toUpperCase (dualMetric rec) = ''DMC'')"

definition recHasY2Y3 :: "QuotaRecord \<Rightarrow> bool" where
  "recHasY2Y3 rec = (monthlyQuotasY2Y3 rec \<noteq> None)"

definition recHasComp2 :: "QuotaRecord \<Rightarrow> bool" where
  "recHasComp2 rec = (isDMC rec \<and> monthlyQuotasComp2 rec \<noteq> None)"

definition recHasComp2Y2Y3 :: "QuotaRecord \<Rightarrow> bool" where
  "recHasComp2Y2Y3 rec = (isDMC rec \<and> monthlyQuotasComp2Y2Y3 rec \<noteq> None)"

text \<open>One iteration of the loop over the months, for month \<open>key\<close> with calendar number
  \<open>calMonth\<close>.\<close>

definition monthStep ::
  "QuotaRecord \<Rightarrow> nat option \<Rightarrow> string \<Rightarrow> nat \<Rightarrow> MonthAcc \<Rightarrow> MonthAcc" where
  "monthStep rec effectiveStartCalMonth key calMonth acc =
     (let val = monthValue (monthlyQuotas rec) key;
          valY2 = bucketValue (recHasY2Y3 rec) (monthlyQuotasY2Y3 rec) key;
          valComp2 = bucketValue (recHasComp2 rec) (monthlyQuotasComp2 rec) key;
          valComp2Y2 = bucketValue (recHasComp2Y2Y3 rec) (monthlyQuotasComp2Y2Y3 rec) key;
          checked = lessOrEqual effectiveStartCalMonth (Some calMonth)
      in \<lparr>accMissing =
             (if checked \<and> isQuotaValueMissing val then accMissing acc @ [key]
              else accMissing acc),
           accValues = Map_set (accValues acc) key val,
           accMissingY2Y3 =
             (if checked \<and> recHasY2Y3 rec \<and> isQuotaValueMissing valY2
              then accMissingY2Y3 acc @ [key] else accMissingY2Y3 acc),
           accValuesY2Y3 = Map_set (accValuesY2Y3 acc) key valY2,
           accMissingComp2 =
             (if checked \<and> recHasComp2 rec \<and> isQuotaValueMissing valComp2
              then accMissingComp2 acc @ [key] else accMissingComp2 acc),
           accValuesComp2 = Map_set (accValuesComp2 acc) key valComp2,
           accMissingComp2Y2Y3 =
             (if checked \<and> recHasComp2Y2Y3 rec \<and> isQuotaValueMissing valComp2Y2
              then accMissingComp2Y2Y3 acc @ [key] else accMissingComp2Y2Y3 acc),
           accValuesComp2Y2Y3 = Map_set (accValuesComp2Y2Y3 acc) key valComp2Y2\<rparr>)"

text \<open>
  \<open>for (let i = 0; i < halfMonthKeys.length; i++)\<close>: the keys still to visit and the
  calendar month \<open>halfStartCalMonth + i\<close> of the first of them.
\<close>

fun monthLoop ::
  "QuotaRecord \<Rightarrow> nat option \<Rightarrow> string list \<Rightarrow> nat \<Rightarrow> MonthAcc \<Rightarrow> MonthAcc" where
  "monthLoop rec effectiveStartCalMonth [] calMonth acc = acc"
| "monthLoop rec effectiveStartCalMonth (key # keys) calMonth acc =
     monthLoop rec effectiveStartCalMonth keys (calMonth + 1)
       (monthStep rec effectiveStartCalMonth key calMonth acc)"

definition halfOf :: "YearMonth \<Rightarrow> FiscalHalf" where
  "halfOf parsed = (if month parsed \<ge> 7 then H1 else H2)"

definition halfMonthKeys :: "YearMonth \<Rightarrow> string list" where
  "halfMonthKeys parsed = (if month parsed \<ge> 7 then H1_MONTHS else H2_MONTHS)"

definition halfStartCalMonth :: "YearMonth \<Rightarrow> nat" where
  "halfStartCalMonth parsed = (if month parsed \<ge> 7 then 7 else 1)"

definition halfEndCalMonth :: "YearMonth \<Rightarrow> nat" where
  "halfEndCalMonth parsed = (if month parsed \<ge> 7 then 12 else 6)"

text \<open>The quota starts after the end of the half: the record is skipped.\<close>

definition startsAfterHalf :: "YearMonth \<Rightarrow> Date \<Rightarrow> bool" where
  "startsAfterHalf parsed qs =
     (let startYear = getUTCFullYear qs;
          startMonth = numAdd (getUTCMonth qs) (Some 1);
          halfYear = Some (year parsed)
      in lessThan halfYear startYear
         \<or> (strictEquals startYear halfYear
             \<and> lessThan (Some (halfEndCalMonth parsed)) startMonth))"

text \<open>The effective start month, which is NaN for the Invalid Date.\<close>

definition effectiveStartCalMonth :: "YearMonth \<Rightarrow> Date \<Rightarrow> nat option" where
  "effectiveStartCalMonth parsed qs =
     (let startYear = getUTCFullYear qs;
          startMonth = numAdd (getUTCMonth qs) (Some 1);
          halfYear = Some (year parsed)
      in if lessThan startYear halfYear
            \<or> (strictEquals startYear halfYear
                \<and> lessThan startMonth (Some (halfStartCalMonth parsed)))
         then Some (halfStartCalMonth parsed) else startMonth)"

text \<open>
  The body of the loop of validation 3 for one record: the result it pushes, or
  \<open>None\<close> when it pushes nothing.
\<close>

definition missingQuotaCheck :: "YearMonth \<Rightarrow> QuotaRecord \<Rightarrow> V3Result option" where
  "missingQuotaCheck parsed rec =
     (case quotaStartDate rec of
        None \<Rightarrow> None
      | Some qs \<Rightarrow>
          if startsAfterHalf parsed qs then None
          else
            (let acc = monthLoop rec (effectiveStartCalMonth parsed qs) (halfMonthKeys parsed)
                         (halfStartCalMonth parsed) emptyAcc;
                 hasMissing =
                   (length (accMissing acc) > 0 \<or> length (accMissingY2Y3 acc) > 0
                    \<or> length (accMissingComp2 acc) > 0 \<or> length (accMissingComp2Y2Y3 acc) > 0)
             in if hasMissing
                then Some
                  \<lparr>v3Record = rec, half = halfOf parsed,
                   missingMonths = accMissing acc, quotaValues = accValues acc,
                   missingMonthsY2Y3 = accMissingY2Y3 acc, quotaValuesY2Y3 = accValuesY2Y3 acc,
                   hasY2Y3 = recHasY2Y3 rec,
                   missingMonthsComp2 = accMissingComp2 acc, quotaValuesComp2 = accValuesComp2 acc,
                   missingMonthsComp2Y2Y3 = accMissingComp2Y2Y3 acc,
                   quotaValuesComp2Y2Y3 = accValuesComp2Y2Y3 acc,
                   hasComp2 = recHasComp2 rec, hasComp2Y2Y3 = recHasComp2Y2Y3 rec\<rparr>
                else None))"

fun v3Loop :: "YearMonth \<Rightarrow> QuotaRecord list \<Rightarrow> V3Result list \<Rightarrow> V3Result list" where
  "v3Loop parsed [] v3Results = v3Results"
| "v3Loop parsed (rec # recs) v3Results =
     (case missingQuotaCheck parsed rec of
        None \<Rightarrow> v3Loop parsed recs v3Results
      | Some r \<Rightarrow> v3Loop parsed recs (v3Results @ [r]))"

subsection \<open>The run\<close>

definition countStatus :: "ValidationStatus \<Rightarrow> 'r V1Result list \<Rightarrow> nat" where
  "countStatus s rs = length (filter (\<lambda>r. status r = s) rs)"

definition runValidation ::
  "(string \<Rightarrow> string) \<Rightarrow> QuotaRecord list \<Rightarrow> ReferenceRecord list \<Rightarrow> string \<Rightarrow> Region
    \<Rightarrow> error + ValidationResults" where
  "runValidation fnText allRecords refRecords selectedMonth selectedRegion =
     (case parseSubmissionMonthLabel selectedMonth of
        None \<Rightarrow> Inl (InvalidSubmissionMonth selectedMonth)
      | Some parsed \<Rightarrow>
          (let targetRecords = targetRecordsOf parsed allRecords;
               refMap = buildRefMap refRecords [];
               validCountries = set (getCountriesForRegion selectedRegion);
               v1Results = v1Loop fnText refMap validCountries selectedRegion targetRecords [];
               eidMap = buildEidMap targetRecords [];
               v2Results = v2Loop eidMap [];
               v3Results = v3Loop parsed targetRecords []
           in Inr
             \<lparr>v1 = v1Results, v2 = v2Results, v3 = v3Results,
              summary =
                \<lparr>v1Pass = countStatus Pass v1Results,
                 v1Fail = countStatus Fail v1Results,
                 v1Skip = countStatus Skip v1Results,
                 v2DuplicateEids = length v2Results,
                 v3MissingQuota = length v3Results,
                 totalRecords = length targetRecords\<rparr>\<rparr>))"

section \<open>overlayValidators.ts: the region of a record\<close>

definition COUNTRY_CODE_REGION_MAP :: "(string \<times> Region) list" where
  "COUNTRY_CODE_REGION_MAP =
    [(''AU'', APAC), (''AT'', EMEAL), (''BE'', EMEAL), (''BR'', EMEAL), (''CA'', NAMER),
     (''CN'', APAC), (''FR'', EMEAL), (''DE'', EMEAL), (''HK'', APAC), (''IN'', APAC),
     (''IE'', EMEAL), (''IL'', EMEAL), (''IT'', EMEAL), (''JP'', APAC), (''MY'', APAC),
     (''MX'', EMEAL), (''NL'', EMEAL), (''SG'', APAC), (''ES'', EMEAL), (''SE'', EMEAL),
     (''AE'', EMEAL), (''GB'', EMEAL), (''UK'', EMEAL), (''US'', NAMER), (''KR'', APAC),
     (''TW'', APAC), (''TH'', APAC), (''NZ'', APAC), (''PH'', APAC), (''ID'', APAC),
     (''VN'', APAC), (''AR'', EMEAL), (''CL'', EMEAL), (''CO'', EMEAL), (''PE'', EMEAL),
     (''ZA'', EMEAL), (''SA'', EMEAL), (''TR'', EMEAL), (''PL'', EMEAL), (''CZ'', EMEAL),
     (''NO'', EMEAL), (''DK'', EMEAL), (''FI'', EMEAL), (''PT'', EMEAL), (''CH'', EMEAL),
     (''RO'', EMEAL), (''HU'', EMEAL)]"

definition MARKET_SEGMENT_REGION_MAP :: "(string \<times> Region) list" where
  "MARKET_SEGMENT_REGION_MAP =
    [(''APAC'', APAC), (''EMEAL'', EMEAL), (''EMEA'', EMEAL), (''LATAM'', EMEAL),
     (''NAMER'', NAMER)]"

datatype RegionMatchType = scr | segment_direct | segment_country_code | unknown

record OverlayRegionInfo =
  matchType :: RegionMatchType
  comment :: string

record Resolved =
  included :: bool
  info :: OverlayRegionInfo

text \<open>The right arrow of the comments, as its three UTF-8 bytes.\<close>

definition rightArrow :: string where
  "rightArrow = [CHR 0xE2, CHR 0x86, CHR 0x92]"

text \<open>
  Step (1), the SCR lookup: \<open>Some\<close> of what it returns, or \<open>None\<close> when the function
  falls through to the market segment.
\<close>

definition scrLookup ::
  "(string \<Rightarrow> string) \<Rightarrow> QuotaRecord \<Rightarrow> ReferenceRecord list Map \<Rightarrow> string set \<Rightarrow> Region
    \<Rightarrow> Resolved option" where
  \<open>scrLookup fnText rec refMap validCountries selectedRegion =
     (case Map_get refMap (eid rec) of
        None \<Rightarrow> None
      | Some [] \<Rightarrow> None
      | Some (firstRef # rest) \<Rightarrow>
          (case find (\<lambda>ref. country ref \<noteq> None \<and> the (country ref) \<in> validCountries)
                  (firstRef # rest) of
             Some matchingRef \<Rightarrow>
               Some \<lparr>included = True,
                     info = \<lparr>matchType = scr, comment = ''SCR: '' @ templ (country matchingRef)\<rparr>\<rparr>
           | None \<Rightarrow>
               if truthy (country firstRef)
               then
                 (let refRegion = getProperty COUNTRY_REGION_MAP (the (country firstRef))
                  in if refRegion \<noteq> Absent \<and> refRegion \<noteq> Own selectedRegion
                     then Some \<lparr>included = False,
                                info = \<lparr>matchType = scr,
                                  comment = ''SCR Country "'' @ the (country firstRef)
                                    @ ''" belongs to '' @ propertyText fnText refRegion @ '', not ''
                                    @ regionName selectedRegion\<rparr>\<rparr>
                     else None)
               else None))\<close>

text \<open>Steps (2) to (4), on the market segment of the record.\<close>

definition segmentLookup :: "(string \<Rightarrow> string) \<Rightarrow> QuotaRecord \<Rightarrow> Region \<Rightarrow> Resolved" where
  \<open>segmentLookup fnText rec selectedRegion =
     (let marketSegment = trim (repRegion rec);
          segmentUpper = toUpperCase marketSegment;
          directRegion = getProperty MARKET_SEGMENT_REGION_MAP segmentUpper;
          codeRegion =
            (if utf16Length segmentUpper = 2
             then getProperty COUNTRY_CODE_REGION_MAP segmentUpper else Absent)
      in if directRegion \<noteq> Absent
         then
           if directRegion = Own selectedRegion
           then \<lparr>included = True,
                 info = \<lparr>matchType = segment_direct,
                         comment = ''Market Segment: '' @ marketSegment\<rparr>\<rparr>
           else \<lparr>included = False,
                 info = \<lparr>matchType = segment_direct,
                         comment = ''Market Segment "'' @ marketSegment @ ''" '' @ rightArrow
                           @ '' '' @ propertyText fnText directRegion @ '', not ''
                           @ regionName selectedRegion\<rparr>\<rparr>
         else if codeRegion \<noteq> Absent
         then
           if codeRegion = Own selectedRegion
           then \<lparr>included = True,
                 info = \<lparr>matchType = segment_country_code,
                         comment = ''Market Segment "'' @ marketSegment @ ''" '' @ rightArrow
                           @ '' country code '' @ rightArrow @ '' ''
                           @ propertyText fnText codeRegion\<rparr>\<rparr>
           else \<lparr>included = False,
                 info = \<lparr>matchType = segment_country_code,
                         comment = ''Market Segment "'' @ marketSegment @ ''" '' @ rightArrow
                           @ '' '' @ propertyText fnText codeRegion @ '', not ''
                           @ regionName selectedRegion\<rparr>\<rparr>
         else
           \<lparr>included = True,
            info = \<lparr>matchType = unknown,
                    comment =
                      ''Region unconfirmed: EID not in SCR, Market Segment "''
                      @ marketSegment
                      @ ''" not recognized as a region or country code''\<rparr>\<rparr>)\<close>

definition resolveRegion ::
  "(string \<Rightarrow> string) \<Rightarrow> QuotaRecord \<Rightarrow> ReferenceRecord list Map \<Rightarrow> string set \<Rightarrow> Region
    \<Rightarrow> Resolved" where
  "resolveRegion fnText rec refMap validCountries selectedRegion =
     (if isTbhOrBlank (eid rec)
      then \<lparr>included = True, info = \<lparr>matchType = unknown, comment = ''TBH / Blank EID''\<rparr>\<rparr>
      else
        (case scrLookup fnText rec refMap validCountries selectedRegion of
           Some r \<Rightarrow> r
         | None \<Rightarrow> segmentLookup fnText rec selectedRegion))"

section \<open>lmsTypes.ts\<close>

record LmsMonthlyQuotas =
  lmsJAN :: cell
  lmsFEB :: cell
  lmsMAR :: cell
  lmsAPR :: cell
  lmsMAY :: cell
  lmsJUN :: cell

definition lmsMonthValue :: "LmsMonthlyQuotas \<Rightarrow> string \<Rightarrow> cell" where
  "lmsMonthValue q key =
     (if key = ''JAN'' then lmsJAN q else if key = ''FEB'' then lmsFEB q
      else if key = ''MAR'' then lmsMAR q else if key = ''APR'' then lmsAPR q
      else if key = ''MAY'' then lmsMAY q else if key = ''JUN'' then lmsJUN q
      else Undefined)"

definition LMS_MONTHS :: "string list" where
  "LMS_MONTHS = [''JAN'', ''FEB'', ''MAR'', ''APR'', ''MAY'', ''JUN'']"

definition LMS_MONTH_TO_CAL :: "(string \<times> nat) list" where
  "LMS_MONTH_TO_CAL =
     [(''JAN'', 1), (''FEB'', 2), (''MAR'', 3), (''APR'', 4), (''MAY'', 5), (''JUN'', 6)]"

record LmsQuotaRecord =
  lmsRow :: nat
  lmsName :: string
  employeeId :: string
  managerId :: string
  managerName :: string
  geo :: string
  tier :: string
  segment :: string
  sdGroup :: string
  team :: string
  component :: string
  planType :: string
  recentEvent :: string
  quotaEffectiveDate :: "Date option"
  lmsNotes :: string
  q3Quota :: cell
  q4Quota :: cell
  h2Quota :: cell
  rev1Monthly :: LmsMonthlyQuotas
  q3GlobalQuota :: cell
  q4GlobalQuota :: cell
  h2GlobalQuota :: cell
  rev2Monthly :: LmsMonthlyQuotas
  bookCountMonthly :: LmsMonthlyQuotas

datatype LmsV2IssueType = should_be_zero | missing_amount | okr_has_amount | rev2_only_has_rev1

record LmsV2Issue =
  column :: string
  issueMonth :: string
  issueType :: LmsV2IssueType
  expectedBehavior :: string
  actualValue :: cell

record LmsV2Result =
  lmsV2Record :: LmsQuotaRecord
  issues :: "LmsV2Issue list"

record LmsV3Result =
  lmsV3Record :: LmsQuotaRecord
  lmsV3RefInfo :: RefInfo
  processingMonth :: string
  quotaColumnsWithValues :: "(string \<times> cell) list"

record LmsSummary =
  lmsV1Pass :: nat
  lmsV1Fail :: nat
  lmsV1Skip :: nat
  v2AlignmentIssues :: nat
  v3OnLeaveWithQuota :: nat
  lmsTotalRecords :: nat

record LmsValidationResults =
  lmsV1 :: "LmsQuotaRecord V1Result list"
  lmsV2 :: "LmsV2Result list"
  lmsV3 :: "LmsV3Result list"
  lmsSummary :: LmsSummary

section \<open>lmsValidators.ts\<close>

text \<open>
  The library function \<open>parseFloat\<close> is a parameter \<open>pf\<close> of the model: the theorems
  hold for every function from strings to numbers in its place.
\<close>

fun numericValue :: "(string \<Rightarrow> number) \<Rightarrow> cell \<Rightarrow> number" where
  "numericValue pf Null = Finite 0"
| "numericValue pf Undefined = Finite 0"
| "numericValue pf (Number n) = n"
| "numericValue pf (String s) = (let n = pf s in if n = NaN then Finite 0 else n)"

definition hasPositiveAmount :: "(string \<Rightarrow> number) \<Rightarrow> cell \<Rightarrow> bool" where
  "hasPositiveAmount pf val = greaterThanZero (numericValue pf val)"

text \<open>
  One iteration of the loop of \<open>getExpectedActiveMonths\<close>: whether month \<open>m\<close> should have
  an amount. The effective month may be NaN. \<open>LMS_MONTH_TO_CAL[m]\<close> is read for the
  months of \<open>LMS_MONTHS\<close>, which are its own properties; for any other key the model
  gives \<open>None\<close>, which compares false.
\<close>

definition shouldHaveAmount :: "nat option \<Rightarrow> string \<Rightarrow> string \<Rightarrow> bool" where
  "shouldHaveAmount effectiveMonth planTy m =
     (let calMonth = map_of LMS_MONTH_TO_CAL m
      in if lessThan calMonth effectiveMonth then False
         else
           (let pt = toLowerCase planTy
            in if pt = ''okr'' then False
               else if pt = ''semi'' then True
               else if pt = ''qtrly''
               then (let effectiveQuarterEnd =
                           (if lessOrEqual effectiveMonth (Some 3) then 3 else 6)
                     in lessOrEqual calMonth (Some effectiveQuarterEnd))
               else True))"

fun expectedLoop :: "nat option \<Rightarrow> string \<Rightarrow> string list \<Rightarrow> (string \<times> bool) list
    \<Rightarrow> (string \<times> bool) list" where
  "expectedLoop effectiveMonth planTy [] result = result"
| "expectedLoop effectiveMonth planTy (m # ms) result =
     expectedLoop effectiveMonth planTy ms
       (result @ [(m, shouldHaveAmount effectiveMonth planTy m)])"

definition getExpectedActiveMonths :: "nat option \<Rightarrow> string \<Rightarrow> (string \<times> bool) list" where
  "getExpectedActiveMonths effectiveMonth planTy =
     expectedLoop effectiveMonth planTy LMS_MONTHS []"

definition GEO_TO_REGION :: "(string \<times> Region) list" where
  "GEO_TO_REGION = [(''APAC'', APAC), (''EMEA'', EMEAL), (''LATAM'', EMEAL), (''NAMER'', NAMER)]"

text \<open>The callback of \<open>records.filter\<close>: the record stays in the run.\<close>

definition regionFilter ::
  "ReferenceRecord list Map \<Rightarrow> string set \<Rightarrow> Region \<Rightarrow> LmsQuotaRecord \<Rightarrow> bool" where
  "regionFilter refMap validCountries selectedRegion rec =
     (if isTbhOrBlank (employeeId rec) then True
      else
        (let refs = Map_get refMap (employeeId rec)
         in if refs = None \<or> length (the refs) = 0
            then
              (let g = toUpperCase (geo rec)
               in if g = ''SA'' then True
                  else getProperty GEO_TO_REGION g = Own selectedRegion)
            else list_ex (\<lambda>ref. country ref \<noteq> None \<and> the (country ref) \<in> validCountries)
                   (the refs)))"

fun lmsV1Loop :: "(string \<Rightarrow> string) \<Rightarrow> ReferenceRecord list Map \<Rightarrow> string set \<Rightarrow> Region
    \<Rightarrow> LmsQuotaRecord list
    \<Rightarrow> LmsQuotaRecord V1Result list \<Rightarrow> LmsQuotaRecord V1Result list" where
  "lmsV1Loop fnText refMap validCountries selectedRegion [] v1Results = v1Results"
| "lmsV1Loop fnText refMap validCountries selectedRegion (rec # recs) v1Results =
     lmsV1Loop fnText refMap validCountries selectedRegion recs
       (v1Results @ [eidReferenceCheck fnText refMap validCountries selectedRegion rec (employeeId rec)])"

subsection \<open>V2: quota amount alignment\<close>

text \<open>
  \<open>LMS_MONTHS[effectiveMonth - 1]\<close> inside a template literal: \<open>undefined\<close> for an index
  that is NaN or outside the array.
\<close>

definition effectiveFrom :: "nat option \<Rightarrow> string" where
  "effectiveFrom effectiveMonth =
     (case effectiveMonth of
        None \<Rightarrow> ''undefined''
      | Some k \<Rightarrow>
          if 1 \<le> k \<and> k \<le> length LMS_MONTHS then LMS_MONTHS ! (k - 1) else ''undefined'')"

definition missingAmountIssue ::
  "string \<Rightarrow> string \<Rightarrow> string \<Rightarrow> nat option \<Rightarrow> cell \<Rightarrow> LmsV2Issue" where
  "missingAmountIssue stream m planTy effectiveMonth v =
     \<lparr>column = stream @ ''-'' @ m, issueMonth = m, issueType = missing_amount,
      expectedBehavior = ''Expected amount > 0 ('' @ planTy @ '', effective from ''
        @ effectiveFrom effectiveMonth @ '')'',
      actualValue = v\<rparr>"

definition unexpectedAmountIssue :: "string \<Rightarrow> string \<Rightarrow> string \<Rightarrow> cell \<Rightarrow> LmsV2Issue" where
  "unexpectedAmountIssue stream m planTy v =
     (let isOkr = (toLowerCase planTy = ''okr'')
      in \<lparr>column = stream @ ''-'' @ m, issueMonth = m,
           issueType = (if isOkr then okr_has_amount else should_be_zero),
           expectedBehavior =
             (if isOkr then ''OKR plan type should have 0 quota''
              else ''Month before effective date or after quarter end should be 0''),
           actualValue = v\<rparr>)"

text \<open>The two checks of one revenue stream for one month.\<close>

definition streamIssues ::
  "(string \<Rightarrow> number) \<Rightarrow> string \<Rightarrow> string \<Rightarrow> nat option \<Rightarrow> string \<Rightarrow> bool \<Rightarrow> cell
    \<Rightarrow> LmsV2Issue list" where
  "streamIssues pf stream planTy effectiveMonth m should v =
     (if should \<and> \<not> hasPositiveAmount pf v
      then [missingAmountIssue stream m planTy effectiveMonth v] else [])
     @ (if \<not> should \<and> hasPositiveAmount pf v
        then [unexpectedAmountIssue stream m planTy v] else [])"

definition checkRev1 :: "LmsQuotaRecord \<Rightarrow> bool" where
  "checkRev1 rec =
     (component rec = ''Non-SA'' \<or> component rec = ''Rev 1 Only''
      \<or> component rec = ''Rev 1 & Rev 2'')"

definition checkRev2 :: "LmsQuotaRecord \<Rightarrow> bool" where
  "checkRev2 rec = (component rec = ''Rev 2 Only'' \<or> component rec = ''Rev 1 & Rev 2'')"

definition isRev2Only :: "LmsQuotaRecord \<Rightarrow> bool" where
  "isRev2Only rec = (component rec = ''Rev 2 Only'')"

text \<open>The issues one month pushes, in the order of the source.\<close>

definition monthIssues ::
  "(string \<Rightarrow> number) \<Rightarrow> LmsQuotaRecord \<Rightarrow> nat option \<Rightarrow> string \<Rightarrow> bool
    \<Rightarrow> LmsV2Issue list" where
  "monthIssues pf rec effectiveMonth m should =
     (if checkRev1 rec
      then streamIssues pf ''Rev1'' (planType rec) effectiveMonth m should
             (lmsMonthValue (rev1Monthly rec) m)
      else [])
     @ (if checkRev2 rec
        then streamIssues pf ''Rev2'' (planType rec) effectiveMonth m should
               (lmsMonthValue (rev2Monthly rec) m)
        else [])
     @ (if isRev2Only rec \<and> hasPositiveAmount pf (lmsMonthValue (rev1Monthly rec) m)
        then [\<lparr>column = ''Rev1-'' @ m, issueMonth = m, issueType = rev2_only_has_rev1,
               expectedBehavior =
                 ''Rev 2 Only component should not have Rev 1 amounts (blank or 0 expected)'',
               actualValue = lmsMonthValue (rev1Monthly rec) m\<rparr>]
        else [])"

fun issuesLoop :: "(string \<Rightarrow> number) \<Rightarrow> LmsQuotaRecord \<Rightarrow> nat option \<Rightarrow> (string \<times> bool) list
    \<Rightarrow> LmsV2Issue list \<Rightarrow> LmsV2Issue list" where
  "issuesLoop pf rec effectiveMonth [] found = found"
| "issuesLoop pf rec effectiveMonth ((m, should) # expectedMonths) found =
     issuesLoop pf rec effectiveMonth expectedMonths
       (found @ monthIssues pf rec effectiveMonth m should)"

text \<open>
  The comparator of \<open>issues.sort\<close>. \<open>Array.prototype.sort\<close> is stable, so the result is
  the stable sort by this comparator, computed here by insertion. The months of the issues
  are months of \<open>LMS_MONTHS\<close>, own properties of \<open>monthOrder\<close>.
\<close>

definition monthOrder :: "string \<Rightarrow> int" where
  "monthOrder m =
     (case map_of [(''JAN'', 1), (''FEB'', 2), (''MAR'', 3), (''APR'', 4), (''MAY'', 5),
                   (''JUN'', 6)] m of
        None \<Rightarrow> 0 | Some k \<Rightarrow> k)"

definition compareIssues :: "LmsV2Issue \<Rightarrow> LmsV2Issue \<Rightarrow> int" where
  "compareIssues a b =
     (let aIsRev1 = (if startsWith (column a) ''Rev1'' then 0 else 1);
          bIsRev1 = (if startsWith (column b) ''Rev1'' then 0 else 1)
      in if aIsRev1 \<noteq> bIsRev1 then aIsRev1 - bIsRev1
         else monthOrder (issueMonth a) - monthOrder (issueMonth b))"

fun insertIssue :: "LmsV2Issue \<Rightarrow> LmsV2Issue list \<Rightarrow> LmsV2Issue list" where
  "insertIssue x [] = [x]"
| "insertIssue x (y # ys) =
     (if compareIssues x y \<le> 0 then x # y # ys else y # insertIssue x ys)"

definition sortIssues :: "LmsV2Issue list \<Rightarrow> LmsV2Issue list" where
  "sortIssues xs = foldr insertIssue xs []"

text \<open>
  The body of the loop of V2 for one record: the result it pushes, or \<open>None\<close> when it
  pushes nothing.
\<close>

definition alignmentCheck :: "(string \<Rightarrow> number) \<Rightarrow> LmsQuotaRecord \<Rightarrow> LmsV2Result option" where
  "alignmentCheck pf rec =
     (if isTbhOrBlank (employeeId rec) then None
      else
        (case quotaEffectiveDate rec of
           None \<Rightarrow> None
         | Some effectiveDate \<Rightarrow>
             (let effectiveCalMonth = numAdd (getUTCMonth effectiveDate) (Some 1)
              in if lessThan (Some 6) effectiveCalMonth then None
                 else
                   (let effectiveMonth = Math_max (Some 1) effectiveCalMonth;
                        expectedMonths = getExpectedActiveMonths effectiveMonth (planType rec);
                        found = issuesLoop pf rec effectiveMonth expectedMonths []
                    in if length found > 0
                       then Some \<lparr>lmsV2Record = rec, issues = sortIssues found\<rparr>
                       else None))))"

fun lmsV2Loop :: "(string \<Rightarrow> number) \<Rightarrow> LmsQuotaRecord list \<Rightarrow> LmsV2Result list
    \<Rightarrow> LmsV2Result list" where
  "lmsV2Loop pf [] v2Results = v2Results"
| "lmsV2Loop pf (rec # recs) v2Results =
     (case alignmentCheck pf rec of
        None \<Rightarrow> lmsV2Loop pf recs v2Results
      | Some r \<Rightarrow> lmsV2Loop pf recs (v2Results @ [r]))"

subsection \<open>V3: on leave with quota\<close>

text \<open>\<open>selectedProcessingMonth.split('-')[0]\<close>: the text before the first hyphen.\<close>

definition beforeHyphen :: "string \<Rightarrow> string" where
  "beforeHyphen s = takeWhile (\<lambda>c. c \<noteq> CHR ''-'') s"

definition onLeaveCheck ::
  "(string \<Rightarrow> number) \<Rightarrow> ReferenceRecord list Map \<Rightarrow> string \<Rightarrow> LmsQuotaRecord
    \<Rightarrow> LmsV3Result option" where
  "onLeaveCheck pf refMap processingMonthKey rec =
     (if isTbhOrBlank (employeeId rec) then None
      else
        (case Map_get refMap (employeeId rec) of
           None \<Rightarrow> None
         | Some refs \<Rightarrow>
             (case find (\<lambda>ref. activeStatus ref = Some ''Yes'' \<and> onLeave ref = Some ''Yes'') refs of
                None \<Rightarrow> None
              | Some onLeaveRef \<Rightarrow>
                  if processingMonthKey \<notin> set LMS_MONTHS then None
                  else
                    (let val1 = lmsMonthValue (rev1Monthly rec) processingMonthKey;
                         val2 = lmsMonthValue (rev2Monthly rec) processingMonthKey;
                         withValues =
                           (if checkRev1 rec \<and> hasPositiveAmount pf val1
                            then [(''Rev1-'' @ processingMonthKey, val1)] else [])
                           @ (if checkRev2 rec \<and> hasPositiveAmount pf val2
                              then [(''Rev2-'' @ processingMonthKey, val2)] else [])
                     in if length withValues > 0
                        then Some \<lparr>lmsV3Record = rec, lmsV3RefInfo = refInfoOf onLeaveRef,
                                   processingMonth = processingMonthKey,
                                   quotaColumnsWithValues = withValues\<rparr>
                        else None))))"

fun lmsV3Loop :: "(string \<Rightarrow> number) \<Rightarrow> ReferenceRecord list Map \<Rightarrow> string
    \<Rightarrow> LmsQuotaRecord list \<Rightarrow> LmsV3Result list \<Rightarrow> LmsV3Result list" where
  "lmsV3Loop pf refMap processingMonthKey [] v3Results = v3Results"
| "lmsV3Loop pf refMap processingMonthKey (rec # recs) v3Results =
     (case onLeaveCheck pf refMap processingMonthKey rec of
        None \<Rightarrow> lmsV3Loop pf refMap processingMonthKey recs v3Results
      | Some r \<Rightarrow> lmsV3Loop pf refMap processingMonthKey recs (v3Results @ [r]))"

subsection \<open>The LMS run\<close>

definition lmsFilteredRecords ::
  "LmsQuotaRecord list \<Rightarrow> ReferenceRecord list \<Rightarrow> Region \<Rightarrow> LmsQuotaRecord list" where
  "lmsFilteredRecords records refRecords selectedRegion =
     filter (regionFilter (buildRefMap refRecords [])
               (set (getCountriesForRegion selectedRegion)) selectedRegion) records"

definition runLmsValidation ::
  "(string \<Rightarrow> number) \<Rightarrow> (string \<Rightarrow> string) \<Rightarrow> LmsQuotaRecord list \<Rightarrow> ReferenceRecord list
    \<Rightarrow> string \<Rightarrow> Region \<Rightarrow> LmsValidationResults" where
  "runLmsValidation pf fnText records refRecords selectedProcessingMonth selectedRegion =
     (let refMap = buildRefMap refRecords [];
          validCountries = set (getCountriesForRegion selectedRegion);
          filteredRecords = lmsFilteredRecords records refRecords selectedRegion;
          v1Results = lmsV1Loop fnText refMap validCountries selectedRegion filteredRecords [];
          v2Results = lmsV2Loop pf filteredRecords [];
          processingMonthKey = toUpperCase (beforeHyphen selectedProcessingMonth);
          v3Results = lmsV3Loop pf refMap processingMonthKey filteredRecords []
      in \<lparr>lmsV1 = v1Results, lmsV2 = v2Results, lmsV3 = v3Results,
          lmsSummary =
            \<lparr>lmsV1Pass = countStatus Pass v1Results,
             lmsV1Fail = countStatus Fail v1Results,
             lmsV1Skip = countStatus Skip v1Results,
             v2AlignmentIssues = length v2Results,
             v3OnLeaveWithQuota = length v3Results,
             lmsTotalRecords = length filteredRecords\<rparr>\<rparr>)"

section \<open>The vocabulary of the specification\<close>

text \<open>
  The label format of the specification: a three-letter month abbreviation, a hyphen and a
  two-digit year, the letters in either case.
\<close>

definition labelHasFormat :: "string \<Rightarrow> bool" where
  "labelHasFormat s =
     (length s = 6 \<and> toLowerCase (take 3 s) \<in> set (map toLowerCase monthAlternatives)
      \<and> s ! 3 = CHR ''-'' \<and> isDigit (s ! 4) \<and> isDigit (s ! 5))"

text \<open>
  The three conditions of the identity check on a roster entry, as the specification words
  them: the active status is exactly \<open>Yes\<close>, the on-leave field is blank, and the country
  is not blank and lies in the valid set.
\<close>

definition isBlank :: "string option \<Rightarrow> bool" where
  "isBlank v = (v = None \<or> v = Some [])"

definition countryValid :: "string set \<Rightarrow> ReferenceRecord \<Rightarrow> bool" where
  "countryValid validCountries r = (\<not> isBlank (country r) \<and> the (country r) \<in> validCountries)"

definition satisfiesAll :: "string set \<Rightarrow> ReferenceRecord \<Rightarrow> bool" where
  "satisfiesAll validCountries r =
     (activeStatus r = Some ''Yes'' \<and> isBlank (onLeave r) \<and> countryValid validCountries r)"

text \<open>
  The message of each condition, written out. The message of the country names the region
  of the country when the table of countries has one; for a country that is the name of a
  member of \<open>Object.prototype\<close> it shows the text of that member in the place of a region.
\<close>

definition activeStatusMessage :: "string option \<Rightarrow> string" where
  \<open>activeStatusMessage a =
     ''Active Status="'' @ (case a of None \<Rightarrow> ''(blank)'' | Some s \<Rightarrow> s) @ ''" (expected Yes)''\<close>

definition onLeaveMessage :: "string option \<Rightarrow> string" where
  \<open>onLeaveMessage l =
     ''On Leave="'' @ (case l of None \<Rightarrow> ''null'' | Some s \<Rightarrow> s) @ ''" (expected blank)''\<close>

definition regionNote :: "(string \<Rightarrow> string) \<Rightarrow> string \<Rightarrow> string" where
  "regionNote fnText c =
     (case map_of COUNTRY_REGION_MAP c of
        Some APAC \<Rightarrow> '' (Region: APAC)''
      | Some EMEAL \<Rightarrow> '' (Region: EMEAL)''
      | Some NAMER \<Rightarrow> '' (Region: NAMER)''
      | None \<Rightarrow>
          if c = ''__proto__'' then '' (Region: [object Object])''
          else if c = ''constructor'' then '' (Region: '' @ fnText ''Object'' @ '')''
          else if c \<in> set objectPrototype then '' (Region: '' @ fnText c @ '')''
          else [])"

definition countryMessage :: "(string \<Rightarrow> string) \<Rightarrow> Region \<Rightarrow> string option \<Rightarrow> string" where
  \<open>countryMessage fnText selectedRegion c =
     (case c of
        None \<Rightarrow> ''Country="(blank)" - not in '' @ regionName selectedRegion
      | Some n \<Rightarrow>
          ''Country="'' @ n @ ''"'' @ (if n = [] then [] else regionNote fnText n)
          @ '' - not in '' @ regionName selectedRegion)\<close>

text \<open>The messages of exactly the conditions a roster entry violates, in that order.\<close>

definition violatedConditions ::
  "(string \<Rightarrow> string) \<Rightarrow> string set \<Rightarrow> Region \<Rightarrow> ReferenceRecord \<Rightarrow> string list" where
  "violatedConditions fnText validCountries selectedRegion r =
     [activeStatusMessage (activeStatus r). activeStatus r \<noteq> Some ''Yes'']
     @ [onLeaveMessage (onLeave r). \<not> isBlank (onLeave r)]
     @ [countryMessage fnText selectedRegion (country r). \<not> countryValid validCountries r]"

text \<open>The reason string: the messages in order, separated by a semicolon and a space.\<close>

fun listing :: "string list \<Rightarrow> string" where
  "listing [] = []"
| "listing (m # ms) = m @ concat (map (\<lambda>x. ''; '' @ x) ms)"

text \<open>
  The vocabulary of check 3. A blank string consists of white space characters only, as the
  empty string does. A dash string is a single hyphen, alone or with white space characters
  before it or after it.
\<close>

definition blankString :: "string \<Rightarrow> bool" where
  "blankString s = (\<exists>ws. set ws \<subseteq> set whiteSpace \<and> s = concat ws)"

definition dashString :: "string \<Rightarrow> bool" where
  "dashString s = (\<exists>a b. blankString a \<and> blankString b \<and> s = a @ ''-'' @ b)"

text \<open>
  A value is missing when it is null or absent, a blank or dash string, or the number zero.
\<close>

definition valueMissing :: "cell \<Rightarrow> bool" where
  "valueMissing v =
     (case v of
        Null \<Rightarrow> True
      | Undefined \<Rightarrow> True
      | String s \<Rightarrow> blankString s \<or> dashString s
      | Number n \<Rightarrow> n = Finite 0)"

text \<open>The months of the selected half, each with its calendar index.\<close>

definition halfMonths :: "YearMonth \<Rightarrow> (string \<times> nat) list" where
  "halfMonths parsed =
     (if 7 \<le> month parsed
      then [(''JUL'', 7), (''AUG'', 8), (''SEP'', 9), (''OCT'', 10), (''NOV'', 11), (''DEC'', 12)]
      else [(''JAN'', 1), (''FEB'', 2), (''MAR'', 3), (''APR'', 4), (''MAY'', 5), (''JUN'', 6)])"

definition halfFirstMonth :: "YearMonth \<Rightarrow> nat" where
  "halfFirstMonth parsed = snd (hd (halfMonths parsed))"

definition halfLastMonth :: "YearMonth \<Rightarrow> nat" where
  "halfLastMonth parsed = snd (last (halfMonths parsed))"

text \<open>
  The start (year, month) of a date, the month counted from 1. The Invalid Date has none.
\<close>

fun startOf :: "Date \<Rightarrow> (int \<times> nat) option" where
  "startOf InvalidDate = None"
| "startOf (ValidDate y m) = Some (y, m + 1)"

text \<open>The start (year, month) is after the end of the selected half.\<close>

definition startAfterHalfEnd :: "YearMonth \<Rightarrow> Date \<Rightarrow> bool" where
  "startAfterHalfEnd parsed qs =
     (case startOf qs of
        None \<Rightarrow> False
      | Some (y, m) \<Rightarrow> year parsed < y \<or> (y = year parsed \<and> halfLastMonth parsed < m))"

text \<open>
  The effective start month: the later of the first month of the half and the start month
  when the start falls within the year of the half, else the first month of the half.
\<close>

definition effectiveStart :: "YearMonth \<Rightarrow> Date \<Rightarrow> nat" where
  "effectiveStart parsed qs =
     (case startOf qs of
        None \<Rightarrow> halfFirstMonth parsed
      | Some (y, m) \<Rightarrow>
          if y = year parsed then max (halfFirstMonth parsed) m else halfFirstMonth parsed)"

text \<open>
  The months of the half from the effective start month on whose value in a bucket is
  missing.
\<close>

definition missingIn :: "YearMonth \<Rightarrow> Date \<Rightarrow> MonthlyQuotas \<Rightarrow> string list" where
  "missingIn parsed qs q =
     map fst (filter (\<lambda>(k, c). effectiveStart parsed qs \<le> c \<and> valueMissing (monthValue q k))
                (halfMonths parsed))"

text \<open>
  The missing months of an optional bucket that is checked under a condition: none when the
  bucket is absent or not checked.
\<close>

definition missingInOptional ::
  "bool \<Rightarrow> YearMonth \<Rightarrow> Date \<Rightarrow> MonthlyQuotas option \<Rightarrow> string list" where
  "missingInOptional applies parsed qs q =
     (case q of None \<Rightarrow> [] | Some b \<Rightarrow> if applies then missingIn parsed qs b else [])"

text \<open>
  The vocabulary of the LMS checks: the table of geography codes, the months of the window
  with their calendar index, the quarter boundary of an effective month, and the months that
  a quarterly plan expects to hold a positive amount.
\<close>

definition geoRegion :: "string \<Rightarrow> Region option" where
  "geoRegion g =
     (if g = ''APAC'' then Some APAC
      else if g = ''EMEA'' \<or> g = ''LATAM'' then Some EMEAL
      else if g = ''NAMER'' then Some NAMER
      else None)"

definition windowMonths :: "(string \<times> nat) list" where
  "windowMonths =
     [(''JAN'', 1), (''FEB'', 2), (''MAR'', 3), (''APR'', 4), (''MAY'', 5), (''JUN'', 6)]"

definition quarterBoundary :: "nat \<Rightarrow> nat" where
  "quarterBoundary m = (if m \<le> 3 then 3 else 6)"

definition expectsAmount :: "nat \<Rightarrow> nat \<Rightarrow> bool" where
  "expectsAmount m c = (m \<le> c \<and> c \<le> quarterBoundary m)"

text \<open>An issue is reported for a record: some V2 result of the record lists it.\<close>

definition reported :: "LmsValidationResults \<Rightarrow> LmsQuotaRecord \<Rightarrow> LmsV2Issue \<Rightarrow> bool" where
  "reported out rec iss = (\<exists>r \<in> set (lmsV2 out). lmsV2Record r = rec \<and> iss \<in> set (issues r))"

text \<open>
  The two issues of the claim, written out, for a stream (\<open>Rev1\<close> or \<open>Rev2\<close>), a month
  \<open>k\<close> of the window and the value \<open>v\<close> found there: the missing-amount issue, which
  names the plan type and the month of the window with index \<open>m\<close>, and the should-be-zero
  issue.
\<close>

definition missingAmountReport :: "string \<Rightarrow> string \<Rightarrow> string \<Rightarrow> nat \<Rightarrow> cell \<Rightarrow> LmsV2Issue" where
  "missingAmountReport stream k planTy m v =
     \<lparr>column = stream @ ''-'' @ k, issueMonth = k, issueType = missing_amount,
      expectedBehavior = ''Expected amount > 0 ('' @ planTy @ '', effective from ''
        @ fst (windowMonths ! (m - 1)) @ '')'',
      actualValue = v\<rparr>"

definition shouldBeZeroIssue :: "string \<Rightarrow> string \<Rightarrow> cell \<Rightarrow> LmsV2Issue" where
  "shouldBeZeroIssue stream m v =
     \<lparr>column = stream @ ''-'' @ m, issueMonth = m, issueType = should_be_zero,
      expectedBehavior = ''Month before effective date or after quarter end should be 0'',
      actualValue = v\<rparr>"

section \<open>Example data\<close>

text \<open>The text that the engine V8 gives a built-in function.\<close>

definition v8 :: "string \<Rightarrow> string" where
  "v8 n = ''function '' @ n @ ''() { [native code] }''"

definition amounts :: "cell \<Rightarrow> MonthlyQuotas" where
  "amounts v = \<lparr>JUL = v, AUG = v, SEP = v, OCT = v, NOV = v, DEC = v,
                JAN = v, FEB = v, MAR = v, APR = v, MAY = v, JUN = v\<rparr>"

definition exRecord :: "string \<Rightarrow> Date option \<Rightarrow> Date option \<Rightarrow> MonthlyQuotas \<Rightarrow> QuotaRecord" where
  "exRecord e sm qs q =
     \<lparr>sheet = ''IC Quota'', row = 7, eid = e, name = ''N'', level = ''L'', repRegion = ''NAMER'',
      dualMetric = ''SMC'', quotaStartDate = qs, submissionMonth = sm, monthlyQuotas = q,
      monthlyQuotasY2Y3 = None, monthlyQuotasComp2 = None, monthlyQuotasComp2Y2Y3 = None\<rparr>"

definition sep25 :: Date where
  "sep25 = ValidDate 2025 8"

definition oct25 :: Date where
  "oct25 = ValidDate 2025 9"

definition exRecords :: "QuotaRecord list" where
  "exRecords =
    [exRecord ''E1'' (Some sep25) (Some sep25)
       ((amounts (Number (Finite 100)))
          \<lparr>JUL := Number (Finite 0), OCT := Number (Finite 0), NOV := Number (Finite 0)\<rparr>),
     exRecord ''TBH-1'' (Some sep25) None (amounts Null),
     exRecord ''E1'' (Some sep25) None (amounts Null),
     exRecord ''E2'' (Some oct25) (Some sep25) (amounts Null),
     exRecord ''E3'' (Some sep25) (Some oct25) (amounts (Number (Finite 5)))]"

definition exRef :: "string \<Rightarrow> string option \<Rightarrow> string option \<Rightarrow> string option \<Rightarrow> ReferenceRecord" where
  "exRef e a l c =
     \<lparr>refEid = e, fullName = ''F'', activeStatus = a, onLeave = l, country = c, jobTitle = None\<rparr>"

definition exRefs :: "ReferenceRecord list" where
  "exRefs =
    [exRef ''E1'' (Some ''No'') None (Some ''Japan''),
     exRef ''E3'' (Some ''No'') (Some ''Yes'') (Some ''Canada''),
     exRef ''E1'' (Some ''Yes'') None (Some ''Japan''),
     exRef ''E3'' (Some ''Yes'') None None]"

text \<open>
  Records and a roster for check 1, all of submission month September 2025; the second
  record has a blank identifier. The roster entries of \<open>E1\<close> are an inactive one and two
  valid ones; those of \<open>E3\<close> end with an entry that violates all three conditions; the
  entry of \<open>E4\<close> has no active status and the country \<open>constructor\<close>, the name of a
  member of \<open>Object.prototype\<close>.
\<close>

definition exIdentity :: "QuotaRecord list" where
  "exIdentity =
    [exRecord ''E1'' (Some sep25) None (amounts Null),
     exRecord ''-'' (Some sep25) None (amounts Null),
     exRecord ''E3'' (Some sep25) None (amounts Null),
     exRecord ''E4'' (Some sep25) None (amounts Null)]"

definition exRoster :: "ReferenceRecord list" where
  "exRoster =
    [exRef ''E1'' (Some ''No'') None (Some ''Japan''),
     exRef ''E3'' (Some ''Yes'') None None,
     exRef ''E4'' None None (Some ''constructor''),
     exRef ''E1'' (Some ''Yes'') (Some []) (Some ''India''),
     exRef ''E3'' (Some ''No'') (Some ''Yes'') (Some ''Canada''),
     exRef ''E1'' (Some ''Yes'') None (Some ''Japan'')]"

text \<open>
  Records for check 3, all of submission month September 2025: one that starts in September
  2025 with zero amounts from July to November, one that starts in January 2026, after the
  half, and one that starts in March 2024 with every amount filled.
\<close>

definition jan26 :: Date where
  "jan26 = ValidDate 2026 0"

definition mar24 :: Date where
  "mar24 = ValidDate 2024 2"

definition exStartSep :: QuotaRecord where
  "exStartSep =
     exRecord ''E1'' (Some sep25) (Some sep25)
       ((amounts (Number (Finite 100)))
          \<lparr>JUL := Number (Finite 0), AUG := Number (Finite 0), SEP := Number (Finite 0),
           OCT := Number (Finite 0), NOV := Number (Finite 0)\<rparr>)"

definition exStartJan :: QuotaRecord where
  "exStartJan = exRecord ''E2'' (Some sep25) (Some jan26) (amounts Null)"

definition exStartMar :: QuotaRecord where
  "exStartMar = exRecord ''E3'' (Some sep25) (Some mar24) (amounts (Number (Finite 100)))"

definition exRecords3 :: "QuotaRecord list" where
  "exRecords3 = [exStartSep, exStartJan, exStartMar]"

text \<open>
  More records of submission month September 2025, with text in their cells. A no-break
  space (U+00A0) is the two bytes \<open>C2 A0\<close>, a byte order mark (U+FEFF) the three bytes
  \<open>EF BB BF\<close>. The first record starts in September 2025 and has a no-break space for
  September and zero for October and November. The second starts in August 2025 and has
  text for every month of the half: an empty string for July and for August, a no-break
  space, a hyphen between a space and a byte order mark, the digit zero, and two hyphens.
  The third is a dual-metric
  record that starts in March 2024, with every primary amount filled and a second component
  without any amount.
\<close>

definition noBreakSpace :: string where
  "noBreakSpace = [CHR 0xC2, CHR 0xA0]"

definition byteOrderMark :: string where
  "byteOrderMark = [CHR 0xEF, CHR 0xBB, CHR 0xBF]"

definition aug25 :: Date where
  "aug25 = ValidDate 2025 7"

definition exNbsp :: QuotaRecord where
  "exNbsp =
     exRecord ''E5'' (Some sep25) (Some sep25)
       ((amounts (Number (Finite 100)))
          \<lparr>JUL := Number (Finite 0), AUG := Number (Finite 0), SEP := String noBreakSpace,
           OCT := Number (Finite 0), NOV := Number (Finite 0)\<rparr>)"

definition exText :: QuotaRecord where
  "exText =
     exRecord ''E6'' (Some sep25) (Some aug25)
       \<lparr>JUL = String [], AUG = String [], SEP = String noBreakSpace,
        OCT = String ('' -'' @ byteOrderMark), NOV = String ''0'', DEC = String ''--'',
        JAN = Null, FEB = Null, MAR = Null, APR = Null, MAY = Null, JUN = Null\<rparr>"

definition exDual :: QuotaRecord where
  "exDual =
     (exRecord ''E7'' (Some sep25) (Some mar24) (amounts (Number (Finite 100))))
       \<lparr>dualMetric := ''dmc'', monthlyQuotasComp2 := Some (amounts Null)\<rparr>"

text \<open>
  A record of submission month September 2025 whose quota start date is the Invalid Date,
  without any amount.
\<close>

definition exInvalid :: QuotaRecord where
  "exInvalid = exRecord ''E8'' (Some sep25) (Some InvalidDate) (amounts Null)"

definition exCells :: "QuotaRecord list" where
  "exCells = [exNbsp, exInvalid, exText, exStartJan, exDual, exStartMar]"

text \<open>
  Records and roster entries for the region resolver: an identifier with a roster entry in
  Japan and a market segment that names another region, and a placeholder identifier that
  has a roster entry.
\<close>

definition exOverlay :: "string \<Rightarrow> QuotaRecord" where
  "exOverlay e = exRecord e (Some sep25) None (amounts Null)"

definition exOverlayMap :: "ReferenceRecord list Map" where
  "exOverlayMap =
     buildRefMap
       [exRef ''E7'' (Some ''Yes'') None (Some ''Canada''),
        exRef ''E7'' (Some ''Yes'') None (Some ''Japan''),
        exRef ''TBH-9'' (Some ''Yes'') None (Some ''Japan'')] []"

text \<open>LMS records for the examples.\<close>

definition lmsAmounts :: "cell \<Rightarrow> cell \<Rightarrow> cell \<Rightarrow> cell \<Rightarrow> cell \<Rightarrow> cell \<Rightarrow> LmsMonthlyQuotas" where
  "lmsAmounts a b c d e f =
     \<lparr>lmsJAN = a, lmsFEB = b, lmsMAR = c, lmsAPR = d, lmsMAY = e, lmsJUN = f\<rparr>"

definition exLms ::
  "string \<Rightarrow> string \<Rightarrow> string \<Rightarrow> string \<Rightarrow> Date option \<Rightarrow> LmsMonthlyQuotas \<Rightarrow> LmsMonthlyQuotas
    \<Rightarrow> LmsQuotaRecord" where
  "exLms e g cmp pt d r1 r2 =
     \<lparr>lmsRow = 2, lmsName = ''N'', employeeId = e, managerId = ''M1'', managerName = ''M'',
      geo = g, tier = ''T'', segment = ''S'', sdGroup = ''G'', team = ''X'', component = cmp,
      planType = pt, recentEvent = [], quotaEffectiveDate = d, lmsNotes = [],
      q3Quota = Null, q4Quota = Null, h2Quota = Null, rev1Monthly = r1,
      q3GlobalQuota = Null, q4GlobalQuota = Null, h2GlobalQuota = Null, rev2Monthly = r2,
      bookCountMonthly = lmsAmounts Null Null Null Null Null Null\<rparr>"

definition noParse :: "string \<Rightarrow> number" where
  "noParse s = NaN"

definition zeroAmount :: cell where
  "zeroAmount = Number (Finite 0)"

definition feb26 :: Date where
  "feb26 = ValidDate 2026 1"

definition mar25 :: Date where
  "mar25 = ValidDate 2025 2"

definition nov25 :: Date where
  "nov25 = ValidDate 2025 10"

text \<open>
  A quarterly plan effective from February 2026, both streams checked: stream 1 has no amount
  in February and an amount in April, stream 2 has an amount in June only.
\<close>

definition exQtrly :: LmsQuotaRecord where
  "exQtrly =
     exLms ''L1'' ''SA'' ''Rev 1 & Rev 2'' ''QTRLY'' (Some feb26)
       (lmsAmounts zeroAmount zeroAmount (Number (Finite 100)) (Number (Finite 50)) zeroAmount zeroAmount)
       (lmsAmounts zeroAmount (Number (Finite 7)) (Number (Finite 7)) zeroAmount zeroAmount (Number (Finite 5)))"

text \<open>
  The same plan under a placeholder identifier, with stream 1 checked and no amount at all.
\<close>

definition exQtrlyTbh :: LmsQuotaRecord where
  "exQtrlyTbh =
     exLms ''TBH'' ''SA'' ''Non-SA'' ''Qtrly'' (Some feb26)
       (lmsAmounts zeroAmount zeroAmount zeroAmount zeroAmount zeroAmount zeroAmount)
       (lmsAmounts Null Null Null Null Null Null)"

text \<open>
  Semi-annual plans effective from March 2025 and from November 2025, before the window of
  January to June 2026, with no amounts in January and February.
\<close>

definition exPriorMarch :: LmsQuotaRecord where
  "exPriorMarch =
     exLms ''L2'' ''SA'' ''Non-SA'' ''Semi'' (Some mar25)
       (lmsAmounts zeroAmount zeroAmount (Number (Finite 100)) (Number (Finite 100)) (Number (Finite 100))
          (Number (Finite 100)))
       (lmsAmounts Null Null Null Null Null Null)"

definition exPriorNov :: LmsQuotaRecord where
  "exPriorNov =
     exLms ''L3'' ''SA'' ''Non-SA'' ''Semi'' (Some nov25)
       (lmsAmounts zeroAmount zeroAmount (Number (Finite 100)) (Number (Finite 100)) (Number (Finite 100))
          (Number (Finite 100)))
       (lmsAmounts Null Null Null Null Null Null)"

text \<open>
  Records for the region filter. Three have no roster entry in \<open>exRefs\<close>: their geography
  codes are \<open>Emea\<close>, \<open>sa\<close>, and a long s (U+017F, the two bytes \<open>C5 BF\<close>) followed by
  \<open>a\<close>, which \<open>toUpperCase\<close> turns into \<open>SA\<close>. Two have the roster entries of
  \<open>exRefs\<close>. The last has a placeholder identifier.
\<close>

definition exGeo :: "string \<Rightarrow> string \<Rightarrow> LmsQuotaRecord" where
  "exGeo e g =
     exLms e g ''Non-SA'' ''Semi'' None (lmsAmounts Null Null Null Null Null Null)
       (lmsAmounts Null Null Null Null Null Null)"

definition longS :: string where
  "longS = [CHR 0xC5, CHR 0xBF]"

definition exLmsRecords :: "LmsQuotaRecord list" where
  "exLmsRecords = [exGeo ''L1'' ''sa'', exGeo ''L2'' ''Emea'', exGeo ''E1'' ''NAMER'',
     exGeo ''E3'' ''APAC'', exGeo ''L4'' (longS @ ''a''), exGeo ''tbh'' ''EMEA'']"

text \<open>
  A record with a placeholder identifier that has one roster entry, in Canada.
\<close>

definition exPlaceholder :: LmsQuotaRecord where
  "exPlaceholder = exGeo ''TBH-9'' ''NAMER''"

definition exPlaceholderRoster :: "ReferenceRecord list" where
  "exPlaceholderRoster = [exRef ''TBH-9'' (Some ''Yes'') None (Some ''Canada'')]"

section \<open>Case conversion\<close>

lemma dropLeading_drop: "dropLeading ws k s = dropLeading ws 0 (drop k s)"
  by (induction ws k s rule: dropLeading.induct) simp_all

lemma lower_upper: "toLowerCaseChar (toUpperCaseChar c) = toLowerCaseChar c"
  by (simp add: toLowerCaseChar_def toUpperCaseChar_def)

lemma upper_lower: "toUpperCaseChar (toLowerCaseChar c) = toUpperCaseChar c"
  by (simp add: toLowerCaseChar_def toUpperCaseChar_def)

lemma canonicalize_eq: "canonicalize = toUpperCaseChar"
  by (simp add: fun_eq_iff canonicalize_def)

text \<open>Two strings have the same canonical form exactly when they have the same lower case.\<close>

lemma canonicalize_eq_iff:
  "(map canonicalize xs = map canonicalize ys)
     = (map toLowerCaseChar xs = map toLowerCaseChar ys)"
proof
  assume "map canonicalize xs = map canonicalize ys"
  then have "map toLowerCaseChar (map canonicalize xs) = map toLowerCaseChar (map canonicalize ys)"
    by simp
  then show "map toLowerCaseChar xs = map toLowerCaseChar ys"
    by (simp add: comp_def canonicalize_eq lower_upper)
next
  assume "map toLowerCaseChar xs = map toLowerCaseChar ys"
  then have "map canonicalize (map toLowerCaseChar xs) = map canonicalize (map toLowerCaseChar ys)"
    by simp
  then show "map canonicalize xs = map canonicalize ys"
    by (simp add: comp_def canonicalize_eq upper_lower)
qed

text \<open>The lower case of a string of three bytes.\<close>

lemma toLowerCase3:
  "toLowerCase [a, b, c]
     = (if a = CHR 0xE2 \<and> b = CHR 0x84 \<and> c = CHR 0xAA then ''k''
        else if a = CHR 0xC4 \<and> b = CHR 0xB0
        then [CHR ''i'', CHR 0xCC, CHR 0x87, toLowerCaseChar c]
        else if b = CHR 0xC4 \<and> c = CHR 0xB0
        then [toLowerCaseChar a, CHR ''i'', CHR 0xCC, CHR 0x87]
        else [toLowerCaseChar a, toLowerCaseChar b, toLowerCaseChar c])"
  by (simp add: toLowerCase_def lowerSpecials_def isPrefix_def)

section \<open>White space\<close>

text \<open>
  The lemmas on dropping leading characters hold for every list of characters that has no
  empty one and in which none is the beginning of another; the white space characters are
  such a list, and so are the same characters reversed.
\<close>

lemma isPrefix_decomp: "isPrefix w s \<Longrightarrow> s = w @ drop (length w) s"
  by (metis isPrefix_def append_take_drop_id)

lemma isPrefix_comparable:
  assumes "isPrefix w1 s" and "isPrefix w2 s" and "length w1 \<le> length w2"
  shows "isPrefix w1 w2"
proof -
  from assms(2) have "take (length w1) w2 = take (length w1) (take (length w2) s)"
    by (simp add: isPrefix_def)
  also from assms(3) have "\<dots> = take (length w1) s" by (simp add: min_def)
  also from assms(1) have "\<dots> = w1" by (simp add: isPrefix_def)
  finally show ?thesis by (simp add: isPrefix_def)
qed

lemma match_SomeD:
  "matchWhiteSpace ws s = Some n \<Longrightarrow> \<exists>w \<in> set ws. isPrefix w s \<and> n = length w"
  by (induction ws) (auto split: if_splits)

lemma match_None_iff: "(matchWhiteSpace ws s = None) = (\<forall>w \<in> set ws. \<not> isPrefix w s)"
  by (induction ws) auto

lemma match_unique:
  assumes pf: "\<forall>w1 \<in> set ws. \<forall>w2 \<in> set ws. isPrefix w1 w2 \<longrightarrow> w1 = w2"
    and w: "w \<in> set ws" "isPrefix w s"
  shows "matchWhiteSpace ws s = Some (length w)"
proof (cases "matchWhiteSpace ws s")
  case None
  with w show ?thesis by (simp add: match_None_iff)
next
  case (Some n)
  from match_SomeD [OF Some] obtain v where v: "v \<in> set ws" "isPrefix v s" "n = length v"
    by blast
  have "v = w"
  proof (cases "length v \<le> length w")
    case True
    from isPrefix_comparable [OF v(2) w(2) True] pf v(1) w(1) show ?thesis by blast
  next
    case False
    then have "length w \<le> length v" by simp
    from isPrefix_comparable [OF w(2) v(2) this] pf v(1) w(1) show ?thesis by blast
  qed
  with Some v(3) show ?thesis by simp
qed

lemma dropLeading_step:
  assumes pf: "\<forall>w1 \<in> set ws. \<forall>w2 \<in> set ws. isPrefix w1 w2 \<longrightarrow> w1 = w2"
    and w: "w \<in> set ws" "w \<noteq> []"
  shows "dropLeading ws 0 (w @ r) = dropLeading ws 0 r"
proof -
  from w(2) obtain c v where v: "w = c # v" by (cases w) auto
  have "isPrefix w (w @ r)" by (simp add: isPrefix_def)
  from match_unique [OF pf w(1) this] have "matchWhiteSpace ws (c # v @ r) = Some (Suc (length v))"
    by (simp add: v)
  then have "dropLeading ws 0 (w @ r) = dropLeading ws (length v) (v @ r)"
    by (simp add: v)
  also have "\<dots> = dropLeading ws 0 r"
    by (simp add: dropLeading_drop [of ws "length v"])
  finally show ?thesis .
qed

lemma dropLeading_blank:
  assumes ne: "[] \<notin> set ws"
    and pf: "\<forall>w1 \<in> set ws. \<forall>w2 \<in> set ws. isPrefix w1 w2 \<longrightarrow> w1 = w2"
  shows "set xs \<subseteq> set ws \<Longrightarrow> dropLeading ws 0 (concat xs @ r) = dropLeading ws 0 r"
proof (induction xs)
  case Nil
  show ?case by simp
next
  case (Cons x xs)
  from Cons.prems ne have x: "x \<in> set ws" "x \<noteq> []" by auto
  from Cons.prems have "set xs \<subseteq> set ws" by simp
  from Cons.IH [OF this] dropLeading_step [OF pf x, of "concat xs @ r"] show ?case by simp
qed

lemma dropLeading_stop: "\<forall>w \<in> set ws. \<not> isPrefix w s \<Longrightarrow> dropLeading ws 0 s = s"
  by (cases s) (simp_all add: match_None_iff [symmetric])

lemma dropLeading_decomp:
  assumes ne: "[] \<notin> set ws"
  shows "\<exists>xs. set xs \<subseteq> set ws \<and> s = concat xs @ dropLeading ws 0 s"
proof (induction s rule: length_induct)
  case (1 s)
  show ?case
  proof (cases s)
    case Nil
    then have "set [] \<subseteq> set ws \<and> s = concat [] @ dropLeading ws 0 s" by simp
    then show ?thesis by blast
  next
    case (Cons c cs)
    show ?thesis
    proof (cases "matchWhiteSpace ws s")
      case None
      with Cons have "set [] \<subseteq> set ws \<and> s = concat [] @ dropLeading ws 0 s" by simp
      then show ?thesis by blast
    next
      case (Some n)
      from match_SomeD [OF Some] obtain w where w: "w \<in> set ws" "isPrefix w s" "n = length w"
        by blast
      from w(1) ne have "w \<noteq> []" by auto
      with w(3) obtain k where k: "n = Suc k" by (cases w) auto
      from isPrefix_decomp [OF w(2)] w(3) have s: "s = w @ drop n s" by simp
      from Cons k have d: "drop n s = drop k cs" by simp
      from Some Cons k have l: "dropLeading ws 0 s = dropLeading ws 0 (drop n s)"
        by (simp add: d dropLeading_drop [of ws k])
      from Cons k have "length (drop n s) < length s" by simp
      with 1 obtain xs where xs: "set xs \<subseteq> set ws"
          "drop n s = concat xs @ dropLeading ws 0 (drop n s)" by blast
      from s xs(2) l have "s = concat (w # xs) @ dropLeading ws 0 s" by simp
      with w(1) xs(1) have "set (w # xs) \<subseteq> set ws \<and> s = concat (w # xs) @ dropLeading ws 0 s"
        by simp
      then show ?thesis by blast
    qed
  qed
qed

lemma whiteSpace_facts:
  "[] \<notin> set whiteSpace"
  "\<forall>w1 \<in> set whiteSpace. \<forall>w2 \<in> set whiteSpace. isPrefix w1 w2 \<longrightarrow> w1 = w2"
  "\<forall>w \<in> set whiteSpace. hd w \<noteq> CHR ''-''"
  by code_simp+

lemma reversed_facts:
  "[] \<notin> set (map rev whiteSpace)"
  "\<forall>w1 \<in> set (map rev whiteSpace). \<forall>w2 \<in> set (map rev whiteSpace). isPrefix w1 w2 \<longrightarrow> w1 = w2"
  "\<forall>w \<in> set (map rev whiteSpace). hd w \<noteq> CHR ''-''"
  by code_simp+

lemma hyphen_stops:
  assumes "[] \<notin> set ws" and "\<forall>w \<in> set ws. hd w \<noteq> CHR ''-''"
  shows "\<forall>w \<in> set ws. \<not> isPrefix w (CHR ''-'' # r)"
proof
  fix w assume w: "w \<in> set ws"
  with assms obtain c v where v: "w = c # v" "c \<noteq> CHR ''-''" by (cases w) auto
  then show "\<not> isPrefix w (CHR ''-'' # r)" by (simp add: isPrefix_def)
qed

lemma rev_blank:
  assumes "set xs \<subseteq> set whiteSpace"
  shows "\<exists>ys. set ys \<subseteq> set (map rev whiteSpace) \<and> rev (concat xs) = concat ys"
proof -
  from assms have "set (map rev (rev xs)) \<subseteq> set (map rev whiteSpace)" by auto
  moreover have "rev (concat xs) = concat (map rev (rev xs))" by (simp add: rev_concat)
  ultimately show ?thesis by blast
qed

lemma blank_rev:
  assumes "set ys \<subseteq> set (map rev whiteSpace)"
  shows "\<exists>xs. set xs \<subseteq> set whiteSpace \<and> rev (concat ys) = concat xs"
proof -
  from assms have "set (map rev (rev ys)) \<subseteq> set whiteSpace" by auto
  moreover have "rev (concat ys) = concat (map rev (rev ys))" by (simp add: rev_concat)
  ultimately show ?thesis by blast
qed

text \<open>
  What \<open>trim\<close> removes: the string is white space characters, the trimmed string, and
  white space characters.
\<close>

lemma trim_decomp:
  "\<exists>xs zs. set xs \<subseteq> set whiteSpace \<and> set zs \<subseteq> set whiteSpace
     \<and> s = concat xs @ trim s @ concat zs"
proof -
  let ?t = "dropLeading whiteSpace 0 s"
  from dropLeading_decomp [OF whiteSpace_facts(1), of s] obtain xs
    where xs: "set xs \<subseteq> set whiteSpace" "s = concat xs @ ?t" by blast
  from dropLeading_decomp [OF reversed_facts(1), of "rev ?t"] obtain ys
    where ys: "set ys \<subseteq> set (map rev whiteSpace)"
      "rev ?t = concat ys @ dropLeading (map rev whiteSpace) 0 (rev ?t)" by blast
  from blank_rev [OF ys(1)] obtain zs
    where zs: "set zs \<subseteq> set whiteSpace" "rev (concat ys) = concat zs" by blast
  from ys(2) have "rev (rev ?t) = rev (concat ys @ dropLeading (map rev whiteSpace) 0 (rev ?t))"
    by simp
  then have "?t = trim s @ concat zs" by (simp add: trim_def zs(2))
  with xs zs(1) have "set xs \<subseteq> set whiteSpace \<and> set zs \<subseteq> set whiteSpace
     \<and> s = concat xs @ trim s @ concat zs" by simp
  then show ?thesis by blast
qed

lemma trim_blank: "(trim s = []) = blankString s"
proof
  assume e: "trim s = []"
  from trim_decomp [of s] obtain xs zs
    where "set xs \<subseteq> set whiteSpace" "set zs \<subseteq> set whiteSpace"
      "s = concat xs @ trim s @ concat zs" by blast
  with e have "set (xs @ zs) \<subseteq> set whiteSpace \<and> s = concat (xs @ zs)" by simp
  then show "blankString s" unfolding blankString_def by (rule exI)
next
  assume "blankString s"
  then obtain xs where xs: "set xs \<subseteq> set whiteSpace" "s = concat xs"
    unfolding blankString_def by blast
  from dropLeading_blank [OF whiteSpace_facts(1,2) xs(1), of "[]"] xs(2)
  have "dropLeading whiteSpace 0 s = []" by simp
  then show "trim s = []" by (simp add: trim_def)
qed

lemma trim_dash: "(trim s = ''-'') = dashString s"
proof
  assume e: "trim s = ''-''"
  from trim_decomp [of s] obtain xs zs
    where x: "set xs \<subseteq> set whiteSpace" "set zs \<subseteq> set whiteSpace"
      "s = concat xs @ trim s @ concat zs" by blast
  from x(1) have "set xs \<subseteq> set whiteSpace \<and> concat xs = concat xs" by simp
  then have bx: "blankString (concat xs)" unfolding blankString_def by (rule exI)
  from x(2) have "set zs \<subseteq> set whiteSpace \<and> concat zs = concat zs" by simp
  then have bz: "blankString (concat zs)" unfolding blankString_def by (rule exI)
  from x(3) e bx bz
  have "blankString (concat xs) \<and> blankString (concat zs)
      \<and> s = concat xs @ ''-'' @ concat zs" by simp
  then show "dashString s" unfolding dashString_def by (intro exI)
next
  assume "dashString s"
  then obtain a b where ab: "blankString a" "blankString b" and s: "s = a @ ''-'' @ b"
    unfolding dashString_def by blast
  from ab(1) obtain xa where a: "set xa \<subseteq> set whiteSpace" "a = concat xa"
    unfolding blankString_def by blast
  from ab(2) obtain xb where b: "set xb \<subseteq> set whiteSpace" "b = concat xb"
    unfolding blankString_def by blast
  from dropLeading_blank [OF whiteSpace_facts(1,2) a(1), of "''-'' @ b"] s a(2)
  have "dropLeading whiteSpace 0 s = dropLeading whiteSpace 0 (CHR ''-'' # b)" by simp
  also from hyphen_stops [OF whiteSpace_facts(1,3), of b]
  have "\<dots> = CHR ''-'' # b" by (rule dropLeading_stop)
  finally have l: "dropLeading whiteSpace 0 s = CHR ''-'' # b" .
  from rev_blank [OF b(1)] b(2) obtain ys
    where ys: "set ys \<subseteq> set (map rev whiteSpace)" "rev b = concat ys" by blast
  from dropLeading_blank [OF reversed_facts(1,2) ys(1), of "''-''"] ys(2)
  have "dropLeading (map rev whiteSpace) 0 (rev b @ ''-'')
      = dropLeading (map rev whiteSpace) 0 ''-''" by simp
  also from hyphen_stops [OF reversed_facts(1,3), of "[]"]
  have "\<dots> = ''-''" by (rule dropLeading_stop)
  finally show "trim s = ''-''" by (simp add: trim_def l)
qed

text \<open>
  The strings that \<open>trim\<close> empties are the blank strings, and those it turns into a
  hyphen are the dash strings. This is how a missing value is computed.
\<close>

lemma valueMissing_code [code]:
  "valueMissing Null = True"
  "valueMissing Undefined = True"
  "valueMissing (String s) = (trim s = [] \<or> trim s = ''-'')"
  "valueMissing (Number n) = (n = Finite 0)"
  by (simp_all add: valueMissing_def trim_blank trim_dash)

section \<open>The submission month label\<close>

lemma lower_alts: "map toLowerCase monthAlternatives = map fst monthNames"
  by code_simp

lemma fold_alts: "map (map toLowerCaseChar) monthAlternatives = map fst monthNames"
  by code_simp

lemma lower_fixed:
  "toLowerCaseChar (CHR 0xE2) = CHR 0xE2" "toLowerCaseChar (CHR 0xC4) = CHR 0xC4"
  by (simp_all add: toLowerCaseChar_def)

lemma month_name_fold:
  "(toLowerCase [a, b, c] \<in> set (map fst monthNames))
     = ([toLowerCaseChar a, toLowerCaseChar b, toLowerCaseChar c] \<in> set (map fst monthNames))"
  by (auto simp: toLowerCase3 monthNames_def lower_fixed)

lemma length3: "length s = 3 \<Longrightarrow> \<exists>a b c. s = [a, b, c]"
  by (auto simp: numeral_eq_Suc length_Suc_conv)

lemma label_fold:
  assumes "length g = 3"
  shows "(toLowerCase g \<in> set (map toLowerCase monthAlternatives))
     = (map canonicalize g \<in> set (map (map canonicalize) monthAlternatives))"
proof -
  from assms obtain a b c where g: "g = [a, b, c]" using length3 by blast
  have "(toLowerCase g \<in> set (map toLowerCase monthAlternatives))
      = (map toLowerCaseChar g \<in> set (map (map toLowerCaseChar) monthAlternatives))"
    by (simp only: lower_alts fold_alts g month_name_fold list.map)
  also have "\<dots> = (map canonicalize g \<in> set (map (map canonicalize) monthAlternatives))"
    by (simp add: image_iff canonicalize_eq_iff)
  finally show ?thesis .
qed

lemma matchLabel_SomeD:
  "matchLabel s = Some (g1, g2) \<Longrightarrow>
     length s = 6 \<and> g1 = take 3 s \<and> g2 = drop 4 s
     \<and> map canonicalize g1 \<in> set (map (map canonicalize) monthAlternatives)
     \<and> s ! 3 = CHR ''-'' \<and> isDigit (s ! 4) \<and> isDigit (s ! 5)"
  apply (cases s, simp)
  subgoal for a s1 apply (cases s1, simp)
  subgoal for b s2 apply (cases s2, simp)
  subgoal for c s3 apply (cases s3, simp)
  subgoal for h s4 apply (cases s4, simp)
  subgoal for d1 s5 apply (cases s5, simp)
  subgoal for d2 s6 apply (cases s6)
     apply (simp split: if_splits)
     apply (elim conjE)
     apply hypsubst
     apply simp
    apply simp
    done
  done
  done
  done
  done
  done
  done

lemma length6: "length s = 6 \<Longrightarrow> \<exists>a b c h d1 d2. s = [a, b, c, h, d1, d2]"
  by (auto simp: numeral_eq_Suc length_Suc_conv)

text \<open>The regular expression matches exactly the labels of the format.\<close>

lemma matchLabel_iff:
  "(matchLabel s = Some (g1, g2)) = (labelHasFormat s \<and> g1 = take 3 s \<and> g2 = drop 4 s)"
proof
  assume "matchLabel s = Some (g1, g2)"
  from matchLabel_SomeD [OF this] label_fold [of "take 3 s"]
  show "labelHasFormat s \<and> g1 = take 3 s \<and> g2 = drop 4 s"
    by (auto simp: labelHasFormat_def)
next
  assume r: "labelHasFormat s \<and> g1 = take 3 s \<and> g2 = drop 4 s"
  then have "length s = 6" by (simp add: labelHasFormat_def)
  then obtain a b c h d1 d2 where s: "s = [a, b, c, h, d1, d2]" using length6 by blast
  from r s label_fold [of "[a, b, c]"]
  have "map canonicalize [a, b, c] \<in> set (map (map canonicalize) monthAlternatives)"
    by (simp add: labelHasFormat_def)
  with r s show "matchLabel s = Some (g1, g2)" by (simp add: labelHasFormat_def)
qed

lemma month_found:
  assumes "toLowerCase g \<in> set (map toLowerCase monthAlternatives)"
  shows "\<exists>m. map_of monthNames (toLowerCase g) = Some m \<and> 1 \<le> m \<and> m \<le> 12"
proof -
  from assms have "toLowerCase g \<in> fst ` set monthNames"
    by (simp only: lower_alts set_map)
  then obtain m where m: "map_of monthNames (toLowerCase g) = Some m"
    by (cases "map_of monthNames (toLowerCase g)") (auto simp: map_of_eq_None_iff)
  then have "(toLowerCase g, m) \<in> set monthNames" by (rule map_of_SomeD)
  then have "1 \<le> m \<and> m \<le> 12" by (auto simp: monthNames_def)
  with m show ?thesis by blast
qed

lemma parse_None_iff: "(parseSubmissionMonthLabel s = None) = (\<not> labelHasFormat s)"
proof (cases "matchLabel s")
  case None
  then have "\<not> labelHasFormat s" using matchLabel_iff [of s "take 3 s" "drop 4 s"] by simp
  with None show ?thesis by (simp add: parseSubmissionMonthLabel_def)
next
  case (Some g)
  obtain g1 g2 where g: "g = (g1, g2)" by (cases g)
  with Some have f: "labelHasFormat s" and g1: "g1 = take 3 s"
    using matchLabel_iff [of s g1 g2] by simp_all
  then obtain m where "map_of monthNames (toLowerCase g1) = Some m"
    using month_found [of g1] by (auto simp: labelHasFormat_def)
  with Some g f show ?thesis by (simp add: parseSubmissionMonthLabel_def)
qed

lemma parseInt10_two: "parseInt10 [d1, d2] = 10 * digitValue d1 + digitValue d2"
  by (simp add: parseInt10_def)

lemma parse_Some:
  assumes "labelHasFormat s"
  shows "\<exists>p. parseSubmissionMonthLabel s = Some p
           \<and> year p = 2000 + (10 * digitValue (s ! 4) + digitValue (s ! 5))
           \<and> map_of monthNames (toLowerCase (take 3 s)) = Some (month p)
           \<and> 1 \<le> month p \<and> month p \<le> 12"
proof -
  from assms have m: "matchLabel s = Some (take 3 s, drop 4 s)" by (simp add: matchLabel_iff)
  from assms obtain k where k: "map_of monthNames (toLowerCase (take 3 s)) = Some k"
      "1 \<le> k" "k \<le> 12"
    using month_found [of "take 3 s"] by (auto simp: labelHasFormat_def)
  from assms have "length s = 6" by (simp add: labelHasFormat_def)
  then obtain a b c h d1 d2 where s: "s = [a, b, c, h, d1, d2]" using length6 by blast
  then have "drop 4 s = [s ! 4, s ! 5]" by simp
  with m k show ?thesis by (simp add: parseSubmissionMonthLabel_def parseInt10_two)
qed

lemma parse_sep25: "parseSubmissionMonthLabel ''Sep-25'' = Some \<lparr>year = 2025, month = 9\<rparr>"
  by code_simp

section \<open>The loops of the run\<close>

lemma v1Loop_map:
  "v1Loop fnText refMap vc reg recs acc
     = acc @ map (\<lambda>rec. eidReferenceCheck fnText refMap vc reg rec (eid rec)) recs"
  by (induction recs arbitrary: acc) simp_all

lemma v1Record_eidReferenceCheck [simp]:
  "v1Record (eidReferenceCheck fnText refMap vc reg rec e) = rec"
  by (simp add: eidReferenceCheck_def split: option.splits prod.splits)

lemma v3Loop_map:
  "v3Loop parsed recs acc
     = acc @ map the (filter (\<lambda>r. r \<noteq> None) (map (missingQuotaCheck parsed) recs))"
  by (induction recs arbitrary: acc) (simp_all split: option.splits)


lemma countStatus_total:
  "countStatus Pass rs + countStatus Fail rs + countStatus Skip rs = length rs"
proof (induction rs)
  case Nil
  show ?case by (simp add: countStatus_def)
next
  case (Cons r rs)
  then show ?case by (cases "status r") (simp_all add: countStatus_def)
qed

lemma ex_run_returns: "\<not> isl (runValidation fnText exRecords exRefs ''Sep-25'' APAC)"
  by (simp add: runValidation_def parse_sep25 Let_def)

section \<open>Grouping by key\<close>

lemma map_of_Map_set: "map_of (Map_set m k v) = (map_of m)(k \<mapsto> v)"
  by (induction m) (auto simp: fun_eq_iff)



lemma Map_get_pushTo:
  "Map_get (pushTo m k x) k'
     = (if k' = k then Some ((case Map_get m k of None \<Rightarrow> [] | Some e \<Rightarrow> e) @ [x])
        else Map_get m k')"
  by (simp add: pushTo_def Map_get_def map_of_Map_set)


lemma buildRefMap_get:
  "Map_get (buildRefMap refs m) k
     = (case Map_get m k of
          None \<Rightarrow> (if filter (\<lambda>r. refEid r = k) refs = [] then None
                    else Some (filter (\<lambda>r. refEid r = k) refs))
        | Some e \<Rightarrow> Some (e @ filter (\<lambda>r. refEid r = k) refs))"
proof (induction refs arbitrary: m)
  case Nil
  show ?case by (simp split: option.splits)
next
  case (Cons r refs)
  show ?case
    by (simp add: Cons.IH Map_get_pushTo split: option.splits)
qed

lemma refMap_get:
  "Map_get (buildRefMap refs []) k
     = (if filter (\<lambda>r. refEid r = k) refs = [] then None
        else Some (filter (\<lambda>r. refEid r = k) refs))"
  by (simp add: buildRefMap_get) (simp add: Map_get_def)






lemma ex_target:
  "targetRecordsOf \<lparr>year = 2025, month = 9\<rparr> exRecords
     = [exRecords ! 0, exRecords ! 1, exRecords ! 2, exRecords ! 4]"
  by code_simp

section \<open>The identity check of one record\<close>

lemma truthy_iff: "truthy v = (\<not> isBlank v)"
  by (cases v) (simp_all add: truthy_def isBlank_def)

lemma countryInvalid_iff: "countryInvalid vc r = (\<not> countryValid vc r)"
  by (simp add: countryInvalid_def countryValid_def truthy_iff)

lemma activeStatusIssue_eq: "activeStatusIssue r = activeStatusMessage (activeStatus r)"
  by (simp add: activeStatusIssue_def activeStatusMessage_def orBlank_def)

lemma onLeaveIssue_eq: "onLeaveIssue r = onLeaveMessage (onLeave r)"
  by (simp add: onLeaveIssue_def onLeaveMessage_def templ_def)

lemma prototype_members:
  "''__proto__'' \<in> set objectPrototype" "''constructor'' \<in> set objectPrototype"
  by (simp_all add: objectPrototype_def)

lemma regionNote_eq:
  "(if getProperty COUNTRY_REGION_MAP n \<noteq> Absent
    then '' (Region: '' @ propertyText fnText (getProperty COUNTRY_REGION_MAP n) @ '')''
    else []) = regionNote fnText n"
proof (cases "map_of COUNTRY_REGION_MAP n")
  case None
  then have g: "getProperty COUNTRY_REGION_MAP n
      = (if n \<in> set objectPrototype then Inherited n else Absent)"
    by (simp add: getProperty_def)
  from prototype_members show ?thesis
    by (cases "n \<in> set objectPrototype")
       (auto simp: g regionNote_def None memberText_def)
next
  case (Some v)
  then show ?thesis
    by (cases v) (simp_all add: getProperty_def regionNote_def)
qed

lemma countryIssue_eq: "countryIssue fnText reg r = countryMessage fnText reg (country r)"
proof (cases "country r")
  case None
  then show ?thesis
    by (simp add: countryIssue_def countryMessage_def truthy_def orBlank_def)
next
  case (Some n)
  show ?thesis
  proof (cases "n = []")
    case True
    with Some show ?thesis
      by (simp add: countryIssue_def countryMessage_def truthy_def orBlank_def)
  next
    case False
    with Some regionNote_eq [of n fnText] show ?thesis
      by (simp add: countryIssue_def countryMessage_def truthy_def orBlank_def Let_def)
  qed
qed

lemma refIssues_violated: "refIssues fnText vc reg r = violatedConditions fnText vc reg r"
  by (simp add: refIssues_def violatedConditions_def truthy_iff countryInvalid_iff
      activeStatusIssue_eq onLeaveIssue_eq countryIssue_eq)

lemma violated_empty_iff: "(violatedConditions fnText vc reg r = []) = satisfiesAll vc r"
  by (simp add: violatedConditions_def satisfiesAll_def)

lemma refIssues_empty_iff: "(refIssues fnText vc reg r = []) = satisfiesAll vc r"
  by (simp only: refIssues_violated violated_empty_iff)

lemma join_cases:
  "join sep ms = (case ms of [] \<Rightarrow> [] | m # rest \<Rightarrow> m @ concat (map (\<lambda>x. sep @ x) rest))"
  by (induction sep ms rule: join.induct) simp_all

lemma join_listing: "join ''; '' ms = listing ms"
  by (cases ms) (simp_all add: join_cases)

lemma refLoop_found:
  "find (satisfiesAll vc) refs = Some r \<Longrightarrow>
     \<exists>li. refLoop fnText vc reg refs (f, lastIssues, lastRef) = (True, li, Some r)"
proof (induction refs arbitrary: f lastIssues lastRef)
  case Nil
  then show ?case by simp
next
  case (Cons x refs)
  show ?case
  proof (cases "satisfiesAll vc x")
    case True
    with Cons.prems show ?thesis by (simp add: refIssues_empty_iff)
  next
    case False
    with Cons.prems have "find (satisfiesAll vc) refs = Some r" by simp
    from Cons.IH [OF this] False show ?thesis by (simp add: refIssues_empty_iff)
  qed
qed

lemma refLoop_none:
  "find (satisfiesAll vc) refs = None \<Longrightarrow>
     refLoop fnText vc reg refs (f, lastIssues, lastRef)
       = (f, (if refs = [] then lastIssues else violatedConditions fnText vc reg (last refs)),
             (if refs = [] then lastRef else Some (last refs)))"
proof (induction refs arbitrary: f lastIssues lastRef)
  case Nil
  then show ?case by simp
next
  case (Cons x refs)
  from Cons.prems have x: "\<not> satisfiesAll vc x" and rest: "find (satisfiesAll vc) refs = None"
    by (simp_all split: if_splits)
  from Cons.IH [OF rest] x show ?case
    by (simp add: refIssues_violated violated_empty_iff Let_def)
qed

text \<open>What the body of the loop of check 1 pushes for an identifier with roster entries.\<close>

lemma eidReferenceCheck_roster:
  assumes "\<not> isTbhOrBlank e" and "Map_get refMap e = Some entries" and "entries \<noteq> []"
  shows "eidReferenceCheck fnText refMap vc reg rec e =
     (case find (satisfiesAll vc) entries of
        Some r \<Rightarrow>
          \<lparr>v1Record = rec, status = Pass, reason = [],
           refInfo = Some \<lparr>infoActiveStatus = activeStatus r, infoOnLeave = onLeave r,
                            infoCountry = country r\<rparr>\<rparr>
      | None \<Rightarrow>
          \<lparr>v1Record = rec, status = Fail,
           reason = listing (violatedConditions fnText vc reg (last entries)),
           refInfo = Some \<lparr>infoActiveStatus = activeStatus (last entries),
                            infoOnLeave = onLeave (last entries),
                            infoCountry = country (last entries)\<rparr>\<rparr>)"
proof (cases "find (satisfiesAll vc) entries")
  case None
  from refLoop_none [OF None, of fnText reg False "[]" None] assms None show ?thesis
    by (simp add: eidReferenceCheck_def join_listing refInfoOf_def)
next
  case (Some r)
  from refLoop_found [OF Some, of fnText reg False "[]" None] obtain li
    where "refLoop fnText vc reg entries (False, [], None) = (True, li, Some r)" by blast
  with assms Some show ?thesis by (simp add: eidReferenceCheck_def refInfoOf_def)
qed

section \<open>The missing quota check of one record\<close>

lemma isQuotaValueMissing_iff: "isQuotaValueMissing v = valueMissing v"
proof (cases v)
  case (Number n)
  then show ?thesis by (cases n) (simp_all add: valueMissing_def)
qed (simp_all add: valueMissing_def trim_blank trim_dash)

lemma upt_shift: "[c..<c + Suc n] = c # [Suc c..<Suc c + n]"
  by (simp add: upt_conv_Cons)

text \<open>
  The missing months that the loop over the months of the half collects for each bucket.
\<close>

lemma monthLoop_accMissing:
  "accMissing (monthLoop rec eff keys c acc)
     = accMissing acc
       @ map fst (filter (\<lambda>(k, cm). lessOrEqual eff (Some cm)
                     \<and> valueMissing (monthValue (monthlyQuotas rec) k))
                    (zip keys [c..<c + length keys]))"
proof (induction keys arbitrary: c acc)
  case Nil
  show ?case by simp
next
  case (Cons k keys)
  show ?case
    by (simp only: monthLoop.simps Cons.IH length_Cons upt_shift zip_Cons_Cons)
       (simp add: monthStep_def Let_def isQuotaValueMissing_iff)
qed

lemma monthLoop_accMissingY2Y3:
  "accMissingY2Y3 (monthLoop rec eff keys c acc)
     = accMissingY2Y3 acc
       @ map fst (filter (\<lambda>(k, cm). lessOrEqual eff (Some cm) \<and> recHasY2Y3 rec
                     \<and> valueMissing (monthValue (the (monthlyQuotasY2Y3 rec)) k))
                    (zip keys [c..<c + length keys]))"
proof (induction keys arbitrary: c acc)
  case Nil
  show ?case by simp
next
  case (Cons k keys)
  show ?case
    by (simp only: monthLoop.simps Cons.IH length_Cons upt_shift zip_Cons_Cons)
       (simp add: monthStep_def Let_def isQuotaValueMissing_iff bucketValue_def)
qed

lemma monthLoop_accMissingComp2:
  "accMissingComp2 (monthLoop rec eff keys c acc)
     = accMissingComp2 acc
       @ map fst (filter (\<lambda>(k, cm). lessOrEqual eff (Some cm) \<and> recHasComp2 rec
                     \<and> valueMissing (monthValue (the (monthlyQuotasComp2 rec)) k))
                    (zip keys [c..<c + length keys]))"
proof (induction keys arbitrary: c acc)
  case Nil
  show ?case by simp
next
  case (Cons k keys)
  show ?case
    by (simp only: monthLoop.simps Cons.IH length_Cons upt_shift zip_Cons_Cons)
       (simp add: monthStep_def Let_def isQuotaValueMissing_iff bucketValue_def)
qed

lemma monthLoop_accMissingComp2Y2Y3:
  "accMissingComp2Y2Y3 (monthLoop rec eff keys c acc)
     = accMissingComp2Y2Y3 acc
       @ map fst (filter (\<lambda>(k, cm). lessOrEqual eff (Some cm) \<and> recHasComp2Y2Y3 rec
                     \<and> valueMissing (monthValue (the (monthlyQuotasComp2Y2Y3 rec)) k))
                    (zip keys [c..<c + length keys]))"
proof (induction keys arbitrary: c acc)
  case Nil
  show ?case by simp
next
  case (Cons k keys)
  show ?case
    by (simp only: monthLoop.simps Cons.IH length_Cons upt_shift zip_Cons_Cons)
       (simp add: monthStep_def Let_def isQuotaValueMissing_iff bucketValue_def)
qed

lemma halfMonths_zip:
  "zip (halfMonthKeys parsed)
       [halfStartCalMonth parsed..<halfStartCalMonth parsed + length (halfMonthKeys parsed)]
     = halfMonths parsed"
  by (simp add: halfMonthKeys_def halfStartCalMonth_def halfMonths_def H1_MONTHS_def
      H2_MONTHS_def upt_conv_Cons)

lemma halfFirstMonth_eq: "halfFirstMonth parsed = halfStartCalMonth parsed"
  by (simp add: halfFirstMonth_def halfMonths_def halfStartCalMonth_def)

lemma halfLastMonth_eq: "halfLastMonth parsed = halfEndCalMonth parsed"
  by (simp add: halfLastMonth_def halfMonths_def halfEndCalMonth_def)

lemma startsAfterHalf_iff: "startsAfterHalf parsed qs = startAfterHalfEnd parsed qs"
  by (cases qs) (auto simp: startsAfterHalf_def startAfterHalfEnd_def halfLastMonth_eq Let_def)

lemma effectiveStart_eq:
  "qs \<noteq> InvalidDate \<Longrightarrow> \<not> startAfterHalfEnd parsed qs \<Longrightarrow>
     effectiveStartCalMonth parsed qs = Some (effectiveStart parsed qs)"
  by (cases qs)
     (auto simp: effectiveStartCalMonth_def effectiveStart_def startAfterHalfEnd_def
        halfFirstMonth_eq Let_def)

text \<open>The effective start month of the Invalid Date is NaN, and no month is checked.\<close>

lemma effectiveStart_invalid: "effectiveStartCalMonth parsed InvalidDate = None"
  by (simp add: effectiveStartCalMonth_def)

lemma filter_const_False: "filter (\<lambda>(k, cm). P cm \<and> False \<and> Q k) xs = []"
  by (induction xs) auto

lemma filter_False: "filter (\<lambda>(k, cm). False) xs = []"
  by (induction xs) auto

lemma missingQuotaCheck_invalid:
  "quotaStartDate rec = Some InvalidDate \<Longrightarrow> missingQuotaCheck parsed rec = None"
  by (simp add: missingQuotaCheck_def startsAfterHalf_iff startAfterHalfEnd_def
      effectiveStart_invalid Let_def monthLoop_accMissing monthLoop_accMissingY2Y3
      monthLoop_accMissingComp2 monthLoop_accMissingComp2Y2Y3 emptyAcc_def filter_False)

text \<open>What the body of the loop of check 3 pushes for a record with a quota start date.\<close>

lemma missingQuotaCheck_skipped:
  "quotaStartDate rec = Some qs \<Longrightarrow> startAfterHalfEnd parsed qs \<Longrightarrow>
     missingQuotaCheck parsed rec = None"
  by (simp add: missingQuotaCheck_def startsAfterHalf_iff)

lemma loop_missing:
  assumes "qs \<noteq> InvalidDate" and "\<not> startAfterHalfEnd parsed qs"
  shows "accMissing (monthLoop rec (effectiveStartCalMonth parsed qs) (halfMonthKeys parsed)
            (halfStartCalMonth parsed) emptyAcc) = missingIn parsed qs (monthlyQuotas rec)"
    and "accMissingY2Y3 (monthLoop rec (effectiveStartCalMonth parsed qs) (halfMonthKeys parsed)
            (halfStartCalMonth parsed) emptyAcc)
          = missingInOptional True parsed qs (monthlyQuotasY2Y3 rec)"
    and "accMissingComp2 (monthLoop rec (effectiveStartCalMonth parsed qs) (halfMonthKeys parsed)
            (halfStartCalMonth parsed) emptyAcc)
          = missingInOptional (isDMC rec) parsed qs (monthlyQuotasComp2 rec)"
    and "accMissingComp2Y2Y3 (monthLoop rec (effectiveStartCalMonth parsed qs)
            (halfMonthKeys parsed) (halfStartCalMonth parsed) emptyAcc)
          = missingInOptional (isDMC rec) parsed qs (monthlyQuotasComp2Y2Y3 rec)"
proof -
  note e = effectiveStart_eq [OF assms]
  show "accMissing (monthLoop rec (effectiveStartCalMonth parsed qs) (halfMonthKeys parsed)
            (halfStartCalMonth parsed) emptyAcc) = missingIn parsed qs (monthlyQuotas rec)"
    by (simp add: monthLoop_accMissing halfMonths_zip e missingIn_def emptyAcc_def)
  show "accMissingY2Y3 (monthLoop rec (effectiveStartCalMonth parsed qs) (halfMonthKeys parsed)
            (halfStartCalMonth parsed) emptyAcc)
          = missingInOptional True parsed qs (monthlyQuotasY2Y3 rec)"
    by (cases "monthlyQuotasY2Y3 rec")
       (simp_all add: monthLoop_accMissingY2Y3 halfMonths_zip e missingIn_def emptyAcc_def
          missingInOptional_def recHasY2Y3_def filter_const_False)
  show "accMissingComp2 (monthLoop rec (effectiveStartCalMonth parsed qs) (halfMonthKeys parsed)
            (halfStartCalMonth parsed) emptyAcc)
          = missingInOptional (isDMC rec) parsed qs (monthlyQuotasComp2 rec)"
    by (cases "monthlyQuotasComp2 rec"; cases "isDMC rec")
       (simp_all add: monthLoop_accMissingComp2 halfMonths_zip e missingIn_def emptyAcc_def
          missingInOptional_def recHasComp2_def filter_const_False)
  show "accMissingComp2Y2Y3 (monthLoop rec (effectiveStartCalMonth parsed qs)
            (halfMonthKeys parsed) (halfStartCalMonth parsed) emptyAcc)
          = missingInOptional (isDMC rec) parsed qs (monthlyQuotasComp2Y2Y3 rec)"
    by (cases "monthlyQuotasComp2Y2Y3 rec"; cases "isDMC rec")
       (simp_all add: monthLoop_accMissingComp2Y2Y3 halfMonths_zip e missingIn_def emptyAcc_def
          missingInOptional_def recHasComp2Y2Y3_def filter_const_False)
qed

lemma missingQuotaCheck_None_iff:
  assumes "quotaStartDate rec = Some qs" and "qs \<noteq> InvalidDate"
    and "\<not> startAfterHalfEnd parsed qs"
  shows "(missingQuotaCheck parsed rec = None)
     = (missingIn parsed qs (monthlyQuotas rec) = []
        \<and> missingInOptional True parsed qs (monthlyQuotasY2Y3 rec) = []
        \<and> missingInOptional (isDMC rec) parsed qs (monthlyQuotasComp2 rec) = []
        \<and> missingInOptional (isDMC rec) parsed qs (monthlyQuotasComp2Y2Y3 rec) = [])"
  using assms
  by (simp add: missingQuotaCheck_def startsAfterHalf_iff Let_def loop_missing [OF assms(2,3)])

lemma missingQuotaCheck_Some:
  assumes "quotaStartDate rec = Some qs" and "missingQuotaCheck parsed rec = Some r"
  shows "v3Record r = rec \<and> qs \<noteq> InvalidDate \<and> \<not> startAfterHalfEnd parsed qs
     \<and> missingMonths r = missingIn parsed qs (monthlyQuotas rec)
     \<and> missingMonthsY2Y3 r = missingInOptional True parsed qs (monthlyQuotasY2Y3 rec)
     \<and> missingMonthsComp2 r = missingInOptional (isDMC rec) parsed qs (monthlyQuotasComp2 rec)
     \<and> missingMonthsComp2Y2Y3 r
         = missingInOptional (isDMC rec) parsed qs (monthlyQuotasComp2Y2Y3 rec)"
proof -
  from assms have v: "qs \<noteq> InvalidDate"
    using missingQuotaCheck_invalid [of rec parsed] by auto
  from assms have n: "\<not> startAfterHalfEnd parsed qs"
    using missingQuotaCheck_skipped [of rec qs parsed] by auto
  from assms v n show ?thesis
    by (auto simp: missingQuotaCheck_def startsAfterHalf_iff Let_def loop_missing [OF v n]
        split: if_splits)
qed

lemma missingQuotaCheck_record: "missingQuotaCheck parsed rec = Some r \<Longrightarrow> v3Record r = rec"
  by (auto simp: missingQuotaCheck_def Let_def split: option.splits if_splits)

lemma v3_of_run:
  assumes "runValidation fnText allRecords refRecords selectedMonth selectedRegion = Inr res"
    and "parseSubmissionMonthLabel selectedMonth = Some parsed"
  shows "(r \<in> set (v3 res) \<and> v3Record r = rec)
     = (rec \<in> set (targetRecordsOf parsed allRecords) \<and> missingQuotaCheck parsed rec = Some r)"
proof -
  from assms have v3: "v3 res = map the (filter (\<lambda>r. r \<noteq> None)
      (map (missingQuotaCheck parsed) (targetRecordsOf parsed allRecords)))"
    by (auto simp: runValidation_def Let_def v3Loop_map)
  show ?thesis
  proof
    assume a: "r \<in> set (v3 res) \<and> v3Record r = rec"
    then obtain x where x: "x \<in> set (targetRecordsOf parsed allRecords)"
        "missingQuotaCheck parsed x = Some r"
      unfolding v3 by auto
    from missingQuotaCheck_record [OF x(2)] a have "x = rec" by simp
    with x show "rec \<in> set (targetRecordsOf parsed allRecords)
        \<and> missingQuotaCheck parsed rec = Some r" by simp
  next
    assume a: "rec \<in> set (targetRecordsOf parsed allRecords)
        \<and> missingQuotaCheck parsed rec = Some r"
    then have "r \<in> set (v3 res)" unfolding v3 by force
    with a missingQuotaCheck_record [of parsed rec r] show "r \<in> set (v3 res) \<and> v3Record r = rec"
      by simp
  qed
qed

text \<open>A record is in the results of check 3 exactly when the body of the loop pushes it.\<close>

lemma v3_member:
  assumes "runValidation fnText allRecords refRecords selectedMonth selectedRegion = Inr res"
    and "parseSubmissionMonthLabel selectedMonth = Some parsed"
    and "rec \<in> set (targetRecordsOf parsed allRecords)"
  shows "(rec \<in> v3Record ` set (v3 res)) = (missingQuotaCheck parsed rec \<noteq> None)"
proof
  assume "rec \<in> v3Record ` set (v3 res)"
  then obtain r where "r \<in> set (v3 res) \<and> v3Record r = rec" by auto
  then show "missingQuotaCheck parsed rec \<noteq> None"
    by (simp add: v3_of_run [OF assms(1,2)])
next
  assume "missingQuotaCheck parsed rec \<noteq> None"
  then obtain r where "missingQuotaCheck parsed rec = Some r" by auto
  with assms(3) have "r \<in> set (v3 res) \<and> v3Record r = rec"
    by (simp add: v3_of_run [OF assms(1,2)])
  then show "rec \<in> v3Record ` set (v3 res)" by auto
qed

lemma run_sep25:
  "runValidation fnText allRecords refRecords ''Sep-25'' selectedRegion
     = Inr (projr (runValidation fnText allRecords refRecords ''Sep-25'' selectedRegion))"
  by (simp add: runValidation_def parse_sep25 Let_def)

lemma ex_v3:
  "map v3Record (v3 (projr (runValidation fnText exRecords exRefs ''Sep-25'' APAC)))
     = [exRecords ! 0]"
proof -
  have "map v3Record (map the (filter (\<lambda>r. r \<noteq> None)
      (map (missingQuotaCheck \<lparr>year = 2025, month = 9\<rparr>)
         (targetRecordsOf \<lparr>year = 2025, month = 9\<rparr> exRecords)))) = [exRecords ! 0]"
    by code_simp
  then show ?thesis
    by (simp add: runValidation_def parse_sep25 Let_def v3Loop_map)
qed

section \<open>The region resolver\<close>

lemma find_matching:
  assumes "\<exists>r \<in> set refs. \<exists>c. country r = Some c \<and> c \<in> vc"
  shows "\<exists>m c. find (\<lambda>ref. country ref \<noteq> None \<and> the (country ref) \<in> vc) refs = Some m
           \<and> country m = Some c \<and> c \<in> vc \<and> m \<in> set refs"
proof (cases "find (\<lambda>ref. country ref \<noteq> None \<and> the (country ref) \<in> vc) refs")
  case None
  with assms show ?thesis by (auto simp: find_None_iff)
next
  case (Some m)
  then have "country m \<noteq> None \<and> the (country m) \<in> vc" and "m \<in> set refs"
    by (auto simp: find_Some_iff)
  with Some show ?thesis by (cases "country m") auto
qed

section \<open>The LMS run\<close>

lemma lmsV1Loop_map:
  "lmsV1Loop fnText refMap vc reg recs acc
     = acc @ map (\<lambda>rec. eidReferenceCheck fnText refMap vc reg rec (employeeId rec)) recs"
  by (induction recs arbitrary: acc) simp_all

lemma lmsV2Loop_map:
  "lmsV2Loop pf recs acc
     = acc @ map the (filter (\<lambda>r. r \<noteq> None) (map (alignmentCheck pf) recs))"
  by (induction recs arbitrary: acc) (simp_all split: option.splits)

lemma geo_table: "(getProperty GEO_TO_REGION g = Own region) = (geoRegion g = Some region)"
  by (auto simp: getProperty_def GEO_TO_REGION_def geoRegion_def)

text \<open>The callback of the region filter, in the words of the specification.\<close>

lemma regionFilter_iff:
  "regionFilter (buildRefMap refRecords []) vc region rec
     = (isTbhOrBlank (employeeId rec)
        \<or> (if filter (\<lambda>r. refEid r = employeeId rec) refRecords = []
            then toUpperCase (geo rec) = ''SA''
                 \<or> geoRegion (toUpperCase (geo rec)) = Some region
            else \<exists>r \<in> set (filter (\<lambda>r. refEid r = employeeId rec) refRecords).
                   \<exists>c. country r = Some c \<and> c \<in> vc))"
  by (auto simp: regionFilter_def refMap_get Let_def geo_table list_ex_iff)

lemma ex_geo_fields:
  "employeeId (exGeo e g) = e" "geo (exGeo e g) = g"
  by (simp_all add: exGeo_def exLms_def)

section \<open>The alignment check of one record\<close>

lemma expectedLoop_map:
  "expectedLoop m pt ks acc = acc @ map (\<lambda>k. (k, shouldHaveAmount m pt k)) ks"
  by (induction ks arbitrary: acc) simp_all

lemma shouldHaveAmount_qtrly:
  assumes "toLowerCase pt = ''qtrly''" and "(k, c) \<in> set windowMonths"
  shows "shouldHaveAmount (Some m) pt k = expectsAmount m c"
proof -
  from assms(2) have c: "map_of LMS_MONTH_TO_CAL k = Some c"
    by (auto simp: LMS_MONTH_TO_CAL_def windowMonths_def)
  have q: "''qtrly'' \<noteq> ''okr''" "''qtrly'' \<noteq> ''semi''" by simp_all
  show ?thesis
    by (simp add: shouldHaveAmount_def c assms(1) q expectsAmount_def quarterBoundary_def)
qed

lemma getExpectedActiveMonths_qtrly:
  assumes "toLowerCase pt = ''qtrly''"
  shows "getExpectedActiveMonths (Some m) pt
     = map (\<lambda>(k, c). (k, expectsAmount m c)) windowMonths"
proof -
  have "map (\<lambda>k. (k, shouldHaveAmount (Some m) pt k)) LMS_MONTHS
      = map (\<lambda>(k, c). (k, shouldHaveAmount (Some m) pt k)) windowMonths"
    by (simp add: LMS_MONTHS_def windowMonths_def)
  also have "\<dots> = map (\<lambda>(k, c). (k, expectsAmount m c)) windowMonths"
    by (rule map_cong) (auto simp: shouldHaveAmount_qtrly [OF assms])
  finally show ?thesis by (simp add: getExpectedActiveMonths_def expectedLoop_map)
qed

lemma issuesLoop_concat:
  "issuesLoop pf rec m es acc
     = acc @ concat (map (\<lambda>(k, should). monthIssues pf rec m k should) es)"
  by (induction es arbitrary: acc) auto

lemma set_insertIssue: "set (insertIssue x ys) = insert x (set ys)"
  by (induction ys) auto

lemma set_sortIssues: "set (sortIssues xs) = set xs"
  by (induction xs) (simp_all add: sortIssues_def set_insertIssue)

lemma alignmentCheck_skipped:
  "quotaEffectiveDate rec = Some (ValidDate y mo) \<Longrightarrow> 6 < mo + 1 \<Longrightarrow>
     alignmentCheck pf rec = None"
  by (simp add: alignmentCheck_def)

text \<open>
  The clamp \<open>Math.max(1, effectiveCalMonth)\<close> never changes the month: it is the month of
  the date plus one, whatever the year of the date.
\<close>

lemma clamp_is_identity:
  "Math_max (Some 1) (numAdd (getUTCMonth d) (Some 1)) = numAdd (getUTCMonth d) (Some 1)"
  by (cases d) simp_all

lemma alignmentCheck_placeholder:
  "isTbhOrBlank (employeeId rec) \<Longrightarrow> alignmentCheck pf rec = None"
  by (simp add: alignmentCheck_def)

lemma alignmentCheck_record:
  "alignmentCheck pf rec = Some r \<Longrightarrow> lmsV2Record r = rec"
  by (auto simp: alignmentCheck_def Let_def split: option.splits if_splits)

text \<open>An issue found by the loop over the months is in the result of the record.\<close>

lemma alignmentCheck_reports:
  assumes "\<not> isTbhOrBlank (employeeId rec)"
    and "quotaEffectiveDate rec = Some (ValidDate y mo)"
    and "mo + 1 \<le> 6"
    and "iss \<in> set (issuesLoop pf rec (Some (mo + 1))
                    (getExpectedActiveMonths (Some (mo + 1)) (planType rec)) [])"
  shows "\<exists>r. alignmentCheck pf rec = Some r \<and> lmsV2Record r = rec \<and> iss \<in> set (issues r)"
proof -
  let ?found = "issuesLoop pf rec (Some (mo + 1))
                    (getExpectedActiveMonths (Some (mo + 1)) (planType rec)) []"
  from assms(4) have "?found \<noteq> []" by auto
  with assms(1-3)
  have "alignmentCheck pf rec = Some \<lparr>lmsV2Record = rec, issues = sortIssues ?found\<rparr>"
    by (simp add: alignmentCheck_def Let_def)
  with assms(4) show ?thesis by (simp add: set_sortIssues)
qed

lemma in_map_the:
  "x \<in> set xs \<Longrightarrow> f x = Some r \<Longrightarrow> r \<in> set (map the (filter (\<lambda>r. r \<noteq> None) (map f xs)))"
  by (induction xs) auto

lemma lmsV2_of_run:
  "lmsV2 (runLmsValidation pf fnText records refRecords selectedProcessingMonth selectedRegion)
     = map the (filter (\<lambda>r. r \<noteq> None)
         (map (alignmentCheck pf) (lmsFilteredRecords records refRecords selectedRegion)))"
  by (simp add: runLmsValidation_def Let_def lmsV2Loop_map)

lemma lmsV2_member:
  assumes "rec \<in> lmsV2Record ` set (lmsV2 (runLmsValidation pf fnText records refRecords
      selectedProcessingMonth selectedRegion))"
  shows "alignmentCheck pf rec \<noteq> None"
proof -
  from assms obtain r x where x: "alignmentCheck pf x = Some r" and r: "lmsV2Record r = rec"
    unfolding lmsV2_of_run by auto
  from alignmentCheck_record [OF x] r have "x = rec" by simp
  with x show ?thesis by simp
qed

lemma reported_in_run:
  assumes "rec \<in> set (lmsFilteredRecords records refRecords selectedRegion)"
    and "\<not> isTbhOrBlank (employeeId rec)"
    and "quotaEffectiveDate rec = Some (ValidDate y mo)"
    and "mo + 1 \<le> 6"
    and "iss \<in> set (issuesLoop pf rec (Some (mo + 1))
                    (getExpectedActiveMonths (Some (mo + 1)) (planType rec)) [])"
  shows "reported (runLmsValidation pf fnText records refRecords selectedProcessingMonth
           selectedRegion) rec iss"
proof -
  from alignmentCheck_reports [OF assms(2-5)] obtain r
    where r: "alignmentCheck pf rec = Some r" "lmsV2Record r = rec" "iss \<in> set (issues r)"
    by blast
  from assms(1) r(1) have "r \<in> set (lmsV2 (runLmsValidation pf fnText records refRecords
      selectedProcessingMonth selectedRegion))"
    by (simp only: lmsV2_of_run in_map_the)
  with r show ?thesis by (auto simp: reported_def)
qed

lemma monthIssues_in_loop:
  assumes "(k, should) \<in> set es" and "iss \<in> set (monthIssues pf rec m k should)"
  shows "iss \<in> set (issuesLoop pf rec m es [])"
  using assms by (force simp: issuesLoop_concat)

lemma unexpected_qtrly:
  "toLowerCase pt = ''qtrly'' \<Longrightarrow> unexpectedAmountIssue s k pt v = shouldBeZeroIssue s k v"
  by (simp add: unexpectedAmountIssue_def shouldBeZeroIssue_def)

lemma window_names: "LMS_MONTHS = map fst windowMonths"
  by (simp add: LMS_MONTHS_def windowMonths_def)

lemma missingAmount_eq:
  assumes "1 \<le> m" and "m \<le> 6"
  shows "missingAmountIssue s k pt (Some m) v = missingAmountReport s k pt m v"
proof -
  from assms have "m - 1 < length windowMonths" by (simp add: windowMonths_def)
  then have "LMS_MONTHS ! (m - 1) = fst (windowMonths ! (m - 1))"
    by (simp add: window_names)
  moreover have "length LMS_MONTHS = 6" by (simp add: LMS_MONTHS_def)
  ultimately show ?thesis
    using assms by (simp add: missingAmountIssue_def missingAmountReport_def effectiveFrom_def)
qed

lemma expected_member:
  assumes "toLowerCase pt = ''qtrly''" and "(k, c) \<in> set windowMonths"
  shows "(k, expectsAmount m c) \<in> set (getExpectedActiveMonths (Some m) pt)"
  using assms(2) by (force simp: getExpectedActiveMonths_qtrly [OF assms(1)])

lemma exQtrly_fields:
  "employeeId exQtrly = ''L1''" "planType exQtrly = ''QTRLY''"
  "quotaEffectiveDate exQtrly = Some (ValidDate 2026 1)" "component exQtrly = ''Rev 1 & Rev 2''"
  "rev1Monthly exQtrly
     = lmsAmounts zeroAmount zeroAmount (Number (Finite 100)) (Number (Finite 50)) zeroAmount
         zeroAmount"
  "rev2Monthly exQtrly
     = lmsAmounts zeroAmount (Number (Finite 7)) (Number (Finite 7)) zeroAmount zeroAmount
         (Number (Finite 5))"
  by (simp_all add: exQtrly_def exLms_def feb26_def)

lemma exQtrly_filtered: "exQtrly \<in> set (lmsFilteredRecords [exQtrly] [] APAC)"
  by code_simp

section \<open>The claims\<close>

text \<open>
  C9. \<open>runValidation\<close> fails with the invalid-submission-month error, and so returns no
  results at all, exactly when the selected label does not have the format of a three-letter
  month abbreviation, a hyphen and a two-digit year (letters in either case). A label of that
  format parses to the year 2000 + YY and to the month of the abbreviation, a month from 1 to
  12, and the run returns results.
\<close>

theorem invalid_submission_month:
  "(runValidation fnText allRecords refRecords selectedMonth selectedRegion
      = Inl (InvalidSubmissionMonth selectedMonth)) = (\<not> labelHasFormat selectedMonth)
   \<and> (labelHasFormat selectedMonth \<longrightarrow>
        (\<exists>p res. parseSubmissionMonthLabel selectedMonth = Some p
           \<and> year p = 2000 + (10 * digitValue (selectedMonth ! 4) + digitValue (selectedMonth ! 5))
           \<and> map_of monthNames (toLowerCase (take 3 selectedMonth)) = Some (month p)
           \<and> 1 \<le> month p \<and> month p \<le> 12
           \<and> runValidation fnText allRecords refRecords selectedMonth selectedRegion = Inr res))"
proof (intro conjI impI)
  show "(runValidation fnText allRecords refRecords selectedMonth selectedRegion
      = Inl (InvalidSubmissionMonth selectedMonth)) = (\<not> labelHasFormat selectedMonth)"
    unfolding parse_None_iff [symmetric]
    by (simp add: runValidation_def Let_def split: option.splits)
next
  assume "labelHasFormat selectedMonth"
  from parse_Some [OF this] obtain p where p: "parseSubmissionMonthLabel selectedMonth = Some p"
     "year p = 2000 + (10 * digitValue (selectedMonth ! 4) + digitValue (selectedMonth ! 5))"
     "map_of monthNames (toLowerCase (take 3 selectedMonth)) = Some (month p)"
     "1 \<le> month p" "month p \<le> 12" by blast
  from p(1) obtain res
    where "runValidation fnText allRecords refRecords selectedMonth selectedRegion = Inr res"
    by (simp add: runValidation_def Let_def)
  with p show "\<exists>p res. parseSubmissionMonthLabel selectedMonth = Some p
           \<and> year p = 2000 + (10 * digitValue (selectedMonth ! 4) + digitValue (selectedMonth ! 5))
           \<and> map_of monthNames (toLowerCase (take 3 selectedMonth)) = Some (month p)
           \<and> 1 \<le> month p \<and> month p \<le> 12
           \<and> runValidation fnText allRecords refRecords selectedMonth selectedRegion = Inr res" by blast
qed

theorem invalid_submission_month_witness:
  "labelHasFormat ''sEp-25''
   \<and> parseSubmissionMonthLabel ''sEp-25'' = Some \<lparr>year = 2025, month = 9\<rparr>
   \<and> runValidation v8 [] [] ''sEp-25'' APAC \<noteq> Inl (InvalidSubmissionMonth ''sEp-25'')
   \<and> \<not> labelHasFormat ''2025-09''
   \<and> runValidation v8 [] [] ''2025-09'' APAC = Inl (InvalidSubmissionMonth ''2025-09'')"
proof -
  have a: "labelHasFormat ''sEp-25''"
    by code_simp
  have b: "\<not> labelHasFormat ''2025-09''"
    by (simp add: labelHasFormat_def)
  have c: "parseSubmissionMonthLabel ''sEp-25'' = Some \<lparr>year = 2025, month = 9\<rparr>"
    by code_simp
  from a b c invalid_submission_month [of v8 "[]" "[]" "''sEp-25''" APAC]
    invalid_submission_month [of v8 "[]" "[]" "''2025-09''" APAC]
  show ?thesis by simp
qed

text \<open>
  C10. The summary of a successful run agrees with the result lists: the V1 results are, in
  order, one for each record of the selected submission month, so the three V1 counts add up
  to \<open>totalRecords\<close>, the number of those records; \<open>v2DuplicateEids\<close> is the length of the
  V2 list and \<open>v3MissingQuota\<close> the length of the V3 list.
\<close>

theorem summary_consistent:
  assumes "runValidation fnText allRecords refRecords selectedMonth selectedRegion = Inr res"
  shows "\<exists>parsed. parseSubmissionMonthLabel selectedMonth = Some parsed
           \<and> map v1Record (v1 res) = targetRecordsOf parsed allRecords
           \<and> totalRecords (summary res) = length (targetRecordsOf parsed allRecords)
           \<and> v1Pass (summary res) + v1Fail (summary res) + v1Skip (summary res)
               = totalRecords (summary res)
           \<and> v1Pass (summary res) = length (filter (\<lambda>r. status r = Pass) (v1 res))
           \<and> v1Fail (summary res) = length (filter (\<lambda>r. status r = Fail) (v1 res))
           \<and> v1Skip (summary res) = length (filter (\<lambda>r. status r = Skip) (v1 res))
           \<and> v2DuplicateEids (summary res) = length (v2 res)
           \<and> v3MissingQuota (summary res) = length (v3 res)"
proof -
  from assms obtain parsed where p: "parseSubmissionMonthLabel selectedMonth = Some parsed"
    by (auto simp: runValidation_def split: option.splits)
  define v1Results where "v1Results = v1Loop fnText (buildRefMap refRecords [])
     (set (getCountriesForRegion selectedRegion)) selectedRegion
     (targetRecordsOf parsed allRecords) []"
  from assms p have v1: "v1 res = v1Results"
    and s: "summary res = \<lparr>v1Pass = countStatus Pass v1Results,
                 v1Fail = countStatus Fail v1Results,
                 v1Skip = countStatus Skip v1Results,
                 v2DuplicateEids = length (v2 res),
                 v3MissingQuota = length (v3 res),
                 totalRecords = length (targetRecordsOf parsed allRecords)\<rparr>"
    by (auto simp: runValidation_def Let_def v1Results_def)
  have m: "map v1Record v1Results = targetRecordsOf parsed allRecords"
    by (simp add: v1Results_def v1Loop_map comp_def)
  then have l: "length v1Results = length (targetRecordsOf parsed allRecords)"
    by (metis length_map)
  have c: "countStatus Pass v1Results + countStatus Fail v1Results + countStatus Skip v1Results
     = length v1Results" by (rule countStatus_total)
  from p v1 s m l c show ?thesis by (simp add: countStatus_def)
qed

theorem summary_consistent_witness:
  "runValidation v8 exRecords exRefs ''Sep-25'' APAC
     = Inr (projr (runValidation v8 exRecords exRefs ''Sep-25'' APAC))
   \<and> map v1Record (v1 (projr (runValidation v8 exRecords exRefs ''Sep-25'' APAC)))
       = [exRecords ! 0, exRecords ! 1, exRecords ! 2, exRecords ! 4]
   \<and> totalRecords (summary (projr (runValidation v8 exRecords exRefs ''Sep-25'' APAC))) = 4
   \<and> v1Pass (summary (projr (runValidation v8 exRecords exRefs ''Sep-25'' APAC)))
       + v1Fail (summary (projr (runValidation v8 exRecords exRefs ''Sep-25'' APAC)))
       + v1Skip (summary (projr (runValidation v8 exRecords exRefs ''Sep-25'' APAC))) = 4"
proof -
  have r: "runValidation v8 exRecords exRefs ''Sep-25'' APAC
     = Inr (projr (runValidation v8 exRecords exRefs ''Sep-25'' APAC))"
    using ex_run_returns by simp
  have t: "targetRecordsOf \<lparr>year = 2025, month = 9\<rparr> exRecords
     = [exRecords ! 0, exRecords ! 1, exRecords ! 2, exRecords ! 4]"
    by (rule ex_target)
  from summary_consistent [OF r] r t show ?thesis by (simp add: parse_sep25)
qed



text \<open>
  C1. For the record at position \<open>i\<close> among the records of the selected submission month,
  with an identifier that is not a placeholder and has at least one roster entry, check 1
  returns \<open>Pass\<close> exactly when some roster entry of the identifier satisfies all three
  conditions; the supporting evidence is then the three fields of the first such entry, and
  the reason is empty. When no entry satisfies all three, the verdict is \<open>Fail\<close>, the
  reason is the list of the messages of exactly the conditions that the last roster entry
  violates, and the evidence is the three fields of that last entry.
\<close>

theorem eid_reference_check:
  fixes fnText allRecords refRecords selectedMonth selectedRegion res parsed i
  defines "rec \<equiv> targetRecordsOf parsed allRecords ! i"
  defines "entries \<equiv> filter (\<lambda>r. refEid r = eid rec) refRecords"
  defines "validCountries \<equiv> set (getCountriesForRegion selectedRegion)"
  assumes run: "runValidation fnText allRecords refRecords selectedMonth selectedRegion = Inr res"
    and parsed: "parseSubmissionMonthLabel selectedMonth = Some parsed"
    and i: "i < length (targetRecordsOf parsed allRecords)"
    and placeholder: "\<not> isTbhOrBlank (eid rec)"
    and roster: "entries \<noteq> []"
  shows "v1Record (v1 res ! i) = rec
    \<and> (status (v1 res ! i) = Pass) = (\<exists>r \<in> set entries. satisfiesAll validCountries r)
    \<and> (status (v1 res ! i) = Pass \<longrightarrow>
         (\<exists>r. find (satisfiesAll validCountries) entries = Some r
            \<and> refInfo (v1 res ! i)
                = Some \<lparr>infoActiveStatus = activeStatus r, infoOnLeave = onLeave r,
                         infoCountry = country r\<rparr>)
         \<and> reason (v1 res ! i) = [])
    \<and> (status (v1 res ! i) \<noteq> Pass \<longrightarrow>
         status (v1 res ! i) = Fail
         \<and> reason (v1 res ! i)
             = listing (violatedConditions fnText validCountries selectedRegion (last entries))
         \<and> refInfo (v1 res ! i)
             = Some \<lparr>infoActiveStatus = activeStatus (last entries),
                      infoOnLeave = onLeave (last entries),
                      infoCountry = country (last entries)\<rparr>)"
proof -
  from run parsed have v1: "v1 res = map (\<lambda>rec. eidReferenceCheck fnText (buildRefMap refRecords [])
       validCountries selectedRegion rec (eid rec)) (targetRecordsOf parsed allRecords)"
    by (auto simp: runValidation_def Let_def v1Loop_map validCountries_def)
  from roster have g: "Map_get (buildRefMap refRecords []) (eid rec) = Some entries"
    by (simp add: refMap_get entries_def)
  have r: "v1 res ! i = eidReferenceCheck fnText (buildRefMap refRecords []) validCountries
      selectedRegion rec (eid rec)"
    using i by (simp add: v1 rec_def)
  show ?thesis
  proof (cases "find (satisfiesAll validCountries) entries")
    case None
    then have "\<not> (\<exists>r \<in> set entries. satisfiesAll validCountries r)"
      by (simp add: find_None_iff)
    with None show ?thesis
      by (simp add: r eidReferenceCheck_roster [OF placeholder g roster])
  next
    case (Some x)
    then have "\<exists>r \<in> set entries. satisfiesAll validCountries r"
      by (auto simp: find_Some_iff)
    with Some show ?thesis
      by (simp add: r eidReferenceCheck_roster [OF placeholder g roster])
  qed
qed

theorem eid_reference_check_witness:
  \<open>runValidation v8 exIdentity exRoster ''Sep-25'' APAC
     = Inr (projr (runValidation v8 exIdentity exRoster ''Sep-25'' APAC))
   \<and> map eid (targetRecordsOf \<lparr>year = 2025, month = 9\<rparr> exIdentity) = [''E1'', ''-'', ''E3'', ''E4'']
   \<and> status (v1 (projr (runValidation v8 exIdentity exRoster ''Sep-25'' APAC)) ! 0) = Pass
   \<and> reason (v1 (projr (runValidation v8 exIdentity exRoster ''Sep-25'' APAC)) ! 0) = []
   \<and> refInfo (v1 (projr (runValidation v8 exIdentity exRoster ''Sep-25'' APAC)) ! 0)
       = Some \<lparr>infoActiveStatus = Some ''Yes'', infoOnLeave = Some [],
                infoCountry = Some ''India''\<rparr>
   \<and> status (v1 (projr (runValidation v8 exIdentity exRoster ''Sep-25'' APAC)) ! 2) = Fail
   \<and> reason (v1 (projr (runValidation v8 exIdentity exRoster ''Sep-25'' APAC)) ! 2)
       = ''Active Status="No" (expected Yes); On Leave="Yes" (expected blank); ''
         @ ''Country="Canada" (Region: NAMER) - not in APAC''
   \<and> refInfo (v1 (projr (runValidation v8 exIdentity exRoster ''Sep-25'' APAC)) ! 2)
       = Some \<lparr>infoActiveStatus = Some ''No'', infoOnLeave = Some ''Yes'',
                infoCountry = Some ''Canada''\<rparr>
   \<and> status (v1 (projr (runValidation v8 exIdentity exRoster ''Sep-25'' APAC)) ! 3) = Fail
   \<and> reason (v1 (projr (runValidation v8 exIdentity exRoster ''Sep-25'' APAC)) ! 3)
       = ''Active Status="(blank)" (expected Yes); ''
         @ ''Country="constructor" (Region: function Object() { [native code] }) - not in APAC''
   \<and> refInfo (v1 (projr (runValidation v8 exIdentity exRoster ''Sep-25'' APAC)) ! 3)
       = Some \<lparr>infoActiveStatus = None, infoOnLeave = None,
                infoCountry = Some ''constructor''\<rparr>\<close>
proof -
  let ?p = "\<lparr>year = 2025, month = 9\<rparr>"
  let ?vc = "set (getCountriesForRegion APAC)"
  let ?res = "projr (runValidation v8 exIdentity exRoster ''Sep-25'' APAC)"
  let ?india = "exRef ''E1'' (Some ''Yes'') (Some []) (Some ''India'')"
  let ?canada = "exRef ''E3'' (Some ''No'') (Some ''Yes'') (Some ''Canada'')"
  let ?ctor = "exRef ''E4'' None None (Some ''constructor'')"
  have r: "runValidation v8 exIdentity exRoster ''Sep-25'' APAC = Inr ?res"
    by (simp add: runValidation_def parse_sep25 Let_def)
  have t: "targetRecordsOf ?p exIdentity = exIdentity"
    by code_simp
  have e: "map eid exIdentity = [''E1'', ''-'', ''E3'', ''E4'']"
    by code_simp
  have e0: "eid (targetRecordsOf ?p exIdentity ! 0) = ''E1''"
    and e1: "eid (targetRecordsOf ?p exIdentity ! 2) = ''E3''"
    and e2: "eid (targetRecordsOf ?p exIdentity ! 3) = ''E4''"
    and l: "length (targetRecordsOf ?p exIdentity) = 4"
    unfolding t by code_simp+
  have n: "\<not> isTbhOrBlank ''E1''" "\<not> isTbhOrBlank ''E3''" "\<not> isTbhOrBlank ''E4''"
    by code_simp+
  have f0: "filter (\<lambda>r. refEid r = ''E1'') exRoster
       = [exRef ''E1'' (Some ''No'') None (Some ''Japan''), ?india,
          exRef ''E1'' (Some ''Yes'') None (Some ''Japan'')]"
    and f1: "filter (\<lambda>r. refEid r = ''E3'') exRoster
       = [exRef ''E3'' (Some ''Yes'') None None, ?canada]"
    and f2: "filter (\<lambda>r. refEid r = ''E4'') exRoster = [?ctor]"
    by code_simp+
  have s: "\<not> satisfiesAll ?vc (exRef ''E1'' (Some ''No'') None (Some ''Japan''))"
      "satisfiesAll ?vc ?india"
      "\<not> satisfiesAll ?vc (exRef ''E3'' (Some ''Yes'') None None)"
      "\<not> satisfiesAll ?vc ?canada"
      "\<not> satisfiesAll ?vc ?ctor"
    by code_simp+
  have c: "activeStatus ?india = Some ''Yes''" "onLeave ?india = Some []"
      "country ?india = Some ''India''"
      "activeStatus ?canada = Some ''No''" "onLeave ?canada = Some ''Yes''"
      "country ?canada = Some ''Canada''"
      "activeStatus ?ctor = None" "onLeave ?ctor = None" "country ?ctor = Some ''constructor''"
    by (simp_all add: exRef_def)
  have v: \<open>listing (violatedConditions v8 ?vc APAC ?canada)
       = ''Active Status="No" (expected Yes); On Leave="Yes" (expected blank); ''
         @ ''Country="Canada" (Region: NAMER) - not in APAC''\<close>
      \<open>listing (violatedConditions v8 ?vc APAC ?ctor)
       = ''Active Status="(blank)" (expected Yes); ''
         @ ''Country="constructor" (Region: function Object() { [native code] }) - not in APAC''\<close>
    by code_simp+
  have a0: "status (v1 ?res ! 0) = Pass \<and> reason (v1 ?res ! 0) = []
      \<and> refInfo (v1 ?res ! 0)
          = Some \<lparr>infoActiveStatus = Some ''Yes'', infoOnLeave = Some [],
                   infoCountry = Some ''India''\<rparr>"
    using eid_reference_check [OF r parse_sep25, of 0] by (simp add: e0 f0 n l s c)
  have a1: "status (v1 ?res ! 2) = Fail
      \<and> reason (v1 ?res ! 2) = listing (violatedConditions v8 ?vc APAC ?canada)
      \<and> refInfo (v1 ?res ! 2)
          = Some \<lparr>infoActiveStatus = Some ''No'', infoOnLeave = Some ''Yes'',
                   infoCountry = Some ''Canada''\<rparr>"
    using eid_reference_check [OF r parse_sep25, of 2] by (simp add: e1 f1 n l s c)
  have a2: "status (v1 ?res ! 3) = Fail
      \<and> reason (v1 ?res ! 3) = listing (violatedConditions v8 ?vc APAC ?ctor)
      \<and> refInfo (v1 ?res ! 3)
          = Some \<lparr>infoActiveStatus = None, infoOnLeave = None,
                   infoCountry = Some ''constructor''\<rparr>"
    using eid_reference_check [OF r parse_sep25, of 3] by (simp add: e2 f2 n l s c)
  from r t e a0 a1 a2 show ?thesis by (simp only: v)
qed

text \<open>
  C3, as amended. Check 3, for a record of the selected submission month with a quota start
  date: the record is not in the results when the start date is the Invalid Date, and not
  when its start (year, month) is after the end of the selected half. Otherwise the record is
  in the results exactly when some checked bucket has a missing month. A result of the
  record lists, for each checked bucket, exactly the months of the half from the effective
  start month on whose value is missing (null or absent, a blank or dash string, or the
  number zero). The primary year-1 bucket is always checked, the years 2 and 3 bucket when
  it is present, the second component's buckets when the record is dual-metric and the
  bucket is present.
\<close>

theorem missing_quota_check:
  assumes run: "runValidation fnText allRecords refRecords selectedMonth selectedRegion = Inr res"
    and parsed: "parseSubmissionMonthLabel selectedMonth = Some parsed"
    and target: "rec \<in> set (targetRecordsOf parsed allRecords)"
    and start: "quotaStartDate rec = Some qs"
  shows "(qs = InvalidDate \<longrightarrow> rec \<notin> v3Record ` set (v3 res))
    \<and> (startAfterHalfEnd parsed qs \<longrightarrow> rec \<notin> v3Record ` set (v3 res))
    \<and> (qs \<noteq> InvalidDate \<and> \<not> startAfterHalfEnd parsed qs \<longrightarrow>
          (rec \<in> v3Record ` set (v3 res))
            = (missingIn parsed qs (monthlyQuotas rec) \<noteq> []
               \<or> missingInOptional True parsed qs (monthlyQuotasY2Y3 rec) \<noteq> []
               \<or> missingInOptional (isDMC rec) parsed qs (monthlyQuotasComp2 rec) \<noteq> []
               \<or> missingInOptional (isDMC rec) parsed qs (monthlyQuotasComp2Y2Y3 rec) \<noteq> []))
    \<and> (\<forall>r \<in> set (v3 res). v3Record r = rec \<longrightarrow>
          missingMonths r = missingIn parsed qs (monthlyQuotas rec)
          \<and> missingMonthsY2Y3 r = missingInOptional True parsed qs (monthlyQuotasY2Y3 rec)
          \<and> missingMonthsComp2 r
              = missingInOptional (isDMC rec) parsed qs (monthlyQuotasComp2 rec)
          \<and> missingMonthsComp2Y2Y3 r
              = missingInOptional (isDMC rec) parsed qs (monthlyQuotasComp2Y2Y3 rec))"
proof (intro conjI impI ballI)
  note mem = v3_member [OF run parsed target]
  {
    assume "qs = InvalidDate"
    with mem start show "rec \<notin> v3Record ` set (v3 res)"
      by (simp add: missingQuotaCheck_invalid)
  }
  {
    assume "startAfterHalfEnd parsed qs"
    with mem show "rec \<notin> v3Record ` set (v3 res)"
      by (simp add: missingQuotaCheck_skipped [OF start])
  }
  {
    assume "qs \<noteq> InvalidDate \<and> \<not> startAfterHalfEnd parsed qs"
    with mem show "(rec \<in> v3Record ` set (v3 res))
            = (missingIn parsed qs (monthlyQuotas rec) \<noteq> []
               \<or> missingInOptional True parsed qs (monthlyQuotasY2Y3 rec) \<noteq> []
               \<or> missingInOptional (isDMC rec) parsed qs (monthlyQuotasComp2 rec) \<noteq> []
               \<or> missingInOptional (isDMC rec) parsed qs (monthlyQuotasComp2Y2Y3 rec) \<noteq> [])"
      by (simp add: missingQuotaCheck_None_iff [OF start])
  }
  fix r assume "r \<in> set (v3 res)" and "v3Record r = rec"
  then have c: "missingQuotaCheck parsed rec = Some r"
    using v3_of_run [OF run parsed, of r rec] by simp
  from missingQuotaCheck_Some [OF start c]
  show "missingMonths r = missingIn parsed qs (monthlyQuotas rec)"
    and "missingMonthsY2Y3 r = missingInOptional True parsed qs (monthlyQuotasY2Y3 rec)"
    and "missingMonthsComp2 r = missingInOptional (isDMC rec) parsed qs (monthlyQuotasComp2 rec)"
    and "missingMonthsComp2Y2Y3 r
              = missingInOptional (isDMC rec) parsed qs (monthlyQuotasComp2Y2Y3 rec)"
    by simp_all
qed

theorem missing_quota_check_witness:
  "runValidation v8 exCells [] ''Sep-25'' APAC
     = Inr (projr (runValidation v8 exCells [] ''Sep-25'' APAC))
   \<and> quotaStartDate exInvalid = Some InvalidDate
   \<and> exInvalid \<notin> v3Record ` set (v3 (projr (runValidation v8 exCells [] ''Sep-25'' APAC)))
   \<and> quotaStartDate exStartJan = Some jan26
   \<and> startAfterHalfEnd \<lparr>year = 2025, month = 9\<rparr> jan26
   \<and> exStartJan \<notin> v3Record ` set (v3 (projr (runValidation v8 exCells [] ''Sep-25'' APAC)))
   \<and> quotaStartDate exStartMar = Some mar24
   \<and> \<not> startAfterHalfEnd \<lparr>year = 2025, month = 9\<rparr> mar24
   \<and> effectiveStart \<lparr>year = 2025, month = 9\<rparr> mar24 = 7
   \<and> exStartMar \<notin> v3Record ` set (v3 (projr (runValidation v8 exCells [] ''Sep-25'' APAC)))
   \<and> map v3Record (v3 (projr (runValidation v8 exCells [] ''Sep-25'' APAC)))
       = [exNbsp, exText, exDual]
   \<and> effectiveStart \<lparr>year = 2025, month = 9\<rparr> sep25 = 9
   \<and> SEP (monthlyQuotas exNbsp) = String [CHR 0xC2, CHR 0xA0]
   \<and> missingMonths (v3 (projr (runValidation v8 exCells [] ''Sep-25'' APAC)) ! 0)
       = [''SEP'', ''OCT'', ''NOV'']
   \<and> effectiveStart \<lparr>year = 2025, month = 9\<rparr> aug25 = 8
   \<and> OCT (monthlyQuotas exText) = String [CHR '' '', CHR ''-'', CHR 0xEF, CHR 0xBB, CHR 0xBF]
   \<and> missingMonths (v3 (projr (runValidation v8 exCells [] ''Sep-25'' APAC)) ! 1)
       = [''AUG'', ''SEP'', ''OCT'']
   \<and> isDMC exDual
   \<and> missingMonths (v3 (projr (runValidation v8 exCells [] ''Sep-25'' APAC)) ! 2) = []
   \<and> missingMonthsComp2 (v3 (projr (runValidation v8 exCells [] ''Sep-25'' APAC)) ! 2)
       = [''JUL'', ''AUG'', ''SEP'', ''OCT'', ''NOV'', ''DEC'']"
proof -
  let ?p = "\<lparr>year = 2025, month = 9\<rparr>"
  let ?res = "projr (runValidation v8 exCells [] ''Sep-25'' APAC)"
  note r = run_sep25 [of v8 exCells "[]" APAC]
  have t: "exNbsp \<in> set (targetRecordsOf ?p exCells)"
      "exText \<in> set (targetRecordsOf ?p exCells)"
      "exDual \<in> set (targetRecordsOf ?p exCells)"
      "exInvalid \<in> set (targetRecordsOf ?p exCells)"
      "exStartJan \<in> set (targetRecordsOf ?p exCells)"
      "exStartMar \<in> set (targetRecordsOf ?p exCells)"
    by code_simp+
  have q: "quotaStartDate exNbsp = Some sep25" "quotaStartDate exText = Some aug25"
      "quotaStartDate exDual = Some mar24" "quotaStartDate exInvalid = Some InvalidDate"
      "quotaStartDate exStartJan = Some jan26" "quotaStartDate exStartMar = Some mar24"
    by code_simp+
  have a: "startAfterHalfEnd ?p jan26" "\<not> startAfterHalfEnd ?p mar24"
      "\<not> startAfterHalfEnd ?p sep25" "\<not> startAfterHalfEnd ?p aug25"
      "mar24 \<noteq> InvalidDate" "sep25 \<noteq> InvalidDate" "aug25 \<noteq> InvalidDate"
    by code_simp+
  have e: "effectiveStart ?p mar24 = 7" "effectiveStart ?p sep25 = 9"
      "effectiveStart ?p aug25 = 8"
    by code_simp+
  have c: "SEP (monthlyQuotas exNbsp) = String [CHR 0xC2, CHR 0xA0]"
      "OCT (monthlyQuotas exText) = String [CHR '' '', CHR ''-'', CHR 0xEF, CHR 0xBB, CHR 0xBF]"
      "isDMC exDual"
    by code_simp+
  have m: "missingIn ?p sep25 (monthlyQuotas exNbsp) = [''SEP'', ''OCT'', ''NOV'']"
      "missingIn ?p aug25 (monthlyQuotas exText) = [''AUG'', ''SEP'', ''OCT'']"
      "missingIn ?p mar24 (monthlyQuotas exDual) = []"
      "missingInOptional (isDMC exDual) ?p mar24 (monthlyQuotasComp2 exDual)
         = [''JUL'', ''AUG'', ''SEP'', ''OCT'', ''NOV'', ''DEC'']"
      "missingIn ?p mar24 (monthlyQuotas exStartMar) = []"
      "missingInOptional True ?p mar24 (monthlyQuotasY2Y3 exStartMar) = []"
      "missingInOptional (isDMC exStartMar) ?p mar24 (monthlyQuotasComp2 exStartMar) = []"
      "missingInOptional (isDMC exStartMar) ?p mar24 (monthlyQuotasComp2Y2Y3 exStartMar) = []"
    by code_simp+
  have h: "map v3Record (v3 ?res) = [exNbsp, exText, exDual]"
    by code_simp
  from h have h0: "v3 ?res ! 0 \<in> set (v3 ?res)" "v3Record (v3 ?res ! 0) = exNbsp"
    and h1: "v3 ?res ! 1 \<in> set (v3 ?res)" "v3Record (v3 ?res ! 1) = exText"
    and h2: "v3 ?res ! 2 \<in> set (v3 ?res)" "v3Record (v3 ?res ! 2) = exDual"
    by (auto simp: map_eq_Cons_conv)
  from missing_quota_check [OF r parse_sep25 t(4) q(4)]
  have inv: "exInvalid \<notin> v3Record ` set (v3 ?res)" by simp
  from missing_quota_check [OF r parse_sep25 t(5) q(5)] a(1)
  have jan: "exStartJan \<notin> v3Record ` set (v3 ?res)" by simp
  from missing_quota_check [OF r parse_sep25 t(6) q(6)] a(2,5) m(5-8)
  have mar: "exStartMar \<notin> v3Record ` set (v3 ?res)" by simp
  from missing_quota_check [OF r parse_sep25 t(1) q(1)] h0 m(1)
  have nbsp: "missingMonths (v3 ?res ! 0) = [''SEP'', ''OCT'', ''NOV'']" by simp
  from missing_quota_check [OF r parse_sep25 t(2) q(2)] h1 m(2)
  have tx: "missingMonths (v3 ?res ! 1) = [''AUG'', ''SEP'', ''OCT'']" by simp
  from missing_quota_check [OF r parse_sep25 t(3) q(3)] h2 m(3,4)
  have dual: "missingMonths (v3 ?res ! 2) = []"
      "missingMonthsComp2 (v3 ?res ! 2) = [''JUL'', ''AUG'', ''SEP'', ''OCT'', ''NOV'', ''DEC'']"
    by simp_all
  from r q a e c h inv jan mar nbsp tx dual show ?thesis by simp
qed

text \<open>
  C3 as stated fails on the Invalid Date. The record \<open>exInvalid\<close> has a quota start date
  that is not null; its start is not after the end of the half, and it does not fall within
  the year of the half, so the effective start month of the claim is July, the first month
  of the half, and all six months of the year-1 bucket would be missing. Check 3 reports
  nothing for it.
\<close>

theorem invalid_start_not_reported:
  "quotaStartDate exInvalid = Some InvalidDate
   \<and> targetRecordsOf \<lparr>year = 2025, month = 9\<rparr> [exInvalid] = [exInvalid]
   \<and> \<not> startAfterHalfEnd \<lparr>year = 2025, month = 9\<rparr> InvalidDate
   \<and> effectiveStart \<lparr>year = 2025, month = 9\<rparr> InvalidDate = 7
   \<and> missingIn \<lparr>year = 2025, month = 9\<rparr> InvalidDate (monthlyQuotas exInvalid)
       = [''JUL'', ''AUG'', ''SEP'', ''OCT'', ''NOV'', ''DEC'']
   \<and> runValidation v8 [exInvalid] [] ''Sep-25'' APAC
       = Inr (projr (runValidation v8 [exInvalid] [] ''Sep-25'' APAC))
   \<and> v3 (projr (runValidation v8 [exInvalid] [] ''Sep-25'' APAC)) = []"
  by code_simp

text \<open>
  C4, as amended. For a record of the selected submission month whose quota starts in
  September of the year of the half, with the half H1 selected and primary year-1 amounts of
  zero for October and November: check 3 reports the record with October and November in its
  primary year-1 missing months; July and August are not checked, so they are never in that
  list; September, the start month, is checked, and is in the list exactly when its value is
  missing.
\<close>

theorem start_month_checked:
  assumes run: "runValidation fnText allRecords refRecords selectedMonth selectedRegion = Inr res"
    and parsed: "parseSubmissionMonthLabel selectedMonth = Some parsed"
    and h1: "7 \<le> month parsed"
    and target: "rec \<in> set (targetRecordsOf parsed allRecords)"
    and start: "quotaStartDate rec = Some qs"
    and september: "startOf qs = Some (year parsed, 9)"
    and october: "OCT (monthlyQuotas rec) = Number (Finite 0)"
    and november: "NOV (monthlyQuotas rec) = Number (Finite 0)"
  shows "rec \<in> v3Record ` set (v3 res)
    \<and> (\<forall>r \<in> set (v3 res). v3Record r = rec \<longrightarrow>
          ''OCT'' \<in> set (missingMonths r) \<and> ''NOV'' \<in> set (missingMonths r)
          \<and> ''JUL'' \<notin> set (missingMonths r) \<and> ''AUG'' \<notin> set (missingMonths r)
          \<and> (''SEP'' \<in> set (missingMonths r)) = valueMissing (SEP (monthlyQuotas rec)))"
proof (intro conjI ballI impI)
  from september have v: "qs \<noteq> InvalidDate" by auto
  from h1 september have n: "\<not> startAfterHalfEnd parsed qs"
    by (simp add: startAfterHalfEnd_def halfLastMonth_def halfMonths_def)
  from h1 september have e: "effectiveStart parsed qs = 9"
    by (simp add: effectiveStart_def halfFirstMonth_def halfMonths_def)
  have z: "valueMissing (Number (Finite 0))" by (simp add: valueMissing_def)
  have l: "missingIn parsed qs (monthlyQuotas rec)
     = (if valueMissing (SEP (monthlyQuotas rec)) then [''SEP''] else [])
       @ [''OCT'', ''NOV'']
       @ (if valueMissing (DEC (monthlyQuotas rec)) then [''DEC''] else [])"
    using h1 by (simp add: missingIn_def e halfMonths_def monthValue_def october november z)
  then have m: "set (missingIn parsed qs (monthlyQuotas rec))
     = {''OCT'', ''NOV''}
       \<union> (if valueMissing (SEP (monthlyQuotas rec)) then {''SEP''} else {})
       \<union> (if valueMissing (DEC (monthlyQuotas rec)) then {''DEC''} else {})"
    by auto
  from l have ne: "missingIn parsed qs (monthlyQuotas rec) \<noteq> []" by simp
  note mem = v3_member [OF run parsed target]
  with ne show "rec \<in> v3Record ` set (v3 res)"
    by (simp add: missingQuotaCheck_None_iff [OF start v n])
  fix r assume "r \<in> set (v3 res)" and "v3Record r = rec"
  then have c: "missingQuotaCheck parsed rec = Some r"
    using v3_of_run [OF run parsed, of r rec] by simp
  from missingQuotaCheck_Some [OF start c]
  have "missingMonths r = missingIn parsed qs (monthlyQuotas rec)" by simp
  with m have s: "set (missingMonths r) = {''OCT'', ''NOV''}
       \<union> (if valueMissing (SEP (monthlyQuotas rec)) then {''SEP''} else {})
       \<union> (if valueMissing (DEC (monthlyQuotas rec)) then {''DEC''} else {})" by simp
  show "''OCT'' \<in> set (missingMonths r)" and "''NOV'' \<in> set (missingMonths r)"
    and "''JUL'' \<notin> set (missingMonths r)" and "''AUG'' \<notin> set (missingMonths r)"
    and "(''SEP'' \<in> set (missingMonths r)) = valueMissing (SEP (monthlyQuotas rec))"
    unfolding s by auto
qed

theorem start_month_checked_witness:
  "runValidation v8 exRecords exRefs ''Sep-25'' APAC
     = Inr (projr (runValidation v8 exRecords exRefs ''Sep-25'' APAC))
   \<and> quotaStartDate (exRecords ! 0) = Some sep25 \<and> startOf sep25 = Some (2025, 9)
   \<and> JUL (monthlyQuotas (exRecords ! 0)) = Number (Finite 0)
   \<and> SEP (monthlyQuotas (exRecords ! 0)) = Number (Finite 100)
   \<and> exRecords ! 0 \<in> v3Record ` set (v3 (projr (runValidation v8 exRecords exRefs ''Sep-25'' APAC)))
   \<and> ''OCT'' \<in> set (missingMonths (hd (v3 (projr (runValidation v8 exRecords exRefs ''Sep-25'' APAC)))))
   \<and> ''NOV'' \<in> set (missingMonths (hd (v3 (projr (runValidation v8 exRecords exRefs ''Sep-25'' APAC)))))
   \<and> ''JUL'' \<notin> set (missingMonths (hd (v3 (projr (runValidation v8 exRecords exRefs ''Sep-25'' APAC)))))
   \<and> ''AUG'' \<notin> set (missingMonths (hd (v3 (projr (runValidation v8 exRecords exRefs ''Sep-25'' APAC)))))
   \<and> ''SEP'' \<notin> set (missingMonths (hd (v3 (projr (runValidation v8 exRecords exRefs ''Sep-25'' APAC)))))
   \<and> quotaStartDate exNbsp = Some sep25
   \<and> JUL (monthlyQuotas exNbsp) = Number (Finite 0)
   \<and> SEP (monthlyQuotas exNbsp) = String [CHR 0xC2, CHR 0xA0]
   \<and> exNbsp \<in> v3Record ` set (v3 (projr (runValidation v8 exCells [] ''Sep-25'' APAC)))
   \<and> ''SEP'' \<in> set (missingMonths (hd (v3 (projr (runValidation v8 exCells [] ''Sep-25'' APAC)))))
   \<and> ''OCT'' \<in> set (missingMonths (hd (v3 (projr (runValidation v8 exCells [] ''Sep-25'' APAC)))))
   \<and> ''NOV'' \<in> set (missingMonths (hd (v3 (projr (runValidation v8 exCells [] ''Sep-25'' APAC)))))
   \<and> ''JUL'' \<notin> set (missingMonths (hd (v3 (projr (runValidation v8 exCells [] ''Sep-25'' APAC)))))
   \<and> ''AUG'' \<notin> set (missingMonths (hd (v3 (projr (runValidation v8 exCells [] ''Sep-25'' APAC)))))"
proof -
  let ?p = "\<lparr>year = 2025, month = 9\<rparr>"
  let ?res = "projr (runValidation v8 exRecords exRefs ''Sep-25'' APAC)"
  let ?res2 = "projr (runValidation v8 exCells [] ''Sep-25'' APAC)"
  note r = run_sep25 [of v8 exRecords exRefs APAC]
  note r2 = run_sep25 [of v8 exCells "[]" APAC]
  have t: "exRecords ! 0 \<in> set (targetRecordsOf ?p exRecords)"
      "exNbsp \<in> set (targetRecordsOf ?p exCells)"
    by code_simp+
  have q: "quotaStartDate (exRecords ! 0) = Some sep25"
      "OCT (monthlyQuotas (exRecords ! 0)) = Number (Finite 0)"
      "NOV (monthlyQuotas (exRecords ! 0)) = Number (Finite 0)"
      "JUL (monthlyQuotas (exRecords ! 0)) = Number (Finite 0)"
      "SEP (monthlyQuotas (exRecords ! 0)) = Number (Finite 100)"
      "\<not> valueMissing (Number (Finite 100))"
    by code_simp+
  have q2: "quotaStartDate exNbsp = Some sep25"
      "OCT (monthlyQuotas exNbsp) = Number (Finite 0)"
      "NOV (monthlyQuotas exNbsp) = Number (Finite 0)"
      "JUL (monthlyQuotas exNbsp) = Number (Finite 0)"
      "SEP (monthlyQuotas exNbsp) = String [CHR 0xC2, CHR 0xA0]"
      "valueMissing (String [CHR 0xC2, CHR 0xA0])"
    by code_simp+
  have d: "startOf sep25 = Some (year ?p, 9)" "7 \<le> month ?p"
    by (simp_all add: sep25_def)
  have h: "hd (v3 ?res) \<in> set (v3 ?res)" "v3Record (hd (v3 ?res)) = exRecords ! 0"
    using ex_v3 [of v8] by (auto simp: map_eq_Cons_conv)
  have "map v3Record (v3 ?res2) = [exNbsp, exText, exDual]"
    by code_simp
  then have h2: "hd (v3 ?res2) \<in> set (v3 ?res2)" "v3Record (hd (v3 ?res2)) = exNbsp"
    by (auto simp: map_eq_Cons_conv)
  from start_month_checked [OF r parse_sep25 d(2) t(1) q(1) d(1) q(2) q(3)] h q
  have a1: "exRecords ! 0 \<in> v3Record ` set (v3 ?res)
      \<and> ''OCT'' \<in> set (missingMonths (hd (v3 ?res)))
      \<and> ''NOV'' \<in> set (missingMonths (hd (v3 ?res)))
      \<and> ''JUL'' \<notin> set (missingMonths (hd (v3 ?res)))
      \<and> ''AUG'' \<notin> set (missingMonths (hd (v3 ?res)))
      \<and> ''SEP'' \<notin> set (missingMonths (hd (v3 ?res)))"
    by simp
  from start_month_checked [OF r2 parse_sep25 d(2) t(2) q2(1) d(1) q2(2) q2(3)] h2 q2
  have a2: "exNbsp \<in> v3Record ` set (v3 ?res2)
      \<and> ''SEP'' \<in> set (missingMonths (hd (v3 ?res2)))
      \<and> ''OCT'' \<in> set (missingMonths (hd (v3 ?res2)))
      \<and> ''NOV'' \<in> set (missingMonths (hd (v3 ?res2)))
      \<and> ''JUL'' \<notin> set (missingMonths (hd (v3 ?res2)))
      \<and> ''AUG'' \<notin> set (missingMonths (hd (v3 ?res2)))"
    by simp
  from r q q2 d a1 a2 show ?thesis by simp
qed

text \<open>
  C4 as stated fails on September: the record \<open>exStartSep\<close> starts in September 2025 and
  has a zero amount for September, and September is in its missing months.
\<close>

theorem september_is_checked:
  "quotaStartDate exStartSep = Some sep25
   \<and> startOf sep25 = Some (2025, 9)
   \<and> SEP (monthlyQuotas exStartSep) = Number (Finite 0)
   \<and> OCT (monthlyQuotas exStartSep) = Number (Finite 0)
   \<and> NOV (monthlyQuotas exStartSep) = Number (Finite 0)
   \<and> halfOf \<lparr>year = 2025, month = 9\<rparr> = H1
   \<and> runValidation v8 exRecords3 [] ''Sep-25'' APAC
       = Inr (projr (runValidation v8 exRecords3 [] ''Sep-25'' APAC))
   \<and> map v3Record (v3 (projr (runValidation v8 exRecords3 [] ''Sep-25'' APAC))) = [exStartSep]
   \<and> map missingMonths (v3 (projr (runValidation v8 exRecords3 [] ''Sep-25'' APAC)))
       = [[''SEP'', ''OCT'', ''NOV'']]"
  by code_simp

text \<open>
  C2, as amended. For a record whose identifier is not a placeholder and has a roster entry
  with a country in the valid set of the selected region, the region resolver returns
  \<open>included = true\<close> with the tag \<open>scr\<close> and the country of the first such entry,
  whatever the market segment of the record is: the segment tables are not consulted. For a
  record whose identifier is a placeholder, the resolver returns \<open>included = true\<close> with
  the tag \<open>unknown\<close> and the comment \<open>TBH / Blank EID\<close>, whatever the roster and the
  market segment are.
\<close>

theorem roster_match_precedence:
  "(\<not> isTbhOrBlank (eid rec) \<and> Map_get refMap (eid rec) = Some refs
      \<and> (\<exists>r \<in> set refs. \<exists>c. country r = Some c \<and> c \<in> validCountries)
    \<longrightarrow> (\<exists>m c. find (\<lambda>r. \<exists>c. country r = Some c \<and> c \<in> validCountries) refs = Some m
           \<and> country m = Some c
           \<and> resolveRegion fnText rec refMap validCountries selectedRegion
               = \<lparr>included = True, info = \<lparr>matchType = scr, comment = ''SCR: '' @ c\<rparr>\<rparr>))
   \<and> (isTbhOrBlank (eid rec)
    \<longrightarrow> resolveRegion fnText rec refMap validCountries selectedRegion
          = \<lparr>included = True, info = \<lparr>matchType = unknown, comment = ''TBH / Blank EID''\<rparr>\<rparr>)"
proof (intro conjI impI)
  assume a: "\<not> isTbhOrBlank (eid rec) \<and> Map_get refMap (eid rec) = Some refs
      \<and> (\<exists>r \<in> set refs. \<exists>c. country r = Some c \<and> c \<in> validCountries)"
  have p: "(\<lambda>r. \<exists>c. country r = Some c \<and> c \<in> validCountries)
     = (\<lambda>ref. country ref \<noteq> None \<and> the (country ref) \<in> validCountries)"
    by (auto simp: fun_eq_iff)
  from a find_matching [of refs validCountries] obtain m c
    where m: "find (\<lambda>ref. country ref \<noteq> None \<and> the (country ref) \<in> validCountries) refs = Some m"
      "country m = Some c" "c \<in> validCountries" "m \<in> set refs" by blast
  from m(4) obtain firstRef rest where refs: "refs = firstRef # rest" by (cases refs) auto
  from m refs a have "scrLookup fnText rec refMap validCountries selectedRegion
      = Some \<lparr>included = True, info = \<lparr>matchType = scr, comment = ''SCR: '' @ c\<rparr>\<rparr>"
    by (simp add: scrLookup_def templ_def)
  with a m show "\<exists>m c. find (\<lambda>r. \<exists>c. country r = Some c \<and> c \<in> validCountries) refs = Some m
           \<and> country m = Some c
           \<and> resolveRegion fnText rec refMap validCountries selectedRegion
               = \<lparr>included = True, info = \<lparr>matchType = scr, comment = ''SCR: '' @ c\<rparr>\<rparr>"
    by (simp add: resolveRegion_def p)
next
  assume "isTbhOrBlank (eid rec)"
  then show "resolveRegion fnText rec refMap validCountries selectedRegion
          = \<lparr>included = True, info = \<lparr>matchType = unknown, comment = ''TBH / Blank EID''\<rparr>\<rparr>"
    by (simp add: resolveRegion_def)
qed

theorem roster_match_precedence_witness:
  "\<not> isTbhOrBlank (eid (exOverlay ''E7''))
   \<and> Map_get exOverlayMap (eid (exOverlay ''E7''))
       = Some [exRef ''E7'' (Some ''Yes'') None (Some ''Canada''),
               exRef ''E7'' (Some ''Yes'') None (Some ''Japan'')]
   \<and> country (exRef ''E7'' (Some ''Yes'') None (Some ''Japan'')) = Some ''Japan''
   \<and> ''Japan'' \<in> set (getCountriesForRegion APAC)
   \<and> repRegion (exOverlay ''E7'') = ''NAMER''
   \<and> segmentLookup v8 (exOverlay ''E7'') APAC
       = \<lparr>included = False,
          info = \<lparr>matchType = segment_direct,
                  comment = ''Market Segment '' @ [CHR 0x22] @ ''NAMER'' @ [CHR 0x22] @ '' ''
                    @ rightArrow @ '' NAMER, not APAC''\<rparr>\<rparr>
   \<and> resolveRegion v8 (exOverlay ''E7'') exOverlayMap (set (getCountriesForRegion APAC)) APAC
       = \<lparr>included = True, info = \<lparr>matchType = scr, comment = ''SCR: Japan''\<rparr>\<rparr>
   \<and> isTbhOrBlank (eid (exOverlay ''-''))
   \<and> resolveRegion v8 (exOverlay ''-'') exOverlayMap (set (getCountriesForRegion APAC)) APAC
       = \<lparr>included = True, info = \<lparr>matchType = unknown, comment = ''TBH / Blank EID''\<rparr>\<rparr>
   \<and> isTbhOrBlank (eid (exOverlay ''tbh 12''))
   \<and> resolveRegion v8 (exOverlay ''tbh 12'') exOverlayMap (set (getCountriesForRegion NAMER))
        NAMER
       = \<lparr>included = True, info = \<lparr>matchType = unknown, comment = ''TBH / Blank EID''\<rparr>\<rparr>"
proof -
  let ?refs = "[exRef ''E7'' (Some ''Yes'') None (Some ''Canada''),
               exRef ''E7'' (Some ''Yes'') None (Some ''Japan'')]"
  have n: "\<not> isTbhOrBlank (eid (exOverlay ''E7''))"
      "isTbhOrBlank (eid (exOverlay ''-''))" "isTbhOrBlank (eid (exOverlay ''tbh 12''))"
    by code_simp+
  have g: "Map_get exOverlayMap (eid (exOverlay ''E7'')) = Some ?refs"
    by code_simp
  have j: "''Japan'' \<in> set (getCountriesForRegion APAC)"
      "''Canada'' \<notin> set (getCountriesForRegion APAC)"
    by code_simp+
  have c: "country (exRef ''E7'' (Some ''Yes'') None (Some ''Japan'')) = Some ''Japan''"
      "country (exRef ''E7'' (Some ''Yes'') None (Some ''Canada'')) = Some ''Canada''"
    by (simp_all add: exRef_def)
  have m: "\<exists>r \<in> set ?refs. \<exists>c. country r = Some c \<and> c \<in> set (getCountriesForRegion APAC)"
    using j c by simp
  have s: "repRegion (exOverlay ''E7'') = ''NAMER''"
      "segmentLookup v8 (exOverlay ''E7'') APAC
       = \<lparr>included = False,
          info = \<lparr>matchType = segment_direct,
                  comment = ''Market Segment '' @ [CHR 0x22] @ ''NAMER'' @ [CHR 0x22] @ '' ''
                    @ rightArrow @ '' NAMER, not APAC''\<rparr>\<rparr>"
    by code_simp+
  from roster_match_precedence [of "exOverlay ''E7''" exOverlayMap ?refs
      "set (getCountriesForRegion APAC)" v8 APAC] n(1) g m j c
  have a1: "resolveRegion v8 (exOverlay ''E7'') exOverlayMap (set (getCountriesForRegion APAC))
      APAC = \<lparr>included = True, info = \<lparr>matchType = scr, comment = ''SCR: Japan''\<rparr>\<rparr>"
    by auto
  from roster_match_precedence [of "exOverlay ''-''" exOverlayMap "[]"
      "set (getCountriesForRegion APAC)" v8 APAC] n(2)
  have a2: "resolveRegion v8 (exOverlay ''-'') exOverlayMap (set (getCountriesForRegion APAC))
      APAC = \<lparr>included = True, info = \<lparr>matchType = unknown, comment = ''TBH / Blank EID''\<rparr>\<rparr>"
    by simp
  from roster_match_precedence [of "exOverlay ''tbh 12''" exOverlayMap "[]"
      "set (getCountriesForRegion NAMER)" v8 NAMER] n(3)
  have a3: "resolveRegion v8 (exOverlay ''tbh 12'') exOverlayMap
      (set (getCountriesForRegion NAMER)) NAMER
      = \<lparr>included = True, info = \<lparr>matchType = unknown, comment = ''TBH / Blank EID''\<rparr>\<rparr>"
    by simp
  from n g j c s a1 a2 a3 show ?thesis by simp
qed

text \<open>
  C2 as stated fails on a placeholder identifier that has a roster entry with a country of
  the selected region: the resolver returns before the roster lookup, with the tag
  \<open>unknown\<close> and not the tag \<open>scr\<close>.
\<close>

theorem placeholder_before_roster:
  "eid (exOverlay ''TBH-9'') = ''TBH-9''
   \<and> Map_get exOverlayMap ''TBH-9'' = Some [exRef ''TBH-9'' (Some ''Yes'') None (Some ''Japan'')]
   \<and> country (exRef ''TBH-9'' (Some ''Yes'') None (Some ''Japan'')) = Some ''Japan''
   \<and> ''Japan'' \<in> set (getCountriesForRegion APAC)
   \<and> resolveRegion v8 (exOverlay ''TBH-9'') exOverlayMap (set (getCountriesForRegion APAC)) APAC
       = \<lparr>included = True, info = \<lparr>matchType = unknown, comment = ''TBH / Blank EID''\<rparr>\<rparr>
   \<and> matchType (info (resolveRegion v8 (exOverlay ''TBH-9'') exOverlayMap
        (set (getCountriesForRegion APAC)) APAC)) \<noteq> scr"
  by code_simp

text \<open>
  C7, as amended. The V1 results of the LMS run are, in order, one for each record that
  passes the region filter. A record passes the filter exactly when its identifier is a
  placeholder, or, for an identifier without roster entry, when its geography code in upper
  case is \<open>SA\<close> or maps to the selected region under the table APAC to APAC, EMEA and
  LATAM to EMEAL, NAMER to NAMER, or, for an identifier with roster entries, when the country
  of some entry is in the valid set of the selected region.
\<close>

theorem lms_region_filter:
  "map v1Record
     (lmsV1 (runLmsValidation pf fnText records refRecords selectedProcessingMonth selectedRegion))
       = lmsFilteredRecords records refRecords selectedRegion
   \<and> (rec \<in> set (lmsFilteredRecords records refRecords selectedRegion))
       = (rec \<in> set records
          \<and> (isTbhOrBlank (employeeId rec)
             \<or> (if filter (\<lambda>r. refEid r = employeeId rec) refRecords = []
                 then toUpperCase (geo rec) = ''SA''
                      \<or> geoRegion (toUpperCase (geo rec)) = Some selectedRegion
                 else \<exists>r \<in> set (filter (\<lambda>r. refEid r = employeeId rec) refRecords).
                        \<exists>c. country r = Some c
                          \<and> c \<in> set (getCountriesForRegion selectedRegion))))"
proof
  show "map v1Record
     (lmsV1 (runLmsValidation pf fnText records refRecords selectedProcessingMonth selectedRegion))
       = lmsFilteredRecords records refRecords selectedRegion"
    by (simp add: runLmsValidation_def Let_def lmsV1Loop_map comp_def)
  have "(rec \<in> set (lmsFilteredRecords records refRecords selectedRegion))
       = (rec \<in> set records
          \<and> regionFilter (buildRefMap refRecords []) (set (getCountriesForRegion selectedRegion))
              selectedRegion rec)"
    by (simp add: lmsFilteredRecords_def)
  then show "(rec \<in> set (lmsFilteredRecords records refRecords selectedRegion))
       = (rec \<in> set records
          \<and> (isTbhOrBlank (employeeId rec)
             \<or> (if filter (\<lambda>r. refEid r = employeeId rec) refRecords = []
                 then toUpperCase (geo rec) = ''SA''
                      \<or> geoRegion (toUpperCase (geo rec)) = Some selectedRegion
                 else \<exists>r \<in> set (filter (\<lambda>r. refEid r = employeeId rec) refRecords).
                        \<exists>c. country r = Some c
                          \<and> c \<in> set (getCountriesForRegion selectedRegion))))"
    by (simp only: regionFilter_iff)
qed

theorem lms_region_filter_witness:
  "\<not> isTbhOrBlank ''L1'' \<and> \<not> isTbhOrBlank ''L2'' \<and> \<not> isTbhOrBlank ''L4''
   \<and> \<not> isTbhOrBlank ''E1'' \<and> isTbhOrBlank ''tbh''
   \<and> map refEid exRefs = [''E1'', ''E3'', ''E1'', ''E3'']
   \<and> map country exRefs = [Some ''Japan'', Some ''Canada'', Some ''Japan'', None]
   \<and> ''Japan'' \<in> set (getCountriesForRegion APAC)
   \<and> ''Japan'' \<notin> set (getCountriesForRegion NAMER)
   \<and> toUpperCase ''sa'' = ''SA''
   \<and> exGeo ''L1'' ''sa'' \<in> set (lmsFilteredRecords exLmsRecords exRefs APAC)
   \<and> toUpperCase [CHR 0xC5, CHR 0xBF, CHR ''a''] = ''SA''
   \<and> exGeo ''L4'' [CHR 0xC5, CHR 0xBF, CHR ''a'']
        \<in> set (lmsFilteredRecords exLmsRecords exRefs APAC)
   \<and> toUpperCase ''Emea'' = ''EMEA''
   \<and> geoRegion ''EMEA'' = Some EMEAL
   \<and> exGeo ''L2'' ''Emea'' \<in> set (lmsFilteredRecords exLmsRecords exRefs EMEAL)
   \<and> exGeo ''L2'' ''Emea'' \<notin> set (lmsFilteredRecords exLmsRecords exRefs APAC)
   \<and> exGeo ''E1'' ''NAMER'' \<in> set (lmsFilteredRecords exLmsRecords exRefs APAC)
   \<and> exGeo ''E1'' ''NAMER'' \<notin> set (lmsFilteredRecords exLmsRecords exRefs NAMER)
   \<and> exGeo ''tbh'' ''EMEA'' \<in> set (lmsFilteredRecords exLmsRecords exRefs APAC)
   \<and> map v1Record (lmsV1 (runLmsValidation noParse v8 exLmsRecords exRefs ''Feb-26'' APAC))
       = lmsFilteredRecords exLmsRecords exRefs APAC"
proof -
  have n: "\<not> isTbhOrBlank ''L1''" "\<not> isTbhOrBlank ''L2''" "\<not> isTbhOrBlank ''L4''"
      "\<not> isTbhOrBlank ''E1''" "isTbhOrBlank ''tbh''"
    by code_simp+
  have f: "filter (\<lambda>r. refEid r = ''L1'') exRefs = []"
      "filter (\<lambda>r. refEid r = ''L2'') exRefs = []"
      "filter (\<lambda>r. refEid r = ''L4'') exRefs = []"
      "filter (\<lambda>r. refEid r = ''E1'') exRefs
         = [exRef ''E1'' (Some ''No'') None (Some ''Japan''),
            exRef ''E1'' (Some ''Yes'') None (Some ''Japan'')]"
    by code_simp+
  have x: "map refEid exRefs = [''E1'', ''E3'', ''E1'', ''E3'']"
      "map country exRefs = [Some ''Japan'', Some ''Canada'', Some ''Japan'', None]"
    by code_simp+
  have u: "toUpperCase ''sa'' = ''SA''" "toUpperCase ''Emea'' = ''EMEA''"
      "toUpperCase ''NAMER'' = ''NAMER''" "toUpperCase [CHR 0xC5, CHR 0xBF, CHR ''a''] = ''SA''"
    by code_simp+
  have g: "geoRegion ''EMEA'' = Some EMEAL" by (simp add: geoRegion_def)
  have c: "country (exRef ''E1'' (Some ''No'') None (Some ''Japan'')) = Some ''Japan''"
      "country (exRef ''E1'' (Some ''Yes'') None (Some ''Japan'')) = Some ''Japan''"
    by (simp_all add: exRef_def)
  have j: "''Japan'' \<in> set (getCountriesForRegion APAC)"
      "''Japan'' \<notin> set (getCountriesForRegion NAMER)"
    by code_simp+
  have m: "exGeo ''L1'' ''sa'' \<in> set exLmsRecords" "exGeo ''L2'' ''Emea'' \<in> set exLmsRecords"
      "exGeo ''E1'' ''NAMER'' \<in> set exLmsRecords"
      "exGeo ''L4'' [CHR 0xC5, CHR 0xBF, CHR ''a''] \<in> set exLmsRecords"
      "exGeo ''tbh'' ''EMEA'' \<in> set exLmsRecords"
    by (simp_all add: exLmsRecords_def longS_def)
  have a1: "exGeo ''L1'' ''sa'' \<in> set (lmsFilteredRecords exLmsRecords exRefs APAC)"
    using lms_region_filter [of noParse v8 exLmsRecords exRefs "''Feb-26''" APAC
        "exGeo ''L1'' ''sa''"]
    by (simp add: ex_geo_fields n f u m)
  have a2: "exGeo ''L2'' ''Emea'' \<in> set (lmsFilteredRecords exLmsRecords exRefs EMEAL)"
    using lms_region_filter [of noParse v8 exLmsRecords exRefs "''Feb-26''" EMEAL
        "exGeo ''L2'' ''Emea''"]
    by (simp add: ex_geo_fields n f u m g)
  have a3: "exGeo ''L2'' ''Emea'' \<notin> set (lmsFilteredRecords exLmsRecords exRefs APAC)"
    using lms_region_filter [of noParse v8 exLmsRecords exRefs "''Feb-26''" APAC
        "exGeo ''L2'' ''Emea''"]
    by (simp add: ex_geo_fields n f u m g)
  have a4: "exGeo ''E1'' ''NAMER'' \<in> set (lmsFilteredRecords exLmsRecords exRefs APAC)"
    using lms_region_filter [of noParse v8 exLmsRecords exRefs "''Feb-26''" APAC
        "exGeo ''E1'' ''NAMER''"]
    by (simp add: ex_geo_fields n f u m c j)
  have a5: "exGeo ''E1'' ''NAMER'' \<notin> set (lmsFilteredRecords exLmsRecords exRefs NAMER)"
    using lms_region_filter [of noParse v8 exLmsRecords exRefs "''Feb-26''" NAMER
        "exGeo ''E1'' ''NAMER''"]
    by (simp add: ex_geo_fields n f u m c j)
  have a6: "exGeo ''L4'' [CHR 0xC5, CHR 0xBF, CHR ''a'']
        \<in> set (lmsFilteredRecords exLmsRecords exRefs APAC)"
    using lms_region_filter [of noParse v8 exLmsRecords exRefs "''Feb-26''" APAC
        "exGeo ''L4'' [CHR 0xC5, CHR 0xBF, CHR ''a'']"]
    by (simp add: ex_geo_fields n f u m)
  have a7: "exGeo ''tbh'' ''EMEA'' \<in> set (lmsFilteredRecords exLmsRecords exRefs APAC)"
    using lms_region_filter [of noParse v8 exLmsRecords exRefs "''Feb-26''" APAC
        "exGeo ''tbh'' ''EMEA''"]
    by (simp add: ex_geo_fields n m)
  have a8: "map v1Record (lmsV1 (runLmsValidation noParse v8 exLmsRecords exRefs ''Feb-26'' APAC))
       = lmsFilteredRecords exLmsRecords exRefs APAC"
    using lms_region_filter [of noParse v8 exLmsRecords exRefs "''Feb-26''" APAC
        "exGeo ''L1'' ''sa''"]
    by simp
  from n x u g j a1 a2 a3 a4 a5 a6 a7 a8 show ?thesis by simp
qed

text \<open>
  C7 as stated fails on a placeholder identifier with roster entries: the record
  \<open>exPlaceholder\<close> has one roster entry, whose country is not in the valid set of the
  selected region, and it passes the filter.
\<close>

theorem placeholder_passes_filter:
  "employeeId exPlaceholder = ''TBH-9''
   \<and> map refEid exPlaceholderRoster = [''TBH-9'']
   \<and> map country exPlaceholderRoster = [Some ''Canada'']
   \<and> ''Canada'' \<notin> set (getCountriesForRegion APAC)
   \<and> lmsFilteredRecords [exPlaceholder] exPlaceholderRoster APAC = [exPlaceholder]
   \<and> map v1Record
       (lmsV1 (runLmsValidation noParse v8 [exPlaceholder] exPlaceholderRoster ''Feb-26'' APAC))
       = [exPlaceholder]"
  by code_simp

text \<open>
  C5, as amended. In the LMS alignment check, for a record of the run with a quarterly plan
  (\<open>qtrly\<close> in any case) and effective month \<open>m\<close> from 1 to 6, the months expected to
  hold a positive amount are exactly the months from \<open>m\<close> through the quarter boundary,
  month 3 when \<open>m\<close> is at most 3 and month 6 otherwise; for \<open>m = 2\<close> these are February
  and March. A record with a placeholder identifier is not reported at all. For every other
  record, in a stream that the component of the record has checked, a value that is not
  positive in an expected month is reported as a missing-amount issue, and a positive value
  in any other month of the window as a should-be-zero issue.
\<close>

theorem qtrly_alignment:
  fixes pf fnText records refRecords selectedProcessingMonth selectedRegion rec y mo k c
  defines "out \<equiv>
    runLmsValidation pf fnText records refRecords selectedProcessingMonth selectedRegion"
  defines "m \<equiv> mo + 1"
  defines "val1 \<equiv> lmsMonthValue (rev1Monthly rec) k"
  defines "val2 \<equiv> lmsMonthValue (rev2Monthly rec) k"
  assumes filtered: "rec \<in> set (lmsFilteredRecords records refRecords selectedRegion)"
    and date: "quotaEffectiveDate rec = Some (ValidDate y mo)"
    and window: "m \<le> 6"
    and plan: "toLowerCase (planType rec) = ''qtrly''"
    and month: "(k, c) \<in> set windowMonths"
  shows "getExpectedActiveMonths (Some m) (planType rec)
       = map (\<lambda>(k, c). (k, m \<le> c \<and> c \<le> quarterBoundary m)) windowMonths
    \<and> (m = 2 \<longrightarrow> map fst (filter snd (getExpectedActiveMonths (Some m) (planType rec)))
                   = [''FEB'', ''MAR''])
    \<and> (isTbhOrBlank (employeeId rec) \<longrightarrow> rec \<notin> lmsV2Record ` set (lmsV2 out))
    \<and> (\<not> isTbhOrBlank (employeeId rec) \<and> checkRev1 rec \<and> expectsAmount m c
          \<and> \<not> hasPositiveAmount pf val1
          \<longrightarrow> reported out rec (missingAmountReport ''Rev1'' k (planType rec) m val1))
    \<and> (\<not> isTbhOrBlank (employeeId rec) \<and> checkRev1 rec \<and> \<not> expectsAmount m c
          \<and> hasPositiveAmount pf val1
          \<longrightarrow> reported out rec (shouldBeZeroIssue ''Rev1'' k val1))
    \<and> (\<not> isTbhOrBlank (employeeId rec) \<and> checkRev2 rec \<and> expectsAmount m c
          \<and> \<not> hasPositiveAmount pf val2
          \<longrightarrow> reported out rec (missingAmountReport ''Rev2'' k (planType rec) m val2))
    \<and> (\<not> isTbhOrBlank (employeeId rec) \<and> checkRev2 rec \<and> \<not> expectsAmount m c
          \<and> hasPositiveAmount pf val2
          \<longrightarrow> reported out rec (shouldBeZeroIssue ''Rev2'' k val2))"
proof (intro conjI impI)
  note e = getExpectedActiveMonths_qtrly [OF plan, of m]
  have m1: "1 \<le> m" by (simp add: m_def)
  note ma = missingAmount_eq [OF m1 window]
  show "getExpectedActiveMonths (Some m) (planType rec)
       = map (\<lambda>(k, c). (k, m \<le> c \<and> c \<le> quarterBoundary m)) windowMonths"
    by (simp add: e expectsAmount_def)
  show "map fst (filter snd (getExpectedActiveMonths (Some m) (planType rec)))
      = [''FEB'', ''MAR'']"
    if "m = 2"
    using that
    by (simp add: getExpectedActiveMonths_qtrly [OF plan] expectsAmount_def quarterBoundary_def
        windowMonths_def)
  show "rec \<notin> lmsV2Record ` set (lmsV2 out)" if "isTbhOrBlank (employeeId rec)"
    using that lmsV2_member [of rec pf fnText records refRecords selectedProcessingMonth
        selectedRegion]
    by (auto simp: out_def alignmentCheck_placeholder)
  have rep: "reported out rec iss"
    if "\<not> isTbhOrBlank (employeeId rec)"
      and "iss \<in> set (monthIssues pf rec (Some m) k (expectsAmount m c))" for iss
  proof -
    from monthIssues_in_loop [OF expected_member [OF plan month, of m] that(2)]
    have "iss \<in> set (issuesLoop pf rec (Some (mo + 1))
                    (getExpectedActiveMonths (Some (mo + 1)) (planType rec)) [])"
      by (simp add: m_def)
    from reported_in_run [OF filtered that(1) date _ this] window
    show ?thesis by (simp add: out_def m_def)
  qed
  show "reported out rec (missingAmountReport ''Rev1'' k (planType rec) m val1)"
    if "\<not> isTbhOrBlank (employeeId rec) \<and> checkRev1 rec \<and> expectsAmount m c
          \<and> \<not> hasPositiveAmount pf val1"
    using that
    by (intro rep) (simp_all add: monthIssues_def streamIssues_def val1_def ma)
  show "reported out rec (shouldBeZeroIssue ''Rev1'' k val1)"
    if "\<not> isTbhOrBlank (employeeId rec) \<and> checkRev1 rec \<and> \<not> expectsAmount m c
          \<and> hasPositiveAmount pf val1"
    using that
    by (intro rep)
       (simp_all add: monthIssues_def streamIssues_def val1_def unexpected_qtrly [OF plan])
  show "reported out rec (missingAmountReport ''Rev2'' k (planType rec) m val2)"
    if "\<not> isTbhOrBlank (employeeId rec) \<and> checkRev2 rec \<and> expectsAmount m c
          \<and> \<not> hasPositiveAmount pf val2"
    using that
    by (intro rep) (simp_all add: monthIssues_def streamIssues_def val2_def ma)
  show "reported out rec (shouldBeZeroIssue ''Rev2'' k val2)"
    if "\<not> isTbhOrBlank (employeeId rec) \<and> checkRev2 rec \<and> \<not> expectsAmount m c
          \<and> hasPositiveAmount pf val2"
    using that
    by (intro rep)
       (simp_all add: monthIssues_def streamIssues_def val2_def unexpected_qtrly [OF plan])
qed

theorem qtrly_alignment_witness:
  "exQtrly \<in> set (lmsFilteredRecords [exQtrly] [] APAC)
   \<and> \<not> isTbhOrBlank (employeeId exQtrly)
   \<and> quotaEffectiveDate exQtrly = Some (ValidDate 2026 1)
   \<and> planType exQtrly = ''QTRLY'' \<and> toLowerCase ''QTRLY'' = ''qtrly''
   \<and> component exQtrly = ''Rev 1 & Rev 2''
   \<and> getExpectedActiveMonths (Some 2) ''QTRLY''
       = [(''JAN'', False), (''FEB'', True), (''MAR'', True), (''APR'', False), (''MAY'', False),
          (''JUN'', False)]
   \<and> lmsMonthValue (rev1Monthly exQtrly) ''FEB'' = Number (Finite 0)
   \<and> reported (runLmsValidation noParse v8 [exQtrly] [] ''Feb-26'' APAC) exQtrly
        \<lparr>column = ''Rev1-FEB'', issueMonth = ''FEB'', issueType = missing_amount,
         expectedBehavior = ''Expected amount > 0 (QTRLY, effective from FEB)'',
         actualValue = Number (Finite 0)\<rparr>
   \<and> lmsMonthValue (rev1Monthly exQtrly) ''APR'' = Number (Finite 50)
   \<and> reported (runLmsValidation noParse v8 [exQtrly] [] ''Feb-26'' APAC) exQtrly
        \<lparr>column = ''Rev1-APR'', issueMonth = ''APR'', issueType = should_be_zero,
         expectedBehavior = ''Month before effective date or after quarter end should be 0'',
         actualValue = Number (Finite 50)\<rparr>
   \<and> lmsMonthValue (rev2Monthly exQtrly) ''JUN'' = Number (Finite 5)
   \<and> reported (runLmsValidation noParse v8 [exQtrly] [] ''Feb-26'' APAC) exQtrly
        \<lparr>column = ''Rev2-JUN'', issueMonth = ''JUN'', issueType = should_be_zero,
         expectedBehavior = ''Month before effective date or after quarter end should be 0'',
         actualValue = Number (Finite 5)\<rparr>"
proof -
  let ?out = "runLmsValidation noParse v8 [exQtrly] [] ''Feb-26'' APAC"
  have n: "\<not> isTbhOrBlank (employeeId exQtrly)"
    by code_simp
  have d: "Suc 1 \<le> 6" by simp
  have p: "toLowerCase (planType exQtrly) = ''qtrly''" "toLowerCase ''QTRLY'' = ''qtrly''"
    by code_simp+
  have w: "(''FEB'', 2) \<in> set windowMonths" "(''APR'', 4) \<in> set windowMonths"
      "(''JUN'', 6) \<in> set windowMonths"
    by (simp_all add: windowMonths_def)
  have x: "expectsAmount 2 2" "\<not> expectsAmount 2 4" "\<not> expectsAmount 2 6"
    by (simp_all add: expectsAmount_def quarterBoundary_def)
  have c: "checkRev1 exQtrly" "checkRev2 exQtrly"
    by (simp_all add: checkRev1_def checkRev2_def exQtrly_fields)
  have v: "lmsMonthValue (rev1Monthly exQtrly) ''FEB'' = Number (Finite 0)"
      "lmsMonthValue (rev1Monthly exQtrly) ''APR'' = Number (Finite 50)"
      "lmsMonthValue (rev2Monthly exQtrly) ''JUN'' = Number (Finite 5)"
    by (simp_all add: exQtrly_fields lmsAmounts_def lmsMonthValue_def zeroAmount_def)
  have h: "\<not> hasPositiveAmount noParse (Number (Finite 0))"
      "hasPositiveAmount noParse (Number (Finite 50))"
      "hasPositiveAmount noParse (Number (Finite 5))"
    by (simp_all add: hasPositiveAmount_def)
  have i: "missingAmountReport ''Rev1'' ''FEB'' ''QTRLY'' 2 (Number (Finite 0))
       = \<lparr>column = ''Rev1-FEB'', issueMonth = ''FEB'', issueType = missing_amount,
          expectedBehavior = ''Expected amount > 0 (QTRLY, effective from FEB)'',
          actualValue = Number (Finite 0)\<rparr>"
      "shouldBeZeroIssue ''Rev1'' ''APR'' (Number (Finite 50))
       = \<lparr>column = ''Rev1-APR'', issueMonth = ''APR'', issueType = should_be_zero,
          expectedBehavior = ''Month before effective date or after quarter end should be 0'',
          actualValue = Number (Finite 50)\<rparr>"
      "shouldBeZeroIssue ''Rev2'' ''JUN'' (Number (Finite 5))
       = \<lparr>column = ''Rev2-JUN'', issueMonth = ''JUN'', issueType = should_be_zero,
          expectedBehavior = ''Month before effective date or after quarter end should be 0'',
          actualValue = Number (Finite 5)\<rparr>"
    by (simp_all add: missingAmountReport_def shouldBeZeroIssue_def windowMonths_def)
  have two: "Suc 1 = 2" by simp
  note t = qtrly_alignment [OF exQtrly_filtered exQtrly_fields(3) _ p(1),
      of _ _ noParse v8 "''Feb-26''", unfolded Suc_eq_plus1 [symmetric] two exQtrly_fields(2)]
  from t [OF _ w(1), THEN conjunct1]
  have a1: "getExpectedActiveMonths (Some 2) ''QTRLY''
       = [(''JAN'', False), (''FEB'', True), (''MAR'', True), (''APR'', False), (''MAY'', False),
          (''JUN'', False)]"
    by (simp add: windowMonths_def quarterBoundary_def)
  from t [OF _ w(1), THEN conjunct2, THEN conjunct2, THEN conjunct2] n x c v h
  have a2: "reported ?out exQtrly (missingAmountReport ''Rev1'' ''FEB'' ''QTRLY'' 2
      (Number (Finite 0)))"
    by simp
  from t [OF _ w(2), THEN conjunct2, THEN conjunct2, THEN conjunct2] n x c v h
  have a3: "reported ?out exQtrly (shouldBeZeroIssue ''Rev1'' ''APR'' (Number (Finite 50)))"
    by simp
  from t [OF _ w(3), THEN conjunct2, THEN conjunct2, THEN conjunct2] n x c v h
  have a4: "reported ?out exQtrly (shouldBeZeroIssue ''Rev2'' ''JUN'' (Number (Finite 5)))"
    by simp
  from exQtrly_filtered n exQtrly_fields(2,3,4) p v a1 a2 [unfolded i] a3 [unfolded i]
    a4 [unfolded i]
  show ?thesis by simp
qed

text \<open>
  C5 as stated fails on a placeholder identifier. The record \<open>exQtrlyTbh\<close> passes the
  region filter, has a quarterly plan effective from February and a checked stream 1 with
  a zero amount in February, an expected month; the alignment check reports nothing.
\<close>

theorem placeholder_not_aligned:
  "employeeId exQtrlyTbh = ''TBH''
   \<and> planType exQtrlyTbh = ''Qtrly'' \<and> toLowerCase ''Qtrly'' = ''qtrly''
   \<and> quotaEffectiveDate exQtrlyTbh = Some (ValidDate 2026 1)
   \<and> component exQtrlyTbh = ''Non-SA'' \<and> checkRev1 exQtrlyTbh
   \<and> getExpectedActiveMonths (Some 2) ''Qtrly''
       = [(''JAN'', False), (''FEB'', True), (''MAR'', True), (''APR'', False), (''MAY'', False),
          (''JUN'', False)]
   \<and> lmsMonthValue (rev1Monthly exQtrlyTbh) ''FEB'' = Number (Finite 0)
   \<and> \<not> hasPositiveAmount noParse (Number (Finite 0))
   \<and> lmsFilteredRecords [exQtrlyTbh] [] APAC = [exQtrlyTbh]
   \<and> lmsV2 (runLmsValidation noParse v8 [exQtrlyTbh] [] ''Feb-26'' APAC) = []"
  by code_simp

text \<open>
  C6. A record whose effective month is greater than 6 is skipped (lemma
  \<open>alignmentCheck_skipped\<close>). The clamp to January does not happen for an effective date
  before January of the window. The record \<open>exPriorMarch\<close>, effective from March 2025,
  is validated with effective month 3 and not with effective month 1: its zero amounts of
  January and February raise no issue, where effective month 1 gives two missing-amount
  issues. The record \<open>exPriorNov\<close>, effective from November 2025, is skipped.
\<close>

theorem prior_year_not_clamped:
  "quotaEffectiveDate exPriorMarch = Some mar25
   \<and> getUTCFullYear mar25 = Some 2025 \<and> numAdd (getUTCMonth mar25) (Some 1) = Some 3
   \<and> alignmentCheck noParse exPriorMarch = None
   \<and> issuesLoop noParse exPriorMarch (Some 3)
        (getExpectedActiveMonths (Some 3) (planType exPriorMarch)) [] = []
   \<and> map column (issuesLoop noParse exPriorMarch (Some 1)
        (getExpectedActiveMonths (Some 1) (planType exPriorMarch)) []) = [''Rev1-JAN'', ''Rev1-FEB'']
   \<and> map issueType (issuesLoop noParse exPriorMarch (Some 1)
        (getExpectedActiveMonths (Some 1) (planType exPriorMarch)) [])
       = [missing_amount, missing_amount]
   \<and> quotaEffectiveDate exPriorNov = Some nov25
   \<and> getUTCFullYear nov25 = Some 2025 \<and> numAdd (getUTCMonth nov25) (Some 1) = Some 11
   \<and> alignmentCheck noParse exPriorNov = None
   \<and> lmsFilteredRecords [exPriorMarch, exPriorNov] [] APAC = [exPriorMarch, exPriorNov]
   \<and> lmsV2 (runLmsValidation noParse v8 [exPriorMarch, exPriorNov] [] ''Feb-26'' APAC) = []"
  by code_simp

end
